theory Spec2Isabelle
  imports Main "HOL-Library.Word"
begin

section \<open>x3f\_extract: a shallow embedding of \<open>src/x3f_extract.cpp\<close>\<close>

text \<open>
  The program is one translation unit: two bounded string helpers, the path builder
  \<open>make_paths\<close>, the directory check \<open>check_dir\<close> and \<open>main\<close>.  C strings are
  modelled as \<open>string\<close> (the bytes before the terminating NUL), C \<open>int\<close>s as \<open>int\<close>
  (no counter of the program exceeds 6), the 32-bit header version as \<open>32 word\<close>.
  Every call that leaves the translation unit (the x3f library, stdio, the file
  system) is answered by a \<open>world\<close> record and logged as an \<open>event\<close>; \<open>main\<close>
  returns its exit status together with the list of events in program order.
\<close>


subsection \<open>Types of the headers the translation unit includes, and the events\<close>

text \<open>
  Modelled from the spec: the declarations of the included x3f headers are not part of
  the sources.  The colour encodings are the six constants \<open>main\<close> assigns (spec 3:
  a 6-element enumeration); a return code is \<open>X3F_OK\<close> or a failure, which \<open>main\<close>
  only compares with \<open>X3F_OK\<close> and hands to \<open>x3f_err\<close>; the verbosity levels are
  those \<open>main\<close> passes to \<open>x3f_printf\<close>.  A directory entry is an opaque reference
  (spec 3, SectionRef), a container handle is opaque apart from the header version
  \<open>main\<close> reads, and the four \<open>x3f_get_...\<close> lookups return a directory entry of the
  handle or NULL.
\<close>

datatype x3f_color_encoding_t = NONE | SRGB | ARGB | PPRGB | UNPROCESSED | QTOP

datatype x3f_return_t = X3F_OK | X3F_FAILURE nat

datatype x3f_verbosity_t = ERR | INFO | DEBUG

type_synonym x3f_directory_entry_t = nat

record x3f_t =
  header_version :: "32 word"
  get_thumb_jpeg :: "x3f_directory_entry_t option"
  get_camf :: "x3f_directory_entry_t option"
  get_prop :: "x3f_directory_entry_t option"
  get_raw :: "x3f_directory_entry_t option"


text \<open>The encoder calls of the \<open>switch (file_type)\<close>, with their arguments after \<open>x3f\<close>.\<close>

datatype dump_call =
    Dump_meta_data string
  | Dump_jpeg string
  | Dump_raw_data string
  | Dump_raw_data_as_tiff string x3f_color_encoding_t int int int int "string option" int
  | Dump_raw_data_as_dng string int int int "string option" int
  | Dump_raw_data_as_ppm string x3f_color_encoding_t int int int int "string option" int
  | Dump_raw_data_as_histogram string x3f_color_encoding_t int int int int "string option" int

datatype printf_arg =
    Arg_str "string option"
  | Arg_int int
  | Arg_x3f_err x3f_return_t
  | Arg_version

datatype stream = Stdout | Stderr

text \<open>
  One event per call that leaves the translation unit, with the value it returned where
  \<open>main\<close> looks at it, and per assignment to a global of the library.  The call of
  \<open>make_paths\<close> is logged too, at its entry and with the result \<open>err\<close> it returns,
  so that its place among the container calls is visible; the events of the calls made
  inside it follow.
\<close>

datatype event =
    X3f_printf x3f_verbosity_t string "printf_arg list"
  | Setvbuf stream
  | Cerr_desc
  | Cerr_string string
  | Cerr_endl
  | Fprintf_stderr_Desc
  | Assign_x3f_printf_level x3f_verbosity_t
  | Assign_auto_legacy_offset int
  | Assign_legacy_offset int
  | Assign_max_printed_matrix_elements int
  | Stat string int
  | X3f_set_use_opencl int
  | Fopen string bool
  | X3f_new_from_file "x3f_t option"
  | X3f_get_thumb_jpeg "x3f_directory_entry_t option"
  | X3f_get_camf "x3f_directory_entry_t option"
  | X3f_get_prop "x3f_directory_entry_t option"
  | X3f_get_raw "x3f_directory_entry_t option"
  | X3f_load_data "x3f_directory_entry_t option" x3f_return_t
  | X3f_load_image_block "x3f_directory_entry_t option" x3f_return_t
  | Call_make_paths string "string option" string int
  | Unlink string
  | X3f_dump dump_call x3f_return_t
  | Rename string string int
  | X3f_delete "x3f_t option"
  | Fclose


subsection \<open>Bounded string construction\<close>

definition MAXPATH :: nat where "MAXPATH = 1000"
definition EXTMAX :: nat where "EXTMAX = 10"
definition MAXOUTPATH :: nat where "MAXOUTPATH = MAXPATH + EXTMAX"
definition MAXTMPPATH :: nat where "MAXTMPPATH = MAXOUTPATH + EXTMAX"

text \<open>\<open>strnlen(s, n)\<close>: the length of \<open>s\<close>, but at most \<open>n\<close>.\<close>

definition strnlen :: "string \<Rightarrow> nat \<Rightarrow> nat" where
  "strnlen s n = min (length s) n"

text \<open>
  \<open>safecpy\<close> and \<open>safecat\<close> return their events (the \<open>x3f_printf\<close> of the failure
  branch), the error flag and the content of the destination buffer afterwards:
  unchanged when the check fails, as the source leaves it.
\<close>

definition safecpy :: "string \<Rightarrow> string \<Rightarrow> nat \<Rightarrow> event list \<times> int \<times> string" where
  "safecpy dst src dst_size =
     (if strnlen src (dst_size + 1) > dst_size
      then ([X3f_printf DEBUG ''safecpy: String too large\<newline>'' []], 1, dst)
      else ([], 0, src))"

definition safecat :: "string \<Rightarrow> string \<Rightarrow> nat \<Rightarrow> event list \<times> int \<times> string" where
  "safecat dst src dst_size =
     (if strnlen dst (dst_size + 1) + strnlen src (dst_size + 1) > dst_size
      then ([X3f_printf DEBUG ''safecat: String too large\<newline>'' []], 1, dst)
      else ([], 0, dst @ src))"

text \<open>The two branches of the \<open>#if defined(_WIN32) || defined(_WIN64)\<close>.\<close>

datatype platform = Windows | Other

definition PATHSEP :: "platform \<Rightarrow> string" where
  "PATHSEP pf = (case pf of Windows \<Rightarrow> [CHR 0x5C] | Other \<Rightarrow> ''/'')"

definition pathseps :: "platform \<Rightarrow> string" where
  "pathseps pf = (case pf of Windows \<Rightarrow> PATHSEP pf @ ''/:'' | Other \<Rightarrow> PATHSEP pf)"

text \<open>\<open>strrchr(s, c)\<close> as the offset of the last occurrence of \<open>c\<close>, \<open>None\<close> for NULL.\<close>

fun strrchr :: "string \<Rightarrow> char \<Rightarrow> nat option" where
  "strrchr [] c = None"
| "strrchr (x # xs) c =
     (case strrchr xs c of
        Some p \<Rightarrow> Some (Suc p)
      | None \<Rightarrow> if x = c then Some 0 else None)"

text \<open>
  The loop \<open>for (sep=pathseps; *sep; sep++) if ((p = strrchr(inpath, *sep)) && p+1 > ptr) ptr = p+1;\<close>
  with \<open>ptr\<close> as an offset into \<open>inpath\<close>.
\<close>

fun basename_loop :: "string \<Rightarrow> string \<Rightarrow> nat \<Rightarrow> nat" where
  "basename_loop inpath [] ptr = ptr"
| "basename_loop inpath (sep # seps) ptr =
     basename_loop inpath seps
       (case strrchr inpath sep of
          Some p \<Rightarrow> if p + 1 > ptr then p + 1 else ptr
        | None \<Rightarrow> ptr)"

text \<open>
  \<open>make_paths\<close>.  \<open>tmppath0\<close> and \<open>outpath0\<close> are what the caller's uninitialised
  buffers hold on entry; the result is the events of the calls of \<open>safecpy\<close> and
  \<open>safecat\<close> in program order, and \<open>(err, tmppath, outpath)\<close> on return.
  \<open>outdir = None\<close> is the NULL pointer.
\<close>

definition make_paths ::
  "platform \<Rightarrow> string \<Rightarrow> string option \<Rightarrow> string \<Rightarrow> string \<Rightarrow> string \<Rightarrow>
     event list \<times> int \<times> string \<times> string" where
  "make_paths pf inpath outdir ext tmppath0 outpath0 =
     (let (t1, err1, outpath1) =
            (case outdir of
               Some od \<Rightarrow>
                 if od \<noteq> [] then
                   (let ptr = basename_loop inpath (pathseps pf) 0;
                        (d1, e1, o1) = safecpy outpath0 od MAXOUTPATH;
                        (d2, e2, o2) = (if \<not> (last od \<in> set (pathseps pf))
                                        then safecat o1 (PATHSEP pf) MAXOUTPATH
                                        else ([], 0, o1));
                        (d3, e3, o3) = safecat o2 (drop ptr inpath) MAXOUTPATH
                    in (d1 @ d2 @ d3, 0 + e1 + e2 + e3, o3))
                 else (let (d, e, o1) = safecpy outpath0 inpath MAXOUTPATH in (d, 0 + e, o1))
             | None \<Rightarrow> (let (d, e, o1) = safecpy outpath0 inpath MAXOUTPATH in (d, 0 + e, o1)));
          (d4, e4, outpath2) = safecat outpath1 ext MAXOUTPATH;
          (d5, e5, tmppath1) = safecpy tmppath0 outpath2 MAXTMPPATH;
          (d6, e6, tmppath2) = safecat tmppath1 ''.tmp'' MAXTMPPATH
      in (t1 @ d4 @ d5 @ d6, err1 + e4 + e5 + e6, tmppath2, outpath2))"


subsection \<open>Types and tables of the translation unit\<close>

datatype output_file_type_t = META | JPEG | RAW | TIFF | DNG | PPMP3 | PPMP6 | HISTOGRAM

text \<open>The table \<open>extension[]\<close>, indexed by the enumeration.\<close>

definition extension :: "output_file_type_t \<Rightarrow> string" where
  "extension t =
     (case t of
        META \<Rightarrow> ''.meta''
      | JPEG \<Rightarrow> ''.jpg''
      | RAW \<Rightarrow> ''.raw''
      | TIFF \<Rightarrow> ''.tif''
      | DNG \<Rightarrow> ''.dng''
      | PPMP3 \<Rightarrow> ''.ppm''
      | PPMP6 \<Rightarrow> ''.ppm''
      | HISTOGRAM \<Rightarrow> ''.csv'')"


text \<open>
  The parsed command line, \<open>boost::program_options::variables_map vm\<close>:
  \<open>vm.count(name)\<close> is the flag, or whether the value is \<open>Some\<close>.
\<close>

record variables_map =
  vm_help :: bool
  vm_output :: "string option"
  vm_debug :: bool
  vm_quiet :: bool
  vm_format :: "string option"
  vm_color :: "string option"
  vm_noCrop :: bool
  vm_noDenoise :: bool
  vm_noSGain :: bool
  vm_sgain :: bool
  vm_noFixBad :: bool
  vm_whiteBalance :: "string option"
  vm_compress :: bool
  vm_ocl :: bool
  vm_offset :: "int option"
  vm_matrixmax :: "int option"
  vm_input :: "string option"

text \<open>The local variables of \<open>main\<close> that the option handling assigns.\<close>

record main_vars =
  extract_jpg :: int
  extract_raw :: int
  extract_unconverted_raw :: int
  crop :: int
  fix_bad :: int
  denoise :: int
  apply_sgain :: int
  file_type :: output_file_type_t
  color_encoding :: x3f_color_encoding_t
  log_hist :: int
  wb :: "string option"
  compress :: int
  use_opencl :: int
  outdir :: "string option"


text \<open>
  What the environment answers.  \<open>w_stat\<close> gives the return value of \<open>stat\<close> and
  \<open>S_ISDIR(st_mode)\<close>; \<open>w_fopen\<close> whether \<open>fopen(infile, "rb")\<close> is non-NULL;
  \<open>w_tmpfile0\<close> and \<open>w_outfile0\<close> the bytes of the uninitialised arrays \<open>tmpfile\<close> and
  \<open>outfile\<close>; \<open>w_X3F_VERSION_4_0\<close> the value of the macro of \<open>x3f_io.h\<close>.
\<close>

record world =
  w_target :: platform
  w_stat :: "string \<Rightarrow> int \<times> bool"
  w_fopen :: "string \<Rightarrow> bool"
  w_x3f_new_from_file :: "string \<Rightarrow> x3f_t option"
  w_x3f_load_data :: "x3f_t \<Rightarrow> x3f_directory_entry_t option \<Rightarrow> x3f_return_t"
  w_x3f_load_image_block :: "x3f_t \<Rightarrow> x3f_directory_entry_t option \<Rightarrow> x3f_return_t"
  w_x3f_dump :: "x3f_t \<Rightarrow> dump_call \<Rightarrow> x3f_return_t"
  w_rename :: "string \<Rightarrow> string \<Rightarrow> int"
  w_X3F_VERSION_4_0 :: "32 word"
  w_tmpfile0 :: string
  w_outfile0 :: string

subsection \<open>\<open>check_dir\<close>\<close>

text \<open>
  The result of \<open>check_dir\<close>, from what \<open>stat\<close> returns and \<open>S_ISDIR\<close> says.  The
  assignment to \<open>errno\<close>, which the program never reads, has no counterpart here.
\<close>

definition check_dir :: "world \<Rightarrow> string \<Rightarrow> int" where
  "check_dir w Path =
     (let (ret, isdir) = w_stat w Path
      in if ret \<noteq> 0 then ret
         else if \<not> isdir then - 1
         else 0)"

subsection \<open>\<open>main\<close>: option handling\<close>

text \<open>The initialisers of the local variables.\<close>

definition init_vars :: main_vars where
  "init_vars =
     \<lparr> extract_jpg = 0, extract_raw = 1, extract_unconverted_raw = 0,
       crop = 1, fix_bad = 1, denoise = 1, apply_sgain = - 1,
       file_type = DNG, color_encoding = SRGB, log_hist = 0, wb = None,
       compress = 0, use_opencl = 0, outdir = None \<rparr>"

text \<open>The macro \<open>Z\<close>.\<close>

definition Z :: "main_vars \<Rightarrow> main_vars" where
  "Z v = v\<lparr>extract_jpg := 0, extract_raw := 0, extract_unconverted_raw := 0\<rparr>"

text \<open>
  The chain over \<open>fmt\<close> inside \<open>if( vm.count("format") )\<close>; \<open>None\<close> is the final
  \<open>else\<close>, which prints and returns 1.
\<close>

definition set_format :: "string \<Rightarrow> main_vars \<Rightarrow> main_vars option" where
  "set_format fmt v0 =
     (let v = Z v0 in
      if fmt = ''jpg'' then Some (v\<lparr>extract_jpg := 1, file_type := JPEG\<rparr>)
      else if fmt = ''meta'' then Some (v\<lparr>file_type := META\<rparr>)
      else if fmt = ''raw'' then Some (v\<lparr>extract_unconverted_raw := 1, file_type := RAW\<rparr>)
      else if fmt = ''tiff'' then Some (v\<lparr>extract_raw := 1, file_type := TIFF\<rparr>)
      else if fmt = ''dng'' then Some (v\<lparr>extract_raw := 1, file_type := DNG\<rparr>)
      else if fmt = ''ppm-ascii'' then Some (v\<lparr>extract_raw := 1, file_type := PPMP3\<rparr>)
      else if fmt = ''ppm'' then Some (v\<lparr>extract_raw := 1, file_type := PPMP6\<rparr>)
      else if fmt = ''histogram'' then Some (v\<lparr>extract_raw := 1, file_type := HISTOGRAM\<rparr>)
      else if fmt = ''loghist'' then
        Some (v\<lparr>extract_raw := 1, file_type := HISTOGRAM, log_hist := 1\<rparr>)
      else None)"

definition set_color :: "string \<Rightarrow> main_vars \<Rightarrow> main_vars option" where
  "set_color spc v =
     (if spc = ''none'' then Some (v\<lparr>color_encoding := NONE\<rparr>)
      else if spc = ''sRGB'' then Some (v\<lparr>color_encoding := SRGB\<rparr>)
      else if spc = ''AdobeRGB'' then Some (v\<lparr>color_encoding := ARGB\<rparr>)
      else if spc = ''ProPhotoRGB'' then Some (v\<lparr>color_encoding := PPRGB\<rparr>)
      else if spc = ''unprocessed'' then Some (v\<lparr>color_encoding := UNPROCESSED\<rparr>)
      else if spc = ''qtop'' then Some (v\<lparr>color_encoding := QTOP\<rparr>)
      else None)"

text \<open>
  The switches from \<open>debug\<close> to \<open>matrixmax\<close>: the assignments to local variables, and
  the assignments to the library's globals as events, both in source order.
\<close>

definition set_switches :: "variables_map \<Rightarrow> main_vars \<Rightarrow> main_vars" where
  "set_switches vm v0 =
     (let v1 = (if vm_noCrop vm then v0\<lparr>crop := 0\<rparr> else v0);
          v2 = (if vm_noFixBad vm then v1\<lparr>fix_bad := 0\<rparr> else v1);
          v3 = (if vm_noDenoise vm then v2\<lparr>denoise := 0\<rparr> else v2);
          v4 = (if vm_noSGain vm then v3\<lparr>apply_sgain := 0\<rparr> else v3);
          v5 = (if vm_sgain vm then v4\<lparr>apply_sgain := 1\<rparr> else v4);
          v6 = (case vm_whiteBalance vm of Some s \<Rightarrow> v5\<lparr>wb := Some s\<rparr> | None \<Rightarrow> v5);
          v7 = (if vm_compress vm then v6\<lparr>compress := 1\<rparr> else v6);
          v8 = (if vm_ocl vm then v7\<lparr>use_opencl := 1\<rparr> else v7)
      in v8)"

definition switch_events :: "variables_map \<Rightarrow> event list" where
  "switch_events vm =
     (if vm_debug vm then [Assign_x3f_printf_level DEBUG] else []) @
     (if vm_quiet vm then [Assign_x3f_printf_level ERR] else []) @
     (case vm_offset vm of
        Some n \<Rightarrow> [Assign_auto_legacy_offset 0, Assign_legacy_offset n]
      | None \<Rightarrow> []) @
     (case vm_matrixmax vm of
        Some n \<Rightarrow> [Assign_max_printed_matrix_elements n]
      | None \<Rightarrow> [])"

text \<open>\<open>if( vm.count("output") ) { ... }\<close>: the new variables and the events.\<close>

definition set_output :: "world \<Rightarrow> variables_map \<Rightarrow> main_vars \<Rightarrow> main_vars \<times> event list" where
  "set_output w vm v =
     (case vm_output vm of
        Some soutdir \<Rightarrow>
          (let r = check_dir w soutdir
           in (v\<lparr>outdir := Some soutdir\<rparr>,
               Stat soutdir (fst (w_stat w soutdir)) #
               (if r \<noteq> 0 then [Cerr_desc, Cerr_endl] else [])))
      | None \<Rightarrow> (v, []))"

text \<open>The assignment to \<open>extract_meta\<close>; a C condition is true when it is not 0.\<close>

definition extract_meta :: "main_vars \<Rightarrow> int" where
  "extract_meta v =
     (if file_type v = META \<or> file_type v = DNG \<or>
         (extract_raw v \<noteq> 0 \<and>
          (crop v \<noteq> 0 \<or> (color_encoding v \<noteq> UNPROCESSED \<and> color_encoding v \<noteq> QTOP)))
      then 1 else 0)"

subsection \<open>\<open>main\<close>: the section loads\<close>

text \<open>
  A block of statements yields its events and whether it left by \<open>goto found_error\<close>;
  \<open>then_do\<close> runs the second block only when the first one fell through.
\<close>

type_synonym block = "event list \<times> bool"

definition then_do :: "block \<Rightarrow> block \<Rightarrow> block" where
  "then_do b1 b2 = (if snd b1 then b1 else (fst b1 @ fst b2, snd b2))"

definition load_jpg :: "world \<Rightarrow> main_vars \<Rightarrow> string \<Rightarrow> x3f_t \<Rightarrow> block" where
  "load_jpg w v infile x3f =
     (if extract_jpg v \<noteq> 0 then
        (let de = get_thumb_jpeg x3f;
             ret = w_x3f_load_data w x3f de
         in if X3F_OK \<noteq> ret then
              ([X3f_get_thumb_jpeg de, X3f_load_data de ret,
                X3f_printf ERR ''Could not load JPEG thumbnail from %s (%s)\<newline>''
                  [Arg_str (Some infile), Arg_x3f_err ret]], True)
            else ([X3f_get_thumb_jpeg de, X3f_load_data de ret], False))
      else ([], False))"

definition load_meta :: "world \<Rightarrow> main_vars \<Rightarrow> string \<Rightarrow> x3f_t \<Rightarrow> block" where
  "load_meta w v infile x3f =
     (if extract_meta v \<noteq> 0 then
        (let DE = get_prop x3f;
             camf = get_camf x3f;
             ret = w_x3f_load_data w x3f camf
         in if X3F_OK \<noteq> ret then
              ([X3f_get_prop DE, X3f_get_camf camf, X3f_load_data camf ret,
                X3f_printf ERR ''Could not load CAMF from %s (%s)\<newline>''
                  [Arg_str (Some infile), Arg_x3f_err ret]], True)
            else if DE \<noteq> None then
              (let ret2 = w_x3f_load_data w x3f DE
               in if X3F_OK \<noteq> ret2 then
                    ([X3f_get_prop DE, X3f_get_camf camf, X3f_load_data camf ret,
                      X3f_load_data DE ret2,
                      X3f_printf ERR ''Could not load PROP from %s (%s)\<newline>''
                        [Arg_str (Some infile), Arg_x3f_err ret2]], True)
                  else
                    ([X3f_get_prop DE, X3f_get_camf camf, X3f_load_data camf ret,
                      X3f_load_data DE ret2], False))
            else ([X3f_get_prop DE, X3f_get_camf camf, X3f_load_data camf ret], False))
      else ([], False))"

definition load_raw :: "world \<Rightarrow> main_vars \<Rightarrow> string \<Rightarrow> x3f_t \<Rightarrow> block" where
  "load_raw w v infile x3f =
     (if extract_raw v \<noteq> 0 then
        (let DE = get_raw x3f
         in if DE = None then
              ([X3f_get_raw DE,
                X3f_printf ERR ''Could not find any matching RAW format\<newline>'' []], True)
            else
              (let ret = w_x3f_load_data w x3f DE
               in if X3F_OK \<noteq> ret then
                    ([X3f_get_raw DE, X3f_load_data DE ret,
                      X3f_printf ERR ''Could not load RAW from %s (%s)\<newline>''
                        [Arg_str (Some infile), Arg_x3f_err ret]], True)
                  else ([X3f_get_raw DE, X3f_load_data DE ret], False)))
      else ([], False))"

definition load_unconverted_raw :: "world \<Rightarrow> main_vars \<Rightarrow> string \<Rightarrow> x3f_t \<Rightarrow> block" where
  "load_unconverted_raw w v infile x3f =
     (if extract_unconverted_raw v \<noteq> 0 then
        (let DE = get_raw x3f
         in if DE = None then
              ([X3f_get_raw DE,
                X3f_printf ERR ''Could not find any matching RAW format\<newline>'' []], True)
            else
              (let ret = w_x3f_load_image_block w x3f DE
               in if X3F_OK \<noteq> ret then
                    ([X3f_get_raw DE, X3f_load_image_block DE ret,
                      X3f_printf ERR ''Could not load unconverted RAW from %s (%s)\<newline>''
                        [Arg_str (Some infile), Arg_x3f_err ret]], True)
                  else ([X3f_get_raw DE, X3f_load_image_block DE ret], False)))
      else ([], False))"

definition load_sections :: "world \<Rightarrow> main_vars \<Rightarrow> string \<Rightarrow> x3f_t \<Rightarrow> block" where
  "load_sections w v infile x3f =
     then_do (load_jpg w v infile x3f)
       (then_do (load_meta w v infile x3f)
          (then_do (load_raw w v infile x3f)
             (load_unconverted_raw w v infile x3f)))"

subsection \<open>\<open>main\<close>: paths, encoder dispatch and commit\<close>

text \<open>The conditional expression assigned to \<open>sgain\<close>.\<close>

definition resolve_sgain :: "world \<Rightarrow> main_vars \<Rightarrow> x3f_t \<Rightarrow> int" where
  "resolve_sgain w v x3f =
     (if apply_sgain v = - 1
      then (if header_version x3f < w_X3F_VERSION_4_0 w then 1 else 0)
      else apply_sgain v)"

text \<open>The \<open>switch (file_type)\<close>: the message of the case and the encoder call it makes.\<close>

definition dispatch :: "main_vars \<Rightarrow> int \<Rightarrow> string \<Rightarrow> string \<Rightarrow> event \<times> dump_call" where
  "dispatch v sgain tmpfile outfile =
     (case file_type v of
        META \<Rightarrow>
          (X3f_printf INFO ''Dump META DATA to %s\<newline>'' [Arg_str (Some outfile)],
           Dump_meta_data tmpfile)
      | JPEG \<Rightarrow>
          (X3f_printf INFO ''Dump JPEG to %s\<newline>'' [Arg_str (Some outfile)],
           Dump_jpeg tmpfile)
      | RAW \<Rightarrow>
          (X3f_printf INFO ''Dump RAW block to %s\<newline>'' [Arg_str (Some outfile)],
           Dump_raw_data tmpfile)
      | TIFF \<Rightarrow>
          (X3f_printf INFO ''Dump RAW as TIFF to %s\<newline>'' [Arg_str (Some outfile)],
           Dump_raw_data_as_tiff tmpfile (color_encoding v)
             (crop v) (fix_bad v) (denoise v) sgain (wb v) (compress v))
      | DNG \<Rightarrow>
          (X3f_printf INFO ''Dump RAW as DNG to %s\<newline>'' [Arg_str (Some outfile)],
           Dump_raw_data_as_dng tmpfile (fix_bad v) (denoise v) sgain (wb v) (compress v))
      | PPMP3 \<Rightarrow>
          (X3f_printf INFO ''Dump RAW as PPM to %s\<newline>'' [Arg_str (Some outfile)],
           Dump_raw_data_as_ppm tmpfile (color_encoding v)
             (crop v) (fix_bad v) (denoise v) sgain (wb v)
             (if file_type v = PPMP6 then 1 else 0))
      | PPMP6 \<Rightarrow>
          (X3f_printf INFO ''Dump RAW as PPM to %s\<newline>'' [Arg_str (Some outfile)],
           Dump_raw_data_as_ppm tmpfile (color_encoding v)
             (crop v) (fix_bad v) (denoise v) sgain (wb v)
             (if file_type v = PPMP6 then 1 else 0))
      | HISTOGRAM \<Rightarrow>
          (X3f_printf INFO ''Dump RAW as CSV histogram to %s\<newline>'' [Arg_str (Some outfile)],
           Dump_raw_data_as_histogram tmpfile (color_encoding v)
             (crop v) (fix_bad v) (denoise v) sgain (wb v) (log_hist v)))"

text \<open>
  From the call of \<open>make_paths\<close> to \<open>goto clean_up\<close>: the events, the value of
  \<open>errors\<close> afterwards and whether the block left by \<open>goto found_error\<close>.
\<close>

definition dump_and_commit ::
  "world \<Rightarrow> main_vars \<Rightarrow> string \<Rightarrow> x3f_t \<Rightarrow> int \<Rightarrow> event list \<times> int \<times> bool" where
  "dump_and_commit w v infile x3f errors =
     (let (dbg, err, tmpfile, outfile) =
            make_paths (w_target w) infile (outdir v) (extension (file_type v))
              (w_tmpfile0 w) (w_outfile0 w);
          mp = Call_make_paths infile (outdir v) (extension (file_type v)) err
      in if err \<noteq> 0 then
           (mp # dbg @
            [X3f_printf ERR ''Too large outfile path for infile %s and outdir %s\<newline>''
               [Arg_str (Some infile), Arg_str (outdir v)]], errors, True)
         else
           (let sgain = resolve_sgain w v x3f;
                (msg, call) = dispatch v sgain tmpfile outfile;
                ret_dump = w_x3f_dump w x3f call
            in if X3F_OK \<noteq> ret_dump then
                 (mp # dbg @
                  [Unlink tmpfile, msg, X3f_dump call ret_dump,
                   X3f_printf ERR ''Could not dump to %s: %s\<newline>''
                     [Arg_str (Some tmpfile), Arg_x3f_err ret_dump]], errors + 1, False)
               else
                 (let r = w_rename w tmpfile outfile
                  in if r \<noteq> 0 then
                       (mp # dbg @
                        [Unlink tmpfile, msg, X3f_dump call ret_dump,
                         Rename tmpfile outfile r,
                         X3f_printf ERR ''Could not rename %s to %s\<newline>''
                           [Arg_str (Some tmpfile), Arg_str (Some outfile)]], errors + 1, False)
                     else
                       (mp # dbg @
                        [Unlink tmpfile, msg, X3f_dump call ret_dump,
                         Rename tmpfile outfile r], errors, False))))"

subsection \<open>\<open>main\<close>: one input file, and the whole run\<close>

text \<open>
  From \<open>fopen\<close> to the end of the label \<open>clean_up\<close>.  The first component of \<open>body\<close>
  is what happens before one of the two labels is reached; \<open>x3f = None\<close> is the NULL
  pointer.  The result is the events and the counters \<open>files\<close> and \<open>errors\<close>.
\<close>

definition process_file ::
  "world \<Rightarrow> main_vars \<Rightarrow> string \<Rightarrow> int \<Rightarrow> int \<Rightarrow> event list \<times> int \<times> int" where
  "process_file w v infile files0 errors0 =
     (let f_in = w_fopen w infile;
          files = files0 + 1;
          (body, errors1, found_error, x3f) =
            (if \<not> f_in then
               ([X3f_printf ERR ''Could not open infile %s\<newline>'' [Arg_str (Some infile)]],
                errors0, True, None)
             else
               (let rd = X3f_printf INFO ''READ THE X3F FILE %s\<newline>'' [Arg_str (Some infile)];
                    x3f = w_x3f_new_from_file w infile
                in case x3f of
                     None \<Rightarrow>
                       ([rd, X3f_new_from_file x3f,
                         X3f_printf ERR ''Could not read infile %s\<newline>''
                           [Arg_str (Some infile)]],
                        errors0, True, x3f)
                   | Some x \<Rightarrow>
                       (let (loads, failed) = load_sections w v infile x
                        in if failed then
                             ([rd, X3f_new_from_file x3f] @ loads, errors0, True, x3f)
                           else
                             (let (dump, errors, failed2) =
                                    dump_and_commit w v infile x errors0
                              in ([rd, X3f_new_from_file x3f] @ loads @ dump,
                                  errors, failed2, x3f)))));
          errors2 = (if found_error then errors1 + 1 else errors1);
          clean_up = X3f_delete x3f # (if f_in then [Fclose] else [])
      in (Fopen infile f_in # body @ clean_up, files, errors2))"

text \<open>The statements before the option handling.\<close>

definition prologue :: "variables_map \<Rightarrow> event list" where
  "prologue vm =
     [X3f_printf INFO ''X3F TOOLS VERSION = %s\<newline>\<newline>'' [Arg_version],
      Setvbuf Stdout, Setvbuf Stderr] @
     (if vm_help vm then [Cerr_desc] else [])"

text \<open>The statements after the label \<open>clean_up\<close>, and the returned value.\<close>

definition epilogue :: "int \<Rightarrow> int \<Rightarrow> int \<times> event list" where
  "epilogue files errors =
     (if errors > 0 then 1 else 0,
      (if files = 0 then [X3f_printf ERR ''No files given\<newline>'' [], Fprintf_stderr_Desc]
       else []) @
      [X3f_printf INFO (''Files processed: %d'' @ [CHR 0x09] @ ''errors: %d\<newline>'')
         [Arg_int files, Arg_int errors]])"

text \<open>
  \<open>main\<close>: the exit status and the events of the run.  Each \<open>return 1\<close> of the
  option handling is a branch that ends the run with the events so far.
\<close>

definition main :: "world \<Rightarrow> variables_map \<Rightarrow> int \<times> event list" where
  "main w vm =
     (let files = 0; errors = 0;
          t0 = prologue vm
      in case (case vm_format vm of Some fmt \<Rightarrow> set_format fmt init_vars
               | None \<Rightarrow> Some init_vars) of
           None \<Rightarrow>
             (1, t0 @ [Cerr_desc, Cerr_endl, Cerr_string ''Unknown format : '',
                       Cerr_string (the (vm_format vm)), Cerr_endl])
         | Some v1 \<Rightarrow>
             (case (case vm_color vm of Some spc \<Rightarrow> set_color spc v1 | None \<Rightarrow> Some v1) of
                None \<Rightarrow>
                  (1, t0 @ [Cerr_desc, Cerr_endl, Cerr_string ''Unknown color encoding: '',
                            Cerr_string (the (vm_color vm)), Cerr_endl])
              | Some v2 \<Rightarrow>
                  (let v3 = set_switches vm v2;
                       (v, t_out) = set_output w vm v3;
                       t1 = t0 @ switch_events vm @ t_out
                   in case vm_input vm of
                        None \<Rightarrow>
                          (1, t1 @ [Cerr_desc, Cerr_endl,
                                    X3f_printf ERR ''Could not find outdir %s\<newline>''
                                      [Arg_str (outdir v)]])
                      | Some ifile \<Rightarrow>
                          (let (t_file, files1, errors1) =
                                 process_file w v ifile files errors;
                               (status, t_end) = epilogue files1 errors1
                           in (status,
                               t1 @ [X3f_set_use_opencl (use_opencl v)] @ t_file @ t_end)))))"

section \<open>Notions used to state the properties\<close>

text \<open>
  The variables at the end of the option handling, as \<open>main\<close> computes them
  (\<open>None\<close> when \<open>main\<close> returns 1 for an unknown token), and the events of the
  \<open>output\<close> block.  Lemma \<open>main_with_input\<close> below relates both to \<open>main\<close>.
\<close>

definition option_vars :: "variables_map \<Rightarrow> main_vars option" where
  "option_vars vm =
     (case (case vm_format vm of Some fmt \<Rightarrow> set_format fmt init_vars
            | None \<Rightarrow> Some init_vars) of
        None \<Rightarrow> None
      | Some v1 \<Rightarrow>
          (case (case vm_color vm of Some spc \<Rightarrow> set_color spc v1 | None \<Rightarrow> Some v1) of
             None \<Rightarrow> None
           | Some v2 \<Rightarrow> Some ((set_switches vm v2)\<lparr>outdir := vm_output vm\<rparr>)))"

definition output_events :: "world \<Rightarrow> variables_map \<Rightarrow> event list" where
  "output_events w vm = snd (set_output w vm init_vars)"

text \<open>The events that open, read, write, rename or release a file or a container.\<close>

definition file_event :: "event \<Rightarrow> bool" where
  "file_event e =
     (case e of
        Fopen _ _ \<Rightarrow> True
      | X3f_new_from_file _ \<Rightarrow> True
      | X3f_get_thumb_jpeg _ \<Rightarrow> True
      | X3f_get_camf _ \<Rightarrow> True
      | X3f_get_prop _ \<Rightarrow> True
      | X3f_get_raw _ \<Rightarrow> True
      | X3f_load_data _ _ \<Rightarrow> True
      | X3f_load_image_block _ _ \<Rightarrow> True
      | Call_make_paths _ _ _ _ \<Rightarrow> True
      | Unlink _ \<Rightarrow> True
      | X3f_dump _ _ \<Rightarrow> True
      | Rename _ _ _ \<Rightarrow> True
      | X3f_delete _ \<Rightarrow> True
      | Fclose \<Rightarrow> True
      | _ \<Rightarrow> False)"

text \<open>
  The table of the specification (4.2, with the closed token set of 6): output kind,
  needPreview, needRawDecoded, needRawUndecoded; and the closed set of colour tokens.
\<close>

definition spec_plan_table :: "string \<Rightarrow> (output_file_type_t \<times> bool \<times> bool \<times> bool) option" where
  "spec_plan_table f =
     (if f = ''meta'' then Some (META, False, False, False)
      else if f = ''jpg'' then Some (JPEG, True, False, False)
      else if f = ''raw'' then Some (RAW, False, False, True)
      else if f = ''tiff'' then Some (TIFF, False, True, False)
      else if f = ''dng'' then Some (DNG, False, True, False)
      else if f = ''ppm-ascii'' then Some (PPMP3, False, True, False)
      else if f = ''ppm'' then Some (PPMP6, False, True, False)
      else if f = ''histogram'' then Some (HISTOGRAM, False, True, False)
      else if f = ''loghist'' then Some (HISTOGRAM, False, True, False)
      else None)"

definition spec_color_table :: "string \<Rightarrow> x3f_color_encoding_t option" where
  "spec_color_table c =
     (if c = ''none'' then Some NONE
      else if c = ''sRGB'' then Some SRGB
      else if c = ''AdobeRGB'' then Some ARGB
      else if c = ''ProPhotoRGB'' then Some PPRGB
      else if c = ''unprocessed'' then Some UNPROCESSED
      else if c = ''qtop'' then Some QTOP
      else None)"

text \<open>
  The two release calls; the path and the spatial-gain argument of an encoder call
  (\<open>None\<close> for the three encoders that take none).
\<close>

definition release_event :: "event \<Rightarrow> bool" where
  "release_event e = (case e of X3f_delete _ \<Rightarrow> True | Fclose \<Rightarrow> True | _ \<Rightarrow> False)"

definition path_of_call :: "dump_call \<Rightarrow> string" where
  "path_of_call c =
     (case c of
        Dump_meta_data p \<Rightarrow> p
      | Dump_jpeg p \<Rightarrow> p
      | Dump_raw_data p \<Rightarrow> p
      | Dump_raw_data_as_tiff p _ _ _ _ _ _ _ \<Rightarrow> p
      | Dump_raw_data_as_dng p _ _ _ _ _ \<Rightarrow> p
      | Dump_raw_data_as_ppm p _ _ _ _ _ _ _ \<Rightarrow> p
      | Dump_raw_data_as_histogram p _ _ _ _ _ _ _ \<Rightarrow> p)"

definition sgain_of_call :: "dump_call \<Rightarrow> int option" where
  "sgain_of_call c =
     (case c of
        Dump_meta_data _ \<Rightarrow> None
      | Dump_jpeg _ \<Rightarrow> None
      | Dump_raw_data _ \<Rightarrow> None
      | Dump_raw_data_as_tiff _ _ _ _ _ s _ _ \<Rightarrow> Some s
      | Dump_raw_data_as_dng _ _ _ s _ _ \<Rightarrow> Some s
      | Dump_raw_data_as_ppm _ _ _ _ _ s _ _ \<Rightarrow> Some s
      | Dump_raw_data_as_histogram _ _ _ _ _ s _ _ \<Rightarrow> Some s)"

text \<open>
  The events of the load stage (lookups, loads and their error messages) and those of
  the commit stage (path building, unlink, encoder call, rename).
\<close>

definition load_stage_event :: "event \<Rightarrow> bool" where
  "load_stage_event e =
     (case e of
        X3f_get_thumb_jpeg _ \<Rightarrow> True
      | X3f_get_camf _ \<Rightarrow> True
      | X3f_get_prop _ \<Rightarrow> True
      | X3f_get_raw _ \<Rightarrow> True
      | X3f_load_data _ _ \<Rightarrow> True
      | X3f_load_image_block _ _ \<Rightarrow> True
      | X3f_printf l _ _ \<Rightarrow> l = ERR
      | _ \<Rightarrow> False)"

definition commit_event :: "event \<Rightarrow> bool" where
  "commit_event e =
     (case e of
        Call_make_paths _ _ _ _ \<Rightarrow> True
      | Unlink _ \<Rightarrow> True
      | X3f_dump _ _ \<Rightarrow> True
      | Rename _ _ _ \<Rightarrow> True
      | _ \<Rightarrow> False)"

text \<open>
  The load calls among the events, and the loads the specification plans for a file
  (4.3): preview, then the calibration block and, when the container has one, the
  property block, then the raw section decoded or undecoded; a load of the raw section
  can only be planned when the container has one.  \<open>upto_first_failure\<close> cuts a list
  of loads after its first failed one.
\<close>

definition is_load :: "event \<Rightarrow> bool" where
  "is_load e =
     (case e of X3f_load_data _ _ \<Rightarrow> True | X3f_load_image_block _ _ \<Rightarrow> True | _ \<Rightarrow> False)"

definition load_failed :: "event \<Rightarrow> bool" where
  "load_failed e =
     (case e of
        X3f_load_data _ ret \<Rightarrow> ret \<noteq> X3F_OK
      | X3f_load_image_block _ ret \<Rightarrow> ret \<noteq> X3F_OK
      | _ \<Rightarrow> False)"

fun upto_first_failure :: "event list \<Rightarrow> event list" where
  "upto_first_failure [] = []"
| "upto_first_failure (e # es) = (if load_failed e then [e] else e # upto_first_failure es)"

definition planned_loads :: "world \<Rightarrow> main_vars \<Rightarrow> x3f_t \<Rightarrow> event list" where
  "planned_loads w v x =
     (if extract_jpg v \<noteq> 0
      then [X3f_load_data (get_thumb_jpeg x) (w_x3f_load_data w x (get_thumb_jpeg x))] else []) @
     (if extract_meta v \<noteq> 0
      then X3f_load_data (get_camf x) (w_x3f_load_data w x (get_camf x)) #
           (if get_prop x \<noteq> None
            then [X3f_load_data (get_prop x) (w_x3f_load_data w x (get_prop x))] else [])
      else []) @
     (if extract_raw v \<noteq> 0 \<and> get_raw x \<noteq> None
      then [X3f_load_data (get_raw x) (w_x3f_load_data w x (get_raw x))] else []) @
     (if extract_unconverted_raw v \<noteq> 0 \<and> get_raw x \<noteq> None
      then [X3f_load_image_block (get_raw x) (w_x3f_load_image_block w x (get_raw x))] else [])"

definition planned_jpg :: "world \<Rightarrow> main_vars \<Rightarrow> x3f_t \<Rightarrow> event list" where
  "planned_jpg w v x =
     (if extract_jpg v \<noteq> 0
      then [X3f_load_data (get_thumb_jpeg x) (w_x3f_load_data w x (get_thumb_jpeg x))] else [])"

definition planned_meta :: "world \<Rightarrow> main_vars \<Rightarrow> x3f_t \<Rightarrow> event list" where
  "planned_meta w v x =
     (if extract_meta v \<noteq> 0
      then X3f_load_data (get_camf x) (w_x3f_load_data w x (get_camf x)) #
           (if get_prop x \<noteq> None
            then [X3f_load_data (get_prop x) (w_x3f_load_data w x (get_prop x))] else [])
      else [])"

definition planned_raw :: "world \<Rightarrow> main_vars \<Rightarrow> x3f_t \<Rightarrow> event list" where
  "planned_raw w v x =
     (if extract_raw v \<noteq> 0 \<and> get_raw x \<noteq> None
      then [X3f_load_data (get_raw x) (w_x3f_load_data w x (get_raw x))] else [])"

definition planned_unconverted_raw :: "world \<Rightarrow> main_vars \<Rightarrow> x3f_t \<Rightarrow> event list" where
  "planned_unconverted_raw w v x =
     (if extract_unconverted_raw v \<noteq> 0 \<and> get_raw x \<noteq> None
      then [X3f_load_image_block (get_raw x) (w_x3f_load_image_block w x (get_raw x))] else [])"

text \<open>The two messages of the bounded string helpers.\<close>

definition too_large_event :: "event \<Rightarrow> bool" where
  "too_large_event e =
     (e = X3f_printf DEBUG ''safecpy: String too large\<newline>'' [] \<or>
      e = X3f_printf DEBUG ''safecat: String too large\<newline>'' [])"

text \<open>
  The path the specification names (4.1).  \<open>spec_basename\<close> is the substring after
  the last path separator.  \<open>final_path\<close> uses the output directory when one is given
  and is not the empty string; \<open>claimed_final_path\<close> uses it whenever one is given.
\<close>

definition spec_basename :: "platform \<Rightarrow> string \<Rightarrow> string" where
  "spec_basename pf s = rev (takeWhile (\<lambda>c. c \<notin> set (pathseps pf)) (rev s))"

definition final_path :: "platform \<Rightarrow> string \<Rightarrow> string option \<Rightarrow> string \<Rightarrow> string" where
  "final_path pf inpath odir ext =
     (case odir of
        Some od \<Rightarrow>
          if od \<noteq> [] then
            od @ (if last od \<in> set (pathseps pf) then [] else PATHSEP pf) @
            spec_basename pf inpath @ ext
          else inpath @ ext
      | None \<Rightarrow> inpath @ ext)"

definition claimed_final_path :: "platform \<Rightarrow> string \<Rightarrow> string option \<Rightarrow> string \<Rightarrow> string" where
  "claimed_final_path pf inpath odir ext =
     (case odir of
        Some od \<Rightarrow>
          od @ (if od \<noteq> [] \<and> last od \<in> set (pathseps pf) then [] else PATHSEP pf) @
          spec_basename pf inpath @ ext
      | None \<Rightarrow> inpath @ ext)"

text \<open>
  Input and output against the container (open, read, section loads), the call of
  \<open>make_paths\<close>, and the order the specification gives them (2, 4.6): no input or
  output against the container before the paths are built.
\<close>

definition container_io :: "event \<Rightarrow> bool" where
  "container_io e =
     (case e of
        Fopen _ _ \<Rightarrow> True
      | X3f_new_from_file _ \<Rightarrow> True
      | X3f_load_data _ _ \<Rightarrow> True
      | X3f_load_image_block _ _ \<Rightarrow> True
      | _ \<Rightarrow> False)"

definition is_make_paths :: "event \<Rightarrow> bool" where
  "is_make_paths e = (case e of Call_make_paths _ _ _ _ \<Rightarrow> True | _ \<Rightarrow> False)"

definition paths_first :: "event list \<Rightarrow> bool" where
  "paths_first tr = (filter container_io (takeWhile (\<lambda>e. \<not> is_make_paths e) tr) = [])"

text \<open>Concrete command lines and environments for the examples.\<close>

definition vm_defaults :: variables_map where
  "vm_defaults =
     \<lparr> vm_help = False, vm_output = None, vm_debug = False, vm_quiet = False,
       vm_format = None, vm_color = None, vm_noCrop = False, vm_noDenoise = False,
       vm_noSGain = False, vm_sgain = False, vm_noFixBad = False, vm_whiteBalance = None,
       vm_compress = False, vm_ocl = False, vm_offset = None, vm_matrixmax = None,
       vm_input = None \<rparr>"

definition vm_tiff_qtop_nocrop :: variables_map where
  "vm_tiff_qtop_nocrop =
     vm_defaults\<lparr>vm_format := Some ''tiff'', vm_color := Some ''qtop'', vm_noCrop := True,
       vm_input := Some ''photo.x3f''\<rparr>"

definition vm_bad_format :: variables_map where
  "vm_bad_format = vm_defaults\<lparr>vm_format := Some ''png'', vm_input := Some ''photo.x3f''\<rparr>"

definition x3f_example :: x3f_t where
  "x3f_example =
     \<lparr> header_version = 0x30000, get_thumb_jpeg = Some 1, get_camf = Some 2,
       get_prop = Some 3, get_raw = Some 4 \<rparr>"

definition w_all_ok :: world where
  "w_all_ok =
     \<lparr> w_target = Other, w_stat = (\<lambda>p. (0, True)), w_fopen = (\<lambda>p. True),
       w_x3f_new_from_file = (\<lambda>p. Some x3f_example),
       w_x3f_load_data = (\<lambda>x de. X3F_OK), w_x3f_load_image_block = (\<lambda>x de. X3F_OK),
       w_x3f_dump = (\<lambda>x c. X3F_OK), w_rename = (\<lambda>a b. 0),
       w_X3F_VERSION_4_0 = 0x40000, w_tmpfile0 = [], w_outfile0 = [] \<rparr>"

definition vm_photo :: variables_map where
  "vm_photo = vm_defaults\<lparr>vm_input := Some ''photo.x3f''\<rparr>"

definition vm_photo_out :: variables_map where
  "vm_photo_out = vm_defaults\<lparr>vm_input := Some ''/in/photo.x3f'', vm_output := Some ''/out''\<rparr>"

definition w_no_dir :: world where
  "w_no_dir = w_all_ok\<lparr>w_stat := (\<lambda>p. (- 1, False))\<rparr>"

definition w_camf_fails :: world where
  "w_camf_fails =
     w_all_ok\<lparr>w_x3f_load_data := (\<lambda>x de. if de = Some 2 then X3F_FAILURE 1 else X3F_OK)\<rparr>"


definition w_rename_fails :: world where
  "w_rename_fails = w_all_ok\<lparr>w_rename := (\<lambda>a b. - 1)\<rparr>"

definition w_dump_fails :: world where
  "w_dump_fails = w_all_ok\<lparr>w_x3f_dump := (\<lambda>x c. X3F_FAILURE 1)\<rparr>"

definition vm_empty_out :: variables_map where
  "vm_empty_out = vm_defaults\<lparr>vm_input := Some ''a/b.x3f'', vm_output := Some []\<rparr>"

section \<open>Lemmas about the option handling and the shape of a run\<close>

lemma strrchr_None: "(strrchr s c = None) = (c \<notin> set s)"
  by (induction s) (auto split: option.splits)

lemma strrchr_Some:
  "strrchr s c = Some p \<Longrightarrow>
     p < length s \<and> s ! p = c \<and> (\<forall>i. p < i \<and> i < length s \<longrightarrow> s ! i \<noteq> c)"
proof (induction s arbitrary: p)
  case Nil
  then show ?case by simp
next
  case (Cons x xs)
  show ?case
  proof (cases "strrchr xs c")
    case None
    with Cons.prems have p: "p = 0" "x = c"
      by (auto split: if_splits)
    from None have "c \<notin> set xs" by (simp add: strrchr_None)
    then have "\<forall>i. 0 < i \<and> i < length (x # xs) \<longrightarrow> (x # xs) ! i \<noteq> c"
      by (auto simp: nth_Cons split: nat.splits)
    with p show ?thesis by simp
  next
    case (Some q)
    with Cons.prems have p: "p = Suc q" by simp
    from Cons.IH [OF Some]
    have q: "q < length xs" "xs ! q = c" "\<forall>i. q < i \<and> i < length xs \<longrightarrow> xs ! i \<noteq> c"
      by auto
    have "\<forall>i. Suc q < i \<and> i < length (x # xs) \<longrightarrow> (x # xs) ! i \<noteq> c"
      using q(3) by (auto simp: nth_Cons split: nat.splits)
    with p q show ?thesis by simp
  qed
qed

lemma basename_loop_ge: "p \<le> basename_loop s seps p"
proof (induction seps arbitrary: p)
  case Nil
  show ?case by simp
next
  case (Cons sep seps)
  show ?case
    using Cons [of "case strrchr s sep of None \<Rightarrow> p | Some q \<Rightarrow> if q + 1 > p then q + 1 else p"]
    by (auto split: option.splits if_splits)
qed

lemma basename_loop_bound:
  "sep \<in> set seps \<Longrightarrow> strrchr s sep = Some q \<Longrightarrow> q < basename_loop s seps p"
proof (induction seps arbitrary: p)
  case Nil
  then show ?case by simp
next
  case (Cons a seps)
  show ?case
  proof (cases "sep = a")
    case True
    let ?p' = "if q + 1 > p then q + 1 else p"
    have "q < ?p'" by simp
    also have "?p' \<le> basename_loop s seps ?p'" by (rule basename_loop_ge)
    finally show ?thesis using True Cons.prems(2) by simp
  next
    case False
    with Cons.prems have "sep \<in> set seps" by simp
    from Cons.IH [OF this Cons.prems(2)] show ?thesis by simp
  qed
qed

lemma basename_loop_origin:
  "basename_loop s seps p = p \<or>
   (\<exists>sep \<in> set seps. \<exists>q. strrchr s sep = Some q \<and> basename_loop s seps p = q + 1)"
proof (induction seps arbitrary: p)
  case Nil
  show ?case by simp
next
  case (Cons a seps)
  let ?p' = "case strrchr s a of Some q \<Rightarrow> if q + 1 > p then q + 1 else p | None \<Rightarrow> p"
  from Cons [of ?p'] show ?case
    by (auto split: option.splits if_splits)
qed

lemma basename_loop_spec:
  "drop (basename_loop s seps 0) s = rev (takeWhile (\<lambda>c. c \<notin> set seps) (rev s))"
proof -
  define n where "n = basename_loop s seps 0"
  have orig: "n = 0 \<or> (\<exists>sep \<in> set seps. \<exists>q. strrchr s sep = Some q \<and> n = q + 1)"
    unfolding n_def by (rule basename_loop_origin)
  have le: "n \<le> length s"
    using orig by (auto dest: strrchr_Some)
  have suffix: "c \<notin> set seps" if "c \<in> set (drop n s)" for c
  proof
    assume c: "c \<in> set seps"
    from that obtain i where i: "n \<le> i" "i < length s" "s ! i = c"
      by (auto simp: in_set_conv_nth) (metis add.commute le_add1 less_diff_conv)
    then have "c \<in> set s" by auto
    then obtain q where q: "strrchr s c = Some q"
      using strrchr_None [of s c] by auto
    from basename_loop_bound [OF c q, of 0] have "q < n" by (simp add: n_def)
    with i strrchr_Some [OF q] show False by auto
  qed
  have before: "take n s = [] \<or> last (take n s) \<in> set seps"
  proof (cases "n = 0")
    case True
    then show ?thesis by simp
  next
    case False
    with orig obtain sep q where sq: "sep \<in> set seps" "strrchr s sep = Some q" "n = q + 1"
      by auto
    from strrchr_Some [OF sq(2)] have "q < length s" "s ! q = sep" by auto
    then have "last (take n s) = sep"
      using sq(3) by (simp add: take_Suc_conv_app_nth)
    with sq(1) show ?thesis by simp
  qed
  have "rev s = rev (drop n s) @ rev (take n s)"
    by (metis append_take_drop_id rev_append)
  moreover have "takeWhile (\<lambda>c. c \<notin> set seps) (rev (drop n s) @ rev (take n s)) =
      rev (drop n s) @ takeWhile (\<lambda>c. c \<notin> set seps) (rev (take n s))"
    by (rule takeWhile_append2) (use suffix in auto)
  moreover have "takeWhile (\<lambda>c. c \<notin> set seps) (rev (take n s)) = []"
    using before by (cases "rev (take n s)") (auto simp: last_rev hd_rev)
  ultimately show ?thesis by (simp add: n_def)
qed

lemma safecpy_length:
  "safecpy dst src n =
     (if n < length src then ([X3f_printf DEBUG ''safecpy: String too large\<newline>'' []], 1, dst)
      else ([], 0, src))"
  by (simp add: safecpy_def strnlen_def)

lemma safecat_length:
  "safecat dst src n =
     (if n < length dst + length src
      then ([X3f_printf DEBUG ''safecat: String too large\<newline>'' []], 1, dst)
      else ([], 0, dst @ src))"
  by (auto simp: safecat_def strnlen_def)

lemma safecpy_ok: "length src \<le> n \<Longrightarrow> safecpy dst src n = ([], 0, src)"
  by (simp add: safecpy_length)

lemma safecat_ok: "length dst + length src \<le> n \<Longrightarrow> safecat dst src n = ([], 0, dst @ src)"
  by (simp add: safecat_length)

lemma safecpy_zero:
  "safecpy d s n = (l, e, r) \<Longrightarrow>
     0 \<le> e \<and> int (length l) = e \<and> filter too_large_event l = l \<and>
     (e = 0 \<longrightarrow> r = s \<and> length s \<le> n)"
  by (auto simp: safecpy_length too_large_event_def split: if_splits)

lemma safecat_zero:
  "safecat d s n = (l, e, r) \<Longrightarrow>
     0 \<le> e \<and> int (length l) = e \<and> filter too_large_event l = l \<and>
     (e = 0 \<longrightarrow> r = d @ s \<and> length d + length s \<le> n)"
  by (auto simp: safecat_length too_large_event_def split: if_splits)

lemma make_paths_fits:
  assumes "length (final_path pf inpath odir ext) \<le> MAXOUTPATH"
  shows "make_paths pf inpath odir ext t0 o0 =
     ([], 0, final_path pf inpath odir ext @ ''.tmp'', final_path pf inpath odir ext)"
proof -
  have tail: "(let (d4, e4, outpath2) = safecat p ext MAXOUTPATH;
          (d5, e5, tmppath1) = safecpy t0 outpath2 MAXTMPPATH;
          (d6, e6, tmppath2) = safecat tmppath1 ''.tmp'' MAXTMPPATH
      in ([] @ d4 @ d5 @ d6, 0 + e4 + e5 + e6, tmppath2, outpath2)) =
      ([], 0, (p @ ext) @ ''.tmp'', p @ ext)"
    if "length p + length ext \<le> MAXOUTPATH" for p
  proof -
    have 4: "safecat p ext MAXOUTPATH = ([], 0, p @ ext)"
      using that by (rule safecat_ok)
    have 5: "safecpy t0 (p @ ext) MAXTMPPATH = ([], 0, p @ ext)"
      using that by (intro safecpy_ok) (simp add: MAXTMPPATH_def)
    have 6: "safecat (p @ ext) ''.tmp'' MAXTMPPATH = ([], 0, (p @ ext) @ ''.tmp'')"
      using that by (intro safecat_ok) (simp add: MAXTMPPATH_def EXTMAX_def)
    show ?thesis by (simp add: 4 5 6)
  qed
  show ?thesis
  proof (cases "\<exists>od. odir = Some od \<and> od \<noteq> []")
    case False
    then have f: "final_path pf inpath odir ext = inpath @ ext"
      by (auto simp: final_path_def split: option.splits)
    with assms have l: "length inpath + length ext \<le> MAXOUTPATH" by simp
    then have 1: "safecpy o0 inpath MAXOUTPATH = ([], 0, inpath)"
      by (intro safecpy_ok) simp
    from False show ?thesis
      unfolding f using tail [OF l]
      by (cases odir) (simp_all add: make_paths_def 1)
  next
    case True
    then obtain od where od: "odir = Some od" "od \<noteq> []" by blast
    define sep where "sep = (if last od \<in> set (pathseps pf) then [] else PATHSEP pf)"
    define base where "base = drop (basename_loop inpath (pathseps pf) 0) inpath"
    have f: "final_path pf inpath odir ext = (od @ sep @ base) @ ext"
      by (simp add: final_path_def od sep_def base_def spec_basename_def basename_loop_spec)
    with assms have l: "length (od @ sep @ base) + length ext \<le> MAXOUTPATH" by simp
    have 1: "safecpy o0 od MAXOUTPATH = ([], 0, od)"
      using l by (intro safecpy_ok) simp
    have 2: "(if \<not> (last od \<in> set (pathseps pf)) then safecat od (PATHSEP pf) MAXOUTPATH
        else ([], 0, od)) = ([], 0, od @ sep)"
      using l by (auto simp: sep_def intro!: safecat_ok)
    have 3: "safecat (od @ sep) base MAXOUTPATH = ([], 0, od @ sep @ base)"
      using l safecat_ok [of "od @ sep" base MAXOUTPATH] by simp
    show ?thesis
      unfolding f using tail [OF l]
      by (simp add: make_paths_def od 1 2 3 base_def [symmetric])
  qed
qed

lemma make_paths_stages:
  "\<exists>l0 e0 o1 l4 e4 l5 e5 l6 e6 t2.
     0 \<le> e0 \<and> int (length l0) = e0 \<and> filter too_large_event l0 = l0 \<and>
     (e0 = 0 \<longrightarrow>
        o1 = (case odir of
                Some od \<Rightarrow>
                  if od \<noteq> [] then
                    od @ (if last od \<in> set (pathseps pf) then [] else PATHSEP pf) @
                    drop (basename_loop inpath (pathseps pf) 0) inpath
                  else inpath
              | None \<Rightarrow> inpath)) \<and>
     0 \<le> e4 \<and> int (length l4) = e4 \<and> filter too_large_event l4 = l4 \<and>
     (e4 = 0 \<longrightarrow> length o1 + length ext \<le> MAXOUTPATH) \<and>
     0 \<le> e5 \<and> int (length l5) = e5 \<and> filter too_large_event l5 = l5 \<and>
     0 \<le> e6 \<and> int (length l6) = e6 \<and> filter too_large_event l6 = l6 \<and>
     make_paths pf inpath odir ext t0 o0 =
       (l0 @ l4 @ l5 @ l6, e0 + e4 + e5 + e6, t2, snd (snd (safecat o1 ext MAXOUTPATH)))"
proof -
  obtain l0 e0 o1 where s0:
    "(case odir of
        Some od \<Rightarrow>
          if od \<noteq> [] then
            (let ptr = basename_loop inpath (pathseps pf) 0;
                 (d1, e1, o1) = safecpy o0 od MAXOUTPATH;
                 (d2, e2, o2) = (if \<not> (last od \<in> set (pathseps pf))
                                 then safecat o1 (PATHSEP pf) MAXOUTPATH
                                 else ([], 0, o1));
                 (d3, e3, o3) = safecat o2 (drop ptr inpath) MAXOUTPATH
             in (d1 @ d2 @ d3, 0 + e1 + e2 + e3, o3))
          else (let (d, e, o1) = safecpy o0 inpath MAXOUTPATH in (d, 0 + e, o1))
      | None \<Rightarrow> (let (d, e, o1) = safecpy o0 inpath MAXOUTPATH in (d, 0 + e, o1))) =
     (l0, e0, o1)"
    by (rule prod_cases3)
  obtain l4 e4 o4 where s4: "safecat o1 ext MAXOUTPATH = (l4, e4, o4)" by (rule prod_cases3)
  obtain l5 e5 t1 where s5: "safecpy t0 o4 MAXTMPPATH = (l5, e5, t1)" by (rule prod_cases3)
  obtain l6 e6 t2 where s6: "safecat t1 ''.tmp'' MAXTMPPATH = (l6, e6, t2)"
    by (rule prod_cases3)
  have mp: "make_paths pf inpath odir ext t0 o0 =
      (l0 @ l4 @ l5 @ l6, e0 + e4 + e5 + e6, t2, snd (snd (safecat o1 ext MAXOUTPATH)))"
    unfolding make_paths_def s0 by (simp add: s4 s5 s6)
  have copy: "0 \<le> e \<and> int (length l) = e \<and> filter too_large_event l = l \<and>
      (e = 0 \<longrightarrow> o' = inpath)"
    if "(let (d, e, o1) = safecpy o0 inpath MAXOUTPATH in (d, 0 + e, o1)) = (l, e, o')"
    for l e o'
  proof -
    obtain d' e' r' where c: "safecpy o0 inpath MAXOUTPATH = (d', e', r')"
      by (rule prod_cases3)
    with that have "l = d'" "e = e'" "o' = r'" by simp_all
    with safecpy_zero [OF c] show ?thesis by simp
  qed
  have e0: "0 \<le> e0 \<and> int (length l0) = e0 \<and> filter too_large_event l0 = l0 \<and>
     (e0 = 0 \<longrightarrow>
        o1 = (case odir of
                Some od \<Rightarrow>
                  if od \<noteq> [] then
                    od @ (if last od \<in> set (pathseps pf) then [] else PATHSEP pf) @
                    drop (basename_loop inpath (pathseps pf) 0) inpath
                  else inpath
              | None \<Rightarrow> inpath))"
  proof (cases "\<exists>od. odir = Some od \<and> od \<noteq> []")
    case False
    with s0 copy [of l0 e0 o1] show ?thesis
      by (cases odir) auto
  next
    case True
    then obtain od where od: "odir = Some od" "od \<noteq> []" by blast
    obtain d1 e1 p1 where s1: "safecpy o0 od MAXOUTPATH = (d1, e1, p1)"
      by (rule prod_cases3)
    obtain d2 e2 p2 where s2: "(if \<not> (last od \<in> set (pathseps pf))
        then safecat p1 (PATHSEP pf) MAXOUTPATH else ([], 0, p1)) = (d2, e2, p2)"
      by (rule prod_cases3)
    obtain d3 e3 p3 where s3:
      "safecat p2 (drop (basename_loop inpath (pathseps pf) 0) inpath) MAXOUTPATH =
         (d3, e3, p3)"
      by (rule prod_cases3)
    from s0 have r: "l0 = d1 @ d2 @ d3" "e0 = e1 + e2 + e3" "o1 = p3"
      by (simp_all add: od s1 s2 s3)
    have z1: "0 \<le> e1 \<and> int (length d1) = e1 \<and> filter too_large_event d1 = d1 \<and>
        (e1 = 0 \<longrightarrow> p1 = od)"
      using safecpy_zero [OF s1] by simp
    have z2: "0 \<le> e2 \<and> int (length d2) = e2 \<and> filter too_large_event d2 = d2 \<and>
        (e2 = 0 \<longrightarrow> p2 = p1 @ (if last od \<in> set (pathseps pf) then [] else PATHSEP pf))"
    proof (cases "last od \<in> set (pathseps pf)")
      case True
      with s2 show ?thesis by auto
    next
      case False
      with s2 have "safecat p1 (PATHSEP pf) MAXOUTPATH = (d2, e2, p2)" by simp
      from safecat_zero [OF this] False show ?thesis by simp
    qed
    have z3: "0 \<le> e3 \<and> int (length d3) = e3 \<and> filter too_large_event d3 = d3 \<and>
        (e3 = 0 \<longrightarrow> p3 = p2 @ drop (basename_loop inpath (pathseps pf) 0) inpath)"
      using safecat_zero [OF s3] by simp
    from z1 z2 z3 have "0 \<le> e0" "int (length l0) = e0" "filter too_large_event l0 = l0"
      by (simp_all add: r)
    moreover have "o1 = od @ (if last od \<in> set (pathseps pf) then [] else PATHSEP pf) @
                    drop (basename_loop inpath (pathseps pf) 0) inpath" if "e0 = 0"
    proof -
      from that z1 z2 z3 have "e1 = 0" "e2 = 0" "e3 = 0" by (simp_all add: r)
      with z1 z2 z3 show ?thesis by (simp add: r)
    qed
    ultimately show ?thesis by (simp add: od)
  qed
  have e4: "0 \<le> e4 \<and> int (length l4) = e4 \<and> filter too_large_event l4 = l4 \<and>
      (e4 = 0 \<longrightarrow> length o1 + length ext \<le> MAXOUTPATH)"
    using safecat_zero [OF s4] by simp
  have e5: "0 \<le> e5 \<and> int (length l5) = e5 \<and> filter too_large_event l5 = l5"
    using safecpy_zero [OF s5] by simp
  have e6: "0 \<le> e6 \<and> int (length l6) = e6 \<and> filter too_large_event l6 = l6"
    using safecat_zero [OF s6] by simp
  show ?thesis
    apply (rule exI [of _ l0], rule exI [of _ e0], rule exI [of _ o1], rule exI [of _ l4],
      rule exI [of _ e4], rule exI [of _ l5], rule exI [of _ e5], rule exI [of _ l6],
      rule exI [of _ e6], rule exI [of _ t2])
    using e0 e4 e5 e6 mp apply (elim conjE)
    apply (intro conjI)
    apply assumption+
    done
qed

lemma make_paths_debug:
  "int (length (fst (make_paths pf inpath odir ext t0 o0))) =
     fst (snd (make_paths pf inpath odir ext t0 o0)) \<and>
   filter too_large_event (fst (make_paths pf inpath odir ext t0 o0)) =
     fst (make_paths pf inpath odir ext t0 o0) \<and>
   0 \<le> fst (snd (make_paths pf inpath odir ext t0 o0))"
proof -
  from make_paths_stages [where odir = odir and pf = pf and inpath = inpath and ext = ext
      and ?t0.0 = t0 and ?o0.0 = o0]
  obtain l0 e0 o1 l4 e4 l5 e5 l6 e6 t2 where
    "0 \<le> e0" "int (length l0) = e0" "filter too_large_event l0 = l0"
    "0 \<le> e4" "int (length l4) = e4" "filter too_large_event l4 = l4"
    "0 \<le> e5" "int (length l5) = e5" "filter too_large_event l5 = l5"
    "0 \<le> e6" "int (length l6) = e6" "filter too_large_event l6 = l6"
    "make_paths pf inpath odir ext t0 o0 =
       (l0 @ l4 @ l5 @ l6, e0 + e4 + e5 + e6, t2, snd (snd (safecat o1 ext MAXOUTPATH)))"
    by blast
  then show ?thesis by simp
qed


lemma make_paths_quiet:
  "fst (snd (make_paths pf inpath odir ext t0 o0)) = 0 \<Longrightarrow>
     fst (make_paths pf inpath odir ext t0 o0) = []"
  using make_paths_debug [of pf inpath odir ext t0 o0] by simp

lemma make_paths_ok:
  assumes "fst (snd (make_paths pf inpath odir ext t0 o0)) = 0"
  shows "length (final_path pf inpath odir ext) \<le> MAXOUTPATH"
proof -
  from make_paths_stages [where odir = odir and pf = pf and inpath = inpath and ext = ext
      and ?t0.0 = t0 and ?o0.0 = o0]
  obtain l0 e0 o1 l4 e4 l5 e5 l6 e6 t2 where
    n: "0 \<le> e0" "0 \<le> e4" "0 \<le> e5" "0 \<le> e6"
    and o1: "e0 = 0 \<longrightarrow>
        o1 = (case odir of
                Some od \<Rightarrow>
                  if od \<noteq> [] then
                    od @ (if last od \<in> set (pathseps pf) then [] else PATHSEP pf) @
                    drop (basename_loop inpath (pathseps pf) 0) inpath
                  else inpath
              | None \<Rightarrow> inpath)"
    and l: "e4 = 0 \<longrightarrow> length o1 + length ext \<le> MAXOUTPATH"
    and mp: "make_paths pf inpath odir ext t0 o0 =
       (l0 @ l4 @ l5 @ l6, e0 + e4 + e5 + e6, t2, snd (snd (safecat o1 ext MAXOUTPATH)))"
    by blast
  from assms mp n have "e0 = 0" "e4 = 0" by simp_all
  with o1 l have "final_path pf inpath odir ext = o1 @ ext" "length o1 + length ext \<le> MAXOUTPATH"
    by (auto simp: final_path_def spec_basename_def basename_loop_spec split: option.splits)
  then show ?thesis by simp
qed

lemma make_paths_tmp:
  assumes "snd (make_paths pf inpath odir ext t0 o0) = (0, tmpfile, outfile)"
  shows "outfile = final_path pf inpath odir ext" and "tmpfile = outfile @ ''.tmp''"
    and "fst (make_paths pf inpath odir ext t0 o0) = []"
proof -
  have "length (final_path pf inpath odir ext) \<le> MAXOUTPATH"
    by (rule make_paths_ok [where ?t0.0 = t0 and ?o0.0 = o0]) (simp add: assms)
  from make_paths_fits [OF this, of t0 o0] assms
  show "outfile = final_path pf inpath odir ext" and "tmpfile = outfile @ ''.tmp''"
    and "fst (make_paths pf inpath odir ext t0 o0) = []"
    by auto
qed

lemma make_paths_event:
  "e \<in> set (fst (make_paths pf inpath odir ext t0 o0)) \<Longrightarrow> too_large_event e"
  using make_paths_debug [of pf inpath odir ext t0 o0] by (simp add: filter_id_conv)

lemma set_output_fst:
  "fst (set_output w vm v) =
     v\<lparr>outdir := (case vm_output vm of Some d \<Rightarrow> Some d | None \<Rightarrow> outdir v)\<rparr>"
  by (simp add: set_output_def Let_def split: option.splits)

lemma set_output_snd: "snd (set_output w vm v) = output_events w vm"
  by (simp add: set_output_def output_events_def Let_def split: option.splits)

lemma set_format_outdir: "set_format f v = Some v' \<Longrightarrow> outdir v' = outdir v"
  by (auto simp: set_format_def Z_def Let_def split: if_splits)

lemma set_color_outdir: "set_color f v = Some v' \<Longrightarrow> outdir v' = outdir v"
  by (auto simp: set_color_def split: if_splits)

lemma set_switches_outdir: "outdir (set_switches vm v) = outdir v"
  by (simp add: set_switches_def Let_def split: option.splits)

lemma option_vars_SomeD:
  assumes "option_vars vm = Some v"
  obtains v1 v2 where
    "(case vm_format vm of Some fmt \<Rightarrow> set_format fmt init_vars | None \<Rightarrow> Some init_vars) = Some v1"
    and "(case vm_color vm of Some spc \<Rightarrow> set_color spc v1 | None \<Rightarrow> Some v1) = Some v2"
    and "v = (set_switches vm v2)\<lparr>outdir := vm_output vm\<rparr>"
    and "set_output w vm (set_switches vm v2) = (v, output_events w vm)"
proof -
  from assms obtain v1 v2 where
    f: "(case vm_format vm of Some fmt \<Rightarrow> set_format fmt init_vars | None \<Rightarrow> Some init_vars) = Some v1"
    and c: "(case vm_color vm of Some spc \<Rightarrow> set_color spc v1 | None \<Rightarrow> Some v1) = Some v2"
    and v: "v = (set_switches vm v2)\<lparr>outdir := vm_output vm\<rparr>"
    by (auto simp: option_vars_def split: option.splits)
  have "outdir v1 = None"
    using f by (auto simp: init_vars_def split: option.splits dest: set_format_outdir)
  then have "outdir v2 = None"
    using c by (auto split: option.splits dest: set_color_outdir)
  then have o: "outdir (set_switches vm v2) = None"
    by (simp add: set_switches_outdir)
  have "fst (set_output w vm (set_switches vm v2)) = v"
    unfolding set_output_fst v using o by (simp split: option.splits)
  then have "set_output w vm (set_switches vm v2) = (v, output_events w vm)"
    using set_output_snd [of w vm "set_switches vm v2"] by (metis prod.collapse)
  with f c v show thesis by (rule that)
qed

lemma main_with_input:
  assumes "option_vars vm = Some v" and "vm_input vm = Some ifile"
  shows "main w vm =
     (fst (epilogue (fst (snd (process_file w v ifile 0 0))) (snd (snd (process_file w v ifile 0 0)))),
      prologue vm @ switch_events vm @ output_events w vm @
      [X3f_set_use_opencl (use_opencl v)] @ fst (process_file w v ifile 0 0) @
      snd (epilogue (fst (snd (process_file w v ifile 0 0))) (snd (snd (process_file w v ifile 0 0)))))"
proof -
  from assms(1) obtain v1 v2 where
    f: "(case vm_format vm of Some fmt \<Rightarrow> set_format fmt init_vars | None \<Rightarrow> Some init_vars) = Some v1"
    and c: "(case vm_color vm of Some spc \<Rightarrow> set_color spc v1 | None \<Rightarrow> Some v1) = Some v2"
    and so: "set_output w vm (set_switches vm v2) = (v, output_events w vm)"
    by (rule option_vars_SomeD)
  show ?thesis
    unfolding main_def Let_def f c option.case so prod.case assms(2)
    by (simp add: case_prod_beta)
qed

lemma main_without_input:
  assumes "option_vars vm = Some v" and "vm_input vm = None"
  shows "main w vm =
     (1, prologue vm @ switch_events vm @ output_events w vm @
         [Cerr_desc, Cerr_endl,
          X3f_printf ERR ''Could not find outdir %s\<newline>'' [Arg_str (outdir v)]])"
proof -
  from assms(1) obtain v1 v2 where
    f: "(case vm_format vm of Some fmt \<Rightarrow> set_format fmt init_vars | None \<Rightarrow> Some init_vars) = Some v1"
    and c: "(case vm_color vm of Some spc \<Rightarrow> set_color spc v1 | None \<Rightarrow> Some v1) = Some v2"
    and so: "set_output w vm (set_switches vm v2) = (v, output_events w vm)"
    by (rule option_vars_SomeD)
  show ?thesis
    unfolding main_def Let_def f c option.case so prod.case assms(2)
    by simp
qed

lemma main_bad_option:
  assumes "option_vars vm = None"
  shows "main w vm =
     (1, prologue vm @ [Cerr_desc, Cerr_endl] @
         (case (case vm_format vm of Some fmt \<Rightarrow> set_format fmt init_vars | None \<Rightarrow> Some init_vars) of
            None \<Rightarrow> [Cerr_string ''Unknown format : '', Cerr_string (the (vm_format vm))]
          | Some _ \<Rightarrow> [Cerr_string ''Unknown color encoding: '', Cerr_string (the (vm_color vm))]) @
         [Cerr_endl])"
  using assms by (auto simp: main_def option_vars_def Let_def split: option.splits)

lemma process_file_files: "fst (snd (process_file w v infile files errors)) = files + 1"
  by (simp add: process_file_def Let_def case_prod_beta)

lemma set_format_table:
  "set_format f init_vars = Some v \<Longrightarrow>
     spec_plan_table f =
       Some (file_type v, extract_jpg v \<noteq> 0, extract_raw v \<noteq> 0, extract_unconverted_raw v \<noteq> 0)"
  by (auto simp: set_format_def spec_plan_table_def Z_def Let_def split: if_splits)

lemma set_format_None: "(set_format f v = None) = (spec_plan_table f = None)"
  by (simp add: set_format_def spec_plan_table_def Let_def)

lemma set_color_None: "(set_color c v = None) = (spec_color_table c = None)"
  by (simp add: set_color_def spec_color_table_def)

lemma set_color_keeps:
  "set_color c v = Some v' \<Longrightarrow>
     file_type v' = file_type v \<and> extract_jpg v' = extract_jpg v \<and>
     extract_raw v' = extract_raw v \<and> extract_unconverted_raw v' = extract_unconverted_raw v \<and>
     crop v' = crop v \<and> apply_sgain v' = apply_sgain v \<and>
     spec_color_table c = Some (color_encoding v')"
  by (auto simp: set_color_def spec_color_table_def split: if_splits)

lemma set_switches_keeps:
  "file_type (set_switches vm v) = file_type v \<and>
   extract_jpg (set_switches vm v) = extract_jpg v \<and>
   extract_raw (set_switches vm v) = extract_raw v \<and>
   extract_unconverted_raw (set_switches vm v) = extract_unconverted_raw v \<and>
   color_encoding (set_switches vm v) = color_encoding v"
  by (simp add: set_switches_def Let_def split: option.splits)

lemma option_vars_None:
  "(option_vars vm = None) =
     ((\<exists>f. vm_format vm = Some f \<and> spec_plan_table f = None) \<or>
      (\<exists>c. vm_color vm = Some c \<and> spec_color_table c = None))"
proof -
  define fr where
    "fr = (case vm_format vm of Some fmt \<Rightarrow> set_format fmt init_vars | None \<Rightarrow> Some init_vars)"
  define cr where
    "cr v1 = (case vm_color vm of Some spc \<Rightarrow> set_color spc v1 | None \<Rightarrow> Some v1)" for v1
  have fr: "(fr = None) = (\<exists>f. vm_format vm = Some f \<and> spec_plan_table f = None)"
    unfolding fr_def by (cases "vm_format vm") (simp_all only: option.case option.simps set_format_None, simp_all)
  have cr: "(cr v1 = None) = (\<exists>c. vm_color vm = Some c \<and> spec_color_table c = None)" for v1
    unfolding cr_def by (cases "vm_color vm") (simp_all only: option.case option.simps set_color_None, simp_all)
  have ov: "option_vars vm =
      (case fr of None \<Rightarrow> None
       | Some v1 \<Rightarrow> (case cr v1 of None \<Rightarrow> None
           | Some v2 \<Rightarrow> Some ((set_switches vm v2)\<lparr>outdir := vm_output vm\<rparr>)))"
    unfolding option_vars_def fr_def cr_def ..
  have "(option_vars vm = None) = (fr = None \<or> (\<exists>v1. fr = Some v1 \<and> cr v1 = None))"
  proof (cases fr)
    case None
    then show ?thesis by (simp add: ov)
  next
    case (Some v1)
    then show ?thesis by (cases "cr v1") (simp_all add: ov)
  qed
  also have "\<dots> = ((\<exists>f. vm_format vm = Some f \<and> spec_plan_table f = None) \<or>
      (\<exists>c. vm_color vm = Some c \<and> spec_color_table c = None))"
  proof (cases fr)
    case None
    then show ?thesis using fr by blast
  next
    case (Some v1)
    then show ?thesis using fr cr [of v1] by auto
  qed
  finally show ?thesis .
qed

lemma option_vars_plan:
  assumes "option_vars vm = Some v"
  shows "spec_plan_table (case vm_format vm of Some f \<Rightarrow> f | None \<Rightarrow> ''dng'') =
           Some (file_type v, extract_jpg v \<noteq> 0, extract_raw v \<noteq> 0,
                 extract_unconverted_raw v \<noteq> 0)"
proof -
  from assms obtain v1 v2 where
    f: "(case vm_format vm of Some fmt \<Rightarrow> set_format fmt init_vars | None \<Rightarrow> Some init_vars) = Some v1"
    and c: "(case vm_color vm of Some spc \<Rightarrow> set_color spc v1 | None \<Rightarrow> Some v1) = Some v2"
    and v: "v = (set_switches vm v2)\<lparr>outdir := vm_output vm\<rparr>"
    by (rule option_vars_SomeD)
  have 1: "spec_plan_table (case vm_format vm of Some f \<Rightarrow> f | None \<Rightarrow> ''dng'') =
           Some (file_type v1, extract_jpg v1 \<noteq> 0, extract_raw v1 \<noteq> 0,
                 extract_unconverted_raw v1 \<noteq> 0)"
  proof (cases "vm_format vm")
    case None
    with f have "v1 = init_vars" by simp
    with None show ?thesis by (simp add: spec_plan_table_def init_vars_def)
  next
    case (Some fmt)
    with f show ?thesis by (simp add: set_format_table)
  qed
  have 2: "file_type v2 = file_type v1 \<and> extract_jpg v2 = extract_jpg v1 \<and>
     extract_raw v2 = extract_raw v1 \<and> extract_unconverted_raw v2 = extract_unconverted_raw v1"
    using c by (auto split: option.splits dest: set_color_keeps)
  show ?thesis using 1 2 by (simp add: v set_switches_keeps)
qed

lemma bad_option_no_file_event:
  assumes "option_vars vm = None"
  shows "fst (main w vm) = 1 \<and> (\<forall>e \<in> set (snd (main w vm)). \<not> file_event e)"
  unfolding main_bad_option [OF assms]
  by (auto simp: prologue_def file_event_def split: option.splits)

lemma set_format_keeps:
  "set_format f init_vars = Some v \<Longrightarrow>
     crop v = 1 \<and> color_encoding v = SRGB \<and> apply_sgain v = - 1"
  by (auto simp: set_format_def Z_def Let_def init_vars_def split: if_splits)

lemma option_vars_switches:
  assumes "option_vars vm = Some v"
  shows "crop v = (if vm_noCrop vm then 0 else 1)"
    and "apply_sgain v = (if vm_sgain vm then 1 else if vm_noSGain vm then 0 else - 1)"
    and "color_encoding v = (case vm_color vm of None \<Rightarrow> SRGB | Some c \<Rightarrow> the (spec_color_table c))"
    and "outdir v = vm_output vm"
proof -
  from assms obtain v1 v2 where
    f: "(case vm_format vm of Some fmt \<Rightarrow> set_format fmt init_vars | None \<Rightarrow> Some init_vars) = Some v1"
    and c: "(case vm_color vm of Some spc \<Rightarrow> set_color spc v1 | None \<Rightarrow> Some v1) = Some v2"
    and v: "v = (set_switches vm v2)\<lparr>outdir := vm_output vm\<rparr>"
    by (rule option_vars_SomeD)
  have 1: "crop v1 = 1 \<and> color_encoding v1 = SRGB \<and> apply_sgain v1 = - 1"
  proof (cases "vm_format vm")
    case None
    with f show ?thesis by (auto simp: init_vars_def)
  next
    case (Some fmt)
    with f show ?thesis by (auto dest: set_format_keeps)
  qed
  have 2: "crop v2 = 1 \<and> apply_sgain v2 = - 1 \<and>
      color_encoding v2 = (case vm_color vm of None \<Rightarrow> SRGB | Some c \<Rightarrow> the (spec_color_table c))"
    using c 1 by (cases "vm_color vm") (auto dest: set_color_keeps)
  show "crop v = (if vm_noCrop vm then 0 else 1)"
    using 2 by (simp add: v set_switches_def Let_def split: option.splits)
  show "apply_sgain v = (if vm_sgain vm then 1 else if vm_noSGain vm then 0 else - 1)"
    using 2 by (simp add: v set_switches_def Let_def split: option.splits)
  show "color_encoding v = (case vm_color vm of None \<Rightarrow> SRGB | Some c \<Rightarrow> the (spec_color_table c))"
    using 2 by (simp add: v set_switches_keeps)
  show "outdir v = vm_output vm" by (simp add: v)
qed

lemma color_token_unprocessed:
  "spec_color_table c = Some e \<Longrightarrow> (e = UNPROCESSED) = (c = ''unprocessed'')"
  by (auto simp: spec_color_table_def split: if_splits)

lemma color_token_qtop:
  "spec_color_table c = Some e \<Longrightarrow> (e = QTOP) = (c = ''qtop'')"
  by (auto simp: spec_color_table_def split: if_splits)

lemma option_vars_color_known:
  assumes "option_vars vm = Some v" and "vm_color vm = Some c"
  shows "spec_color_table c = Some (color_encoding v)"
proof -
  have "option_vars vm \<noteq> None" using assms by simp
  then have "spec_color_table c \<noteq> None"
    using assms(2) option_vars_None [of vm] by auto
  then show ?thesis
    using option_vars_switches(3) [OF assms(1)] assms(2) by auto
qed

lemma plan_cases:
  assumes "spec_plan_table f = Some (t, j, r, u)"
  shows "(t = META) = (f = ''meta'')" and "(t = DNG) = (f = ''dng'')"
    and "r = (f \<in> {''tiff'', ''dng'', ''ppm-ascii'', ''ppm'', ''histogram'', ''loghist''})"
  using assms by (auto simp: spec_plan_table_def split: if_splits)

lemma option_vars_tiff_qtop_nocrop:
  "option_vars vm_tiff_qtop_nocrop =
     Some \<lparr> extract_jpg = 0, extract_raw = 1, extract_unconverted_raw = 0,
       crop = 0, fix_bad = 1, denoise = 1, apply_sgain = - 1,
       file_type = TIFF, color_encoding = QTOP, log_hist = 0, wb = None,
       compress = 0, use_opencl = 0, outdir = None \<rparr>"
  by (simp add: option_vars_def vm_tiff_qtop_nocrop_def vm_defaults_def set_format_def
      set_color_def set_switches_def Z_def init_vars_def Let_def)

text \<open>The events of the block from \<open>make_paths\<close> to \<open>goto clean_up\<close>, case by case.\<close>

lemma dump_and_commit_overflow:
  assumes "fst (snd (make_paths (w_target w) infile (outdir v) (extension (file_type v))
              (w_tmpfile0 w) (w_outfile0 w))) \<noteq> 0"
  shows "dump_and_commit w v infile x errors =
     (Call_make_paths infile (outdir v) (extension (file_type v))
        (fst (snd (make_paths (w_target w) infile (outdir v) (extension (file_type v))
              (w_tmpfile0 w) (w_outfile0 w)))) #
      fst (make_paths (w_target w) infile (outdir v) (extension (file_type v))
              (w_tmpfile0 w) (w_outfile0 w)) @
      [X3f_printf ERR ''Too large outfile path for infile %s and outdir %s\<newline>''
         [Arg_str (Some infile), Arg_str (outdir v)]], errors, True)"
  using assms by (simp add: dump_and_commit_def case_prod_beta Let_def)

lemma dump_and_commit_paths:
  assumes "snd (make_paths (w_target w) infile (outdir v) (extension (file_type v))
              (w_tmpfile0 w) (w_outfile0 w)) = (0, tmpfile, outfile)"
  shows "dump_and_commit w v infile x errors =
     (let msg = fst (dispatch v (resolve_sgain w v x) tmpfile outfile);
          call = snd (dispatch v (resolve_sgain w v x) tmpfile outfile);
          ret_dump = w_x3f_dump w x call;
          r = w_rename w tmpfile outfile
      in ([Call_make_paths infile (outdir v) (extension (file_type v)) 0,
           Unlink tmpfile, msg, X3f_dump call ret_dump] @
          (if ret_dump = X3F_OK then
             Rename tmpfile outfile r #
             (if r \<noteq> 0 then
                [X3f_printf ERR ''Could not rename %s to %s\<newline>''
                   [Arg_str (Some tmpfile), Arg_str (Some outfile)]]
              else [])
           else
             [X3f_printf ERR ''Could not dump to %s: %s\<newline>''
                [Arg_str (Some tmpfile), Arg_x3f_err ret_dump]]),
          if ret_dump = X3F_OK \<and> r = 0 then errors else errors + 1,
          False))"
proof -
  have "make_paths (w_target w) infile (outdir v) (extension (file_type v))
      (w_tmpfile0 w) (w_outfile0 w) = ([], 0, tmpfile, outfile)"
    using make_paths_tmp(3) [OF assms] assms by (metis prod.collapse)
  then show ?thesis
    by (auto simp: dump_and_commit_def Let_def case_prod_beta)
qed

lemma dispatch_path: "path_of_call (snd (dispatch v s tmpfile outfile)) = tmpfile"
  by (cases "file_type v") (simp_all add: dispatch_def path_of_call_def)

lemma dispatch_sgain:
  "sgain_of_call (snd (dispatch v s tmpfile outfile)) =
     (if file_type v \<in> {META, JPEG, RAW} then None else Some s)"
  by (cases "file_type v") (simp_all add: dispatch_def sgain_of_call_def)

lemma dispatch_msg: "\<exists>f a. fst (dispatch v s tmpfile outfile) = X3f_printf INFO f a"
  by (cases "file_type v") (simp_all add: dispatch_def)

lemma load_jpg_no_release: "e \<in> set (fst (load_jpg w v infile x)) \<Longrightarrow> \<not> release_event e"
  by (auto simp: load_jpg_def Let_def release_event_def split: if_splits)

lemma load_meta_no_release: "e \<in> set (fst (load_meta w v infile x)) \<Longrightarrow> \<not> release_event e"
  by (auto simp: load_meta_def Let_def release_event_def split: if_splits)

lemma load_raw_no_release: "e \<in> set (fst (load_raw w v infile x)) \<Longrightarrow> \<not> release_event e"
  by (auto simp: load_raw_def Let_def release_event_def split: if_splits)

lemma load_unconverted_raw_no_release:
  "e \<in> set (fst (load_unconverted_raw w v infile x)) \<Longrightarrow> \<not> release_event e"
  by (auto simp: load_unconverted_raw_def Let_def release_event_def split: if_splits)

lemma then_do_set: "set (fst (then_do b1 b2)) \<subseteq> set (fst b1) \<union> set (fst b2)"
  by (auto simp: then_do_def)

lemma load_sections_no_release:
  assumes "e \<in> set (fst (load_sections w v infile x))"
  shows "\<not> release_event e"
proof -
  have "e \<in> set (fst (load_jpg w v infile x)) \<union> set (fst (load_meta w v infile x)) \<union>
      set (fst (load_raw w v infile x)) \<union> set (fst (load_unconverted_raw w v infile x))"
    using assms unfolding load_sections_def
    by (auto simp: then_do_def split: if_splits)
  then show ?thesis
    using load_jpg_no_release load_meta_no_release load_raw_no_release
      load_unconverted_raw_no_release by blast
qed

lemma dump_and_commit_no_release:
  assumes "e \<in> set (fst (dump_and_commit w v infile x errors))"
  shows "\<not> release_event e"
proof (cases "fst (snd (make_paths (w_target w) infile (outdir v) (extension (file_type v))
              (w_tmpfile0 w) (w_outfile0 w))) = 0")
  case True
  then obtain tmpfile outfile where
    mp: "snd (make_paths (w_target w) infile (outdir v) (extension (file_type v))
              (w_tmpfile0 w) (w_outfile0 w)) = (0, tmpfile, outfile)"
    by (metis prod.collapse)
  from assms dispatch_msg [of v "resolve_sgain w v x" tmpfile outfile] show ?thesis
    unfolding dump_and_commit_paths [OF mp]
    by (auto simp: Let_def release_event_def split: if_splits)
next
  case False
  from assms show ?thesis
    unfolding dump_and_commit_overflow [OF False]
    by (auto simp: release_event_def too_large_event_def dest!: make_paths_event)
qed

text \<open>The four ways through \<open>process_file\<close>.\<close>

lemma process_file_open_failure:
  assumes "\<not> w_fopen w infile"
  shows "process_file w v infile files errors =
     ([Fopen infile False,
       X3f_printf ERR ''Could not open infile %s\<newline>'' [Arg_str (Some infile)],
       X3f_delete None], files + 1, errors + 1)"
  using assms by (simp add: process_file_def Let_def)

lemma process_file_read_failure:
  assumes "w_fopen w infile" and "w_x3f_new_from_file w infile = None"
  shows "process_file w v infile files errors =
     ([Fopen infile True,
       X3f_printf INFO ''READ THE X3F FILE %s\<newline>'' [Arg_str (Some infile)],
       X3f_new_from_file None,
       X3f_printf ERR ''Could not read infile %s\<newline>'' [Arg_str (Some infile)],
       X3f_delete None, Fclose], files + 1, errors + 1)"
  using assms by (simp add: process_file_def Let_def)

lemma process_file_load_failure:
  assumes "w_fopen w infile" and "w_x3f_new_from_file w infile = Some x"
    and "snd (load_sections w v infile x)"
  shows "process_file w v infile files errors =
     ([Fopen infile True,
       X3f_printf INFO ''READ THE X3F FILE %s\<newline>'' [Arg_str (Some infile)],
       X3f_new_from_file (Some x)] @ fst (load_sections w v infile x) @
      [X3f_delete (Some x), Fclose], files + 1, errors + 1)"
  using assms by (simp add: process_file_def Let_def case_prod_beta)

lemma process_file_loaded:
  assumes "w_fopen w infile" and "w_x3f_new_from_file w infile = Some x"
    and "\<not> snd (load_sections w v infile x)"
  shows "process_file w v infile files errors =
     ([Fopen infile True,
       X3f_printf INFO ''READ THE X3F FILE %s\<newline>'' [Arg_str (Some infile)],
       X3f_new_from_file (Some x)] @ fst (load_sections w v infile x) @
      fst (dump_and_commit w v infile x errors) @
      [X3f_delete (Some x), Fclose], files + 1,
      (if snd (snd (dump_and_commit w v infile x errors))
       then fst (snd (dump_and_commit w v infile x errors)) + 1
       else fst (snd (dump_and_commit w v infile x errors))))"
  using assms by (simp add: process_file_def Let_def case_prod_beta)

lemma process_file_release:
  "\<exists>body. fst (process_file w v infile files errors) =
     Fopen infile (w_fopen w infile) # body @
     X3f_delete (if w_fopen w infile then w_x3f_new_from_file w infile else None) #
     (if w_fopen w infile then [Fclose] else []) \<and>
     filter release_event body = []"
proof (cases "w_fopen w infile")
  case False
  then show ?thesis
    by (simp add: process_file_open_failure release_event_def)
next
  case True
  show ?thesis
  proof (cases "w_x3f_new_from_file w infile")
    case None
    with True show ?thesis
      by (simp add: process_file_read_failure release_event_def)
  next
    case (Some x)
    show ?thesis
    proof (cases "snd (load_sections w v infile x)")
      case failed: True
      have "filter release_event (fst (load_sections w v infile x)) = []"
        by (simp add: filter_empty_conv load_sections_no_release)
      with True Some failed show ?thesis
        by (simp add: process_file_load_failure release_event_def)
    next
      case False
      have "filter release_event (fst (load_sections w v infile x)) = []"
        "filter release_event (fst (dump_and_commit w v infile x errors)) = []"
        by (simp_all add: filter_empty_conv load_sections_no_release dump_and_commit_no_release)
      with True Some False show ?thesis
        by (simp add: process_file_loaded release_event_def)
    qed
  qed
qed

lemma option_vars_photo:
  "option_vars vm_photo = Some init_vars"
  by (simp add: option_vars_def vm_photo_def vm_defaults_def set_switches_def init_vars_def Let_def)

lemma option_vars_photo_out:
  "option_vars vm_photo_out = Some (init_vars\<lparr>outdir := Some ''/out''\<rparr>)"
  by (simp add: option_vars_def vm_photo_out_def vm_defaults_def set_switches_def init_vars_def Let_def)

lemma process_file_photo_ok:
  "process_file w_all_ok init_vars ''photo.x3f'' 0 0 =
     ([Fopen ''photo.x3f'' True,
       X3f_printf INFO ''READ THE X3F FILE %s\<newline>'' [Arg_str (Some ''photo.x3f'')],
       X3f_new_from_file (Some x3f_example),
       X3f_get_prop (Some 3), X3f_get_camf (Some 2),
       X3f_load_data (Some 2) X3F_OK, X3f_load_data (Some 3) X3F_OK,
       X3f_get_raw (Some 4), X3f_load_data (Some 4) X3F_OK,
       Call_make_paths ''photo.x3f'' None ''.dng'' 0,
       Unlink ''photo.x3f.dng.tmp'',
       X3f_printf INFO ''Dump RAW as DNG to %s\<newline>'' [Arg_str (Some ''photo.x3f.dng'')],
       X3f_dump (Dump_raw_data_as_dng ''photo.x3f.dng.tmp'' 1 1 1 None 0) X3F_OK,
       Rename ''photo.x3f.dng.tmp'' ''photo.x3f.dng'' 0,
       X3f_delete (Some x3f_example), Fclose], 1, 0)"
  by (simp add: process_file_def w_all_ok_def x3f_example_def init_vars_def load_sections_def
      load_jpg_def load_meta_def load_raw_def load_unconverted_raw_def then_do_def
      extract_meta_def dump_and_commit_def make_paths_def safecpy_def safecat_def strnlen_def
      MAXOUTPATH_def MAXTMPPATH_def MAXPATH_def EXTMAX_def extension_def resolve_sgain_def
      dispatch_def Let_def)

lemma load_sections_stage:
  assumes "e \<in> set (fst (load_sections w v infile x))"
  shows "load_stage_event e"
proof -
  have "e \<in> set (fst (load_jpg w v infile x)) \<union> set (fst (load_meta w v infile x)) \<union>
      set (fst (load_raw w v infile x)) \<union> set (fst (load_unconverted_raw w v infile x))"
    using assms unfolding load_sections_def
    by (auto simp: then_do_def split: if_splits)
  moreover have "e \<in> set (fst (load_jpg w v infile x)) \<Longrightarrow> load_stage_event e"
    by (auto simp: load_jpg_def Let_def load_stage_event_def split: if_splits)
  moreover have "e \<in> set (fst (load_meta w v infile x)) \<Longrightarrow> load_stage_event e"
    by (auto simp: load_meta_def Let_def load_stage_event_def split: if_splits)
  moreover have "e \<in> set (fst (load_raw w v infile x)) \<Longrightarrow> load_stage_event e"
    by (auto simp: load_raw_def Let_def load_stage_event_def split: if_splits)
  moreover have "e \<in> set (fst (load_unconverted_raw w v infile x)) \<Longrightarrow> load_stage_event e"
    by (auto simp: load_unconverted_raw_def Let_def load_stage_event_def split: if_splits)
  ultimately show ?thesis by blast
qed

lemma load_stage_not_commit: "load_stage_event e \<Longrightarrow> \<not> commit_event e"
  by (cases e) (simp_all add: load_stage_event_def commit_event_def)

lemma process_file_commit_events:
  assumes "e \<in> set (fst (process_file w v infile files errors))" and "commit_event e"
  shows "w_fopen w infile \<and>
     (\<exists>x. w_x3f_new_from_file w infile = Some x \<and> \<not> snd (load_sections w v infile x) \<and>
          e \<in> set (fst (dump_and_commit w v infile x errors)))"
proof (cases "w_fopen w infile")
  case False
  with assms show ?thesis
    by (auto simp: process_file_open_failure commit_event_def)
next
  case True
  show ?thesis
  proof (cases "w_x3f_new_from_file w infile")
    case None
    with True assms show ?thesis
      by (auto simp: process_file_read_failure commit_event_def)
  next
    case (Some x)
    have nl: "e \<notin> set (fst (load_sections w v infile x))"
      using assms(2) load_sections_stage load_stage_not_commit by blast
    show ?thesis
    proof (cases "snd (load_sections w v infile x)")
      case failed: True
      with True Some assms nl show ?thesis
        by (auto simp: process_file_load_failure commit_event_def)
    next
      case False
      with True Some assms nl show ?thesis
        by (auto simp: process_file_loaded commit_event_def)
    qed
  qed
qed

lemma main_commit_events:
  assumes "option_vars vm = Some v" and "vm_input vm = Some infile"
    and "e \<in> set (snd (main w vm))" and "commit_event e"
  shows "e \<in> set (fst (process_file w v infile 0 0))"
  using assms(3,4) unfolding main_with_input [OF assms(1,2)]
  by (auto simp: prologue_def switch_events_def output_events_def set_output_def epilogue_def
      Let_def commit_event_def split: option.splits if_splits)

lemma load_sections_stat:
  "load_sections (w\<lparr>w_stat := s\<rparr>) v infile x = load_sections w v infile x"
proof -
  have "load_jpg (w\<lparr>w_stat := s\<rparr>) v infile x = load_jpg w v infile x"
    by (simp add: load_jpg_def Let_def)
  moreover have "load_meta (w\<lparr>w_stat := s\<rparr>) v infile x = load_meta w v infile x"
    by (simp add: load_meta_def Let_def)
  moreover have "load_raw (w\<lparr>w_stat := s\<rparr>) v infile x = load_raw w v infile x"
    by (simp add: load_raw_def Let_def)
  moreover have "load_unconverted_raw (w\<lparr>w_stat := s\<rparr>) v infile x =
      load_unconverted_raw w v infile x"
    by (simp add: load_unconverted_raw_def Let_def)
  ultimately show ?thesis by (simp add: load_sections_def)
qed

lemma dump_and_commit_stat:
  "dump_and_commit (w\<lparr>w_stat := s\<rparr>) v infile x errors = dump_and_commit w v infile x errors"
proof (cases "fst (snd (make_paths (w_target w) infile (outdir v) (extension (file_type v))
              (w_tmpfile0 w) (w_outfile0 w))) = 0")
  case True
  then obtain tmpfile outfile where
    mp: "snd (make_paths (w_target w) infile (outdir v) (extension (file_type v))
              (w_tmpfile0 w) (w_outfile0 w)) = (0, tmpfile, outfile)"
    by (metis prod.collapse)
  then have mp': "snd (make_paths (w_target (w\<lparr>w_stat := s\<rparr>)) infile (outdir v)
      (extension (file_type v)) (w_tmpfile0 (w\<lparr>w_stat := s\<rparr>))
      (w_outfile0 (w\<lparr>w_stat := s\<rparr>))) = (0, tmpfile, outfile)"
    by simp
  have "resolve_sgain (w\<lparr>w_stat := s\<rparr>) v x = resolve_sgain w v x"
    by (simp add: resolve_sgain_def)
  then show ?thesis
    unfolding dump_and_commit_paths [OF mp] dump_and_commit_paths [OF mp']
    by (simp add: Let_def)
next
  case False
  then have "fst (snd (make_paths (w_target (w\<lparr>w_stat := s\<rparr>)) infile (outdir v)
      (extension (file_type v)) (w_tmpfile0 (w\<lparr>w_stat := s\<rparr>))
      (w_outfile0 (w\<lparr>w_stat := s\<rparr>)))) \<noteq> 0"
    by simp
  from dump_and_commit_overflow [OF this] dump_and_commit_overflow [OF False]
  show ?thesis by simp
qed

lemma process_file_stat:
  "process_file (w\<lparr>w_stat := s\<rparr>) v infile files errors = process_file w v infile files errors"
proof (cases "w_fopen w infile")
  case False
  then have "\<not> w_fopen (w\<lparr>w_stat := s\<rparr>) infile" by simp
  from process_file_open_failure [OF this] process_file_open_failure [OF False]
  show ?thesis by simp
next
  case True
  then have o: "w_fopen (w\<lparr>w_stat := s\<rparr>) infile" by simp
  show ?thesis
  proof (cases "w_x3f_new_from_file w infile")
    case None
    then have "w_x3f_new_from_file (w\<lparr>w_stat := s\<rparr>) infile = None" by simp
    from process_file_read_failure [OF o this] process_file_read_failure [OF True None]
    show ?thesis by simp
  next
    case (Some x)
    then have n: "w_x3f_new_from_file (w\<lparr>w_stat := s\<rparr>) infile = Some x" by simp
    show ?thesis
    proof (cases "snd (load_sections w v infile x)")
      case failed: True
      then have "snd (load_sections (w\<lparr>w_stat := s\<rparr>) v infile x)"
        by (simp add: load_sections_stat)
      from process_file_load_failure [OF o n this]
        process_file_load_failure [OF True Some failed]
      show ?thesis by (simp add: load_sections_stat)
    next
      case False
      then have "\<not> snd (load_sections (w\<lparr>w_stat := s\<rparr>) v infile x)"
        by (simp add: load_sections_stat)
      from process_file_loaded [OF o n this] process_file_loaded [OF True Some False]
      show ?thesis by (simp add: load_sections_stat dump_and_commit_stat)
    qed
  qed
qed

lemma dump_and_commit_make_paths_event:
  assumes "Call_make_paths i od ex er \<in> set (fst (dump_and_commit w v infile x errors))"
  shows "i = infile \<and> od = outdir v \<and> ex = extension (file_type v) \<and>
     er = fst (snd (make_paths (w_target w) infile (outdir v) (extension (file_type v))
              (w_tmpfile0 w) (w_outfile0 w)))"
proof (cases "fst (snd (make_paths (w_target w) infile (outdir v) (extension (file_type v))
              (w_tmpfile0 w) (w_outfile0 w))) = 0")
  case True
  then obtain tmpfile outfile where
    mp: "snd (make_paths (w_target w) infile (outdir v) (extension (file_type v))
              (w_tmpfile0 w) (w_outfile0 w)) = (0, tmpfile, outfile)"
    by (metis prod.collapse)
  from assms dispatch_msg [of v "resolve_sgain w v x" tmpfile outfile] show ?thesis
    unfolding dump_and_commit_paths [OF mp]
    by (auto simp: Let_def mp split: if_splits)
next
  case False
  from assms show ?thesis
    unfolding dump_and_commit_overflow [OF False]
    by (auto simp: too_large_event_def dest!: make_paths_event)
qed

lemma option_vars_outdir: "option_vars vm = Some v \<Longrightarrow> outdir v = vm_output vm"
  by (erule option_vars_SomeD) simp

lemma main_photo_ok:
  "main w_all_ok vm_photo =
     (0, [X3f_printf INFO ''X3F TOOLS VERSION = %s\<newline>\<newline>'' [Arg_version],
       Setvbuf Stdout, Setvbuf Stderr, X3f_set_use_opencl 0,
       Fopen ''photo.x3f'' True,
       X3f_printf INFO ''READ THE X3F FILE %s\<newline>'' [Arg_str (Some ''photo.x3f'')],
       X3f_new_from_file (Some x3f_example),
       X3f_get_prop (Some 3), X3f_get_camf (Some 2),
       X3f_load_data (Some 2) X3F_OK, X3f_load_data (Some 3) X3F_OK,
       X3f_get_raw (Some 4), X3f_load_data (Some 4) X3F_OK,
       Call_make_paths ''photo.x3f'' None ''.dng'' 0,
       Unlink ''photo.x3f.dng.tmp'',
       X3f_printf INFO ''Dump RAW as DNG to %s\<newline>'' [Arg_str (Some ''photo.x3f.dng'')],
       X3f_dump (Dump_raw_data_as_dng ''photo.x3f.dng.tmp'' 1 1 1 None 0) X3F_OK,
       Rename ''photo.x3f.dng.tmp'' ''photo.x3f.dng'' 0,
       X3f_delete (Some x3f_example), Fclose,
       X3f_printf INFO (''Files processed: %d'' @ [CHR 0x09] @ ''errors: %d\<newline>'')
         [Arg_int 1, Arg_int 0]])"
proof -
  have i: "vm_input vm_photo = Some ''photo.x3f''"
    by (simp add: vm_photo_def vm_defaults_def)
  have p: "prologue vm_photo @ switch_events vm_photo @ output_events w_all_ok vm_photo =
      [X3f_printf INFO ''X3F TOOLS VERSION = %s\<newline>\<newline>'' [Arg_version],
       Setvbuf Stdout, Setvbuf Stderr]"
    by (simp add: vm_photo_def vm_defaults_def prologue_def switch_events_def
        output_events_def set_output_def)
  have u: "use_opencl init_vars = 0" by (simp add: init_vars_def)
  show ?thesis
    unfolding main_with_input [OF option_vars_photo i] process_file_photo_ok
    using p u by (simp add: epilogue_def)
qed

lemma dump_and_commit_dump_event:
  assumes "X3f_dump call ret \<in> set (fst (dump_and_commit w v infile x errors))"
  shows "\<exists>tmpfile outfile.
     snd (make_paths (w_target w) infile (outdir v) (extension (file_type v))
       (w_tmpfile0 w) (w_outfile0 w)) = (0, tmpfile, outfile) \<and>
     call = snd (dispatch v (resolve_sgain w v x) tmpfile outfile) \<and>
     ret = w_x3f_dump w x call"
proof (cases "fst (snd (make_paths (w_target w) infile (outdir v) (extension (file_type v))
              (w_tmpfile0 w) (w_outfile0 w))) = 0")
  case True
  then obtain tmpfile outfile where
    mp: "snd (make_paths (w_target w) infile (outdir v) (extension (file_type v))
              (w_tmpfile0 w) (w_outfile0 w)) = (0, tmpfile, outfile)"
    by (metis prod.collapse)
  from assms dispatch_msg [of v "resolve_sgain w v x" tmpfile outfile] show ?thesis
    unfolding dump_and_commit_paths [OF mp]
    by (auto simp: Let_def mp split: if_splits)
next
  case False
  from assms show ?thesis
    unfolding dump_and_commit_overflow [OF False]
    by (auto simp: too_large_event_def dest!: make_paths_event)
qed

lemma check_dir_no_dir: "check_dir w_no_dir p = - 1"
  by (simp add: check_dir_def w_no_dir_def)

lemma make_paths_photo_out:
  "make_paths Other ''/in/photo.x3f'' (Some ''/out'') ''.dng'' [] [] =
     ([], 0, ''/out/photo.x3f.dng.tmp'', ''/out/photo.x3f.dng'')"
  by code_simp

lemma load_sections_example:
  "load_sections w_all_ok (init_vars\<lparr>outdir := od\<rparr>) infile x3f_example =
     ([X3f_get_prop (Some 3), X3f_get_camf (Some 2),
       X3f_load_data (Some 2) X3F_OK, X3f_load_data (Some 3) X3F_OK,
       X3f_get_raw (Some 4), X3f_load_data (Some 4) X3F_OK], False)"
  by (simp add: load_sections_def load_jpg_def load_meta_def load_raw_def
      load_unconverted_raw_def then_do_def extract_meta_def init_vars_def w_all_ok_def
      x3f_example_def Let_def)

lemma process_file_photo_out:
  "process_file w_no_dir (init_vars\<lparr>outdir := Some ''/out''\<rparr>) ''/in/photo.x3f'' 0 0 =
     ([Fopen ''/in/photo.x3f'' True,
       X3f_printf INFO ''READ THE X3F FILE %s\<newline>'' [Arg_str (Some ''/in/photo.x3f'')],
       X3f_new_from_file (Some x3f_example),
       X3f_get_prop (Some 3), X3f_get_camf (Some 2),
       X3f_load_data (Some 2) X3F_OK, X3f_load_data (Some 3) X3F_OK,
       X3f_get_raw (Some 4), X3f_load_data (Some 4) X3F_OK,
       Call_make_paths ''/in/photo.x3f'' (Some ''/out'') ''.dng'' 0,
       Unlink ''/out/photo.x3f.dng.tmp'',
       X3f_printf INFO ''Dump RAW as DNG to %s\<newline>''
         [Arg_str (Some ''/out/photo.x3f.dng'')],
       X3f_dump (Dump_raw_data_as_dng ''/out/photo.x3f.dng.tmp'' 1 1 1 None 0) X3F_OK,
       Rename ''/out/photo.x3f.dng.tmp'' ''/out/photo.x3f.dng'' 0,
       X3f_delete (Some x3f_example), Fclose], 1, 0)"
proof -
  let ?v = "init_vars\<lparr>outdir := Some ''/out''\<rparr>"
  have o: "w_fopen w_all_ok ''/in/photo.x3f''"
    and n: "w_x3f_new_from_file w_all_ok ''/in/photo.x3f'' = Some x3f_example"
    by (simp_all add: w_all_ok_def)
  have l: "\<not> snd (load_sections w_all_ok ?v ''/in/photo.x3f'' x3f_example)"
    by (simp add: load_sections_example)
  have mp: "snd (make_paths (w_target w_all_ok) ''/in/photo.x3f'' (outdir ?v)
      (extension (file_type ?v)) (w_tmpfile0 w_all_ok) (w_outfile0 w_all_ok)) =
      (0, ''/out/photo.x3f.dng.tmp'', ''/out/photo.x3f.dng'')"
    using make_paths_photo_out by (simp add: w_all_ok_def init_vars_def extension_def)
  have d: "dump_and_commit w_all_ok ?v ''/in/photo.x3f'' x3f_example 0 =
     ([Call_make_paths ''/in/photo.x3f'' (Some ''/out'') ''.dng'' 0,
       Unlink ''/out/photo.x3f.dng.tmp'',
       X3f_printf INFO ''Dump RAW as DNG to %s\<newline>''
         [Arg_str (Some ''/out/photo.x3f.dng'')],
       X3f_dump (Dump_raw_data_as_dng ''/out/photo.x3f.dng.tmp'' 1 1 1 None 0) X3F_OK,
       Rename ''/out/photo.x3f.dng.tmp'' ''/out/photo.x3f.dng'' 0], 0, False)"
    unfolding dump_and_commit_paths [OF mp]
    by (simp add: dispatch_def resolve_sgain_def w_all_ok_def x3f_example_def init_vars_def
        extension_def Let_def)
  show ?thesis
    unfolding w_no_dir_def process_file_stat process_file_loaded [OF o n l] d
    by (simp add: load_sections_example)
qed

lemma upto_first_failure_append:
  "upto_first_failure (xs @ ys) =
     (if \<exists>e \<in> set xs. load_failed e then upto_first_failure xs
      else xs @ upto_first_failure ys)"
  by (induction xs) auto

lemma upto_first_failure_id:
  "\<not> (\<exists>e \<in> set xs. load_failed e) \<Longrightarrow> upto_first_failure xs = xs"
  by (induction xs) auto

lemma then_do_failed: "snd (then_do b1 b2) = (snd b1 \<or> snd b2)"
  by (simp add: then_do_def)

lemma then_do_loads:
  assumes 1: "filter is_load (fst b1) = upto_first_failure p1"
    and 2: "filter is_load (fst b2) = upto_first_failure p2"
    and 3: "snd b1 = ((\<exists>e \<in> set p1. load_failed e) \<or> m1)"
    and 4: "m1 \<Longrightarrow> p2 = []"
  shows "filter is_load (fst (then_do b1 b2)) = upto_first_failure (p1 @ p2)"
proof (cases "\<exists>e \<in> set p1. load_failed e")
  case True
  with 3 have "snd b1" by simp
  with True 1 show ?thesis
    by (simp add: then_do_def upto_first_failure_append)
next
  case False
  then have id: "upto_first_failure p1 = p1"
    by (rule upto_first_failure_id)
  show ?thesis
  proof (cases m1)
    case True
    with 3 have "snd b1" by simp
    moreover from True 4 have "p2 = []" by simp
    ultimately show ?thesis using 1 by (simp add: then_do_def)
  next
    case nm: False
    with False 3 have "\<not> snd b1" by simp
    with False 1 2 id show ?thesis
      by (simp add: then_do_def upto_first_failure_append)
  qed
qed

lemma planned_loads_segments:
  "planned_loads w v x =
     planned_jpg w v x @ planned_meta w v x @ planned_raw w v x @ planned_unconverted_raw w v x"
  by (simp add: planned_loads_def planned_jpg_def planned_meta_def planned_raw_def
      planned_unconverted_raw_def)

lemma load_jpg_plan:
  "filter is_load (fst (load_jpg w v infile x)) = upto_first_failure (planned_jpg w v x)"
  "snd (load_jpg w v infile x) = (\<exists>e \<in> set (planned_jpg w v x). load_failed e)"
  by (auto simp: load_jpg_def planned_jpg_def is_load_def load_failed_def Let_def)

lemma load_meta_plan:
  "filter is_load (fst (load_meta w v infile x)) = upto_first_failure (planned_meta w v x)"
  "snd (load_meta w v infile x) = (\<exists>e \<in> set (planned_meta w v x). load_failed e)"
  by (auto simp: load_meta_def planned_meta_def is_load_def load_failed_def Let_def)

lemma load_raw_plan:
  "filter is_load (fst (load_raw w v infile x)) = upto_first_failure (planned_raw w v x)"
  "snd (load_raw w v infile x) =
     ((\<exists>e \<in> set (planned_raw w v x). load_failed e) \<or> (extract_raw v \<noteq> 0 \<and> get_raw x = None))"
  by (auto simp: load_raw_def planned_raw_def is_load_def load_failed_def Let_def)

lemma load_unconverted_raw_plan:
  "filter is_load (fst (load_unconverted_raw w v infile x)) =
     upto_first_failure (planned_unconverted_raw w v x)"
  "snd (load_unconverted_raw w v infile x) =
     ((\<exists>e \<in> set (planned_unconverted_raw w v x). load_failed e) \<or>
      (extract_unconverted_raw v \<noteq> 0 \<and> get_raw x = None))"
  by (auto simp: load_unconverted_raw_def planned_unconverted_raw_def is_load_def
      load_failed_def Let_def)

lemma load_sections_failed:
  "snd (load_sections w v infile x) =
     ((\<exists>e \<in> set (planned_loads w v x). load_failed e) \<or>
      ((extract_raw v \<noteq> 0 \<or> extract_unconverted_raw v \<noteq> 0) \<and> get_raw x = None))"
  unfolding load_sections_def then_do_failed planned_loads_segments
    load_jpg_plan load_meta_plan load_raw_plan load_unconverted_raw_plan
  by auto

lemma load_sections_loads:
  "filter is_load (fst (load_sections w v infile x)) = upto_first_failure (planned_loads w v x)"
proof -
  have ru: "filter is_load (fst (then_do (load_raw w v infile x)
        (load_unconverted_raw w v infile x))) =
      upto_first_failure (planned_raw w v x @ planned_unconverted_raw w v x)"
    by (rule then_do_loads [OF load_raw_plan(1) load_unconverted_raw_plan(1) load_raw_plan(2)])
      (simp add: planned_unconverted_raw_def)
  have mru: "filter is_load (fst (then_do (load_meta w v infile x)
        (then_do (load_raw w v infile x) (load_unconverted_raw w v infile x)))) =
      upto_first_failure (planned_meta w v x @ planned_raw w v x @ planned_unconverted_raw w v x)"
    by (rule then_do_loads [OF load_meta_plan(1) ru, where ?m1.0 = False])
      (simp_all add: load_meta_plan(2))
  show ?thesis
    unfolding load_sections_def planned_loads_segments
    by (rule then_do_loads [OF load_jpg_plan(1) mru, where ?m1.0 = False])
      (simp_all add: load_jpg_plan(2))
qed

lemma plan_not_both_raw:
  assumes "option_vars vm = Some v"
  shows "\<not> (extract_raw v \<noteq> 0 \<and> extract_unconverted_raw v \<noteq> 0)"
  using option_vars_plan [OF assms]
  by (auto simp: spec_plan_table_def split: if_splits)

lemma dump_and_commit_no_load:
  "filter is_load (fst (dump_and_commit w v infile x errors)) = []"
proof (cases "fst (snd (make_paths (w_target w) infile (outdir v) (extension (file_type v))
              (w_tmpfile0 w) (w_outfile0 w))) = 0")
  case True
  then obtain tmpfile outfile where
    mp: "snd (make_paths (w_target w) infile (outdir v) (extension (file_type v))
              (w_tmpfile0 w) (w_outfile0 w)) = (0, tmpfile, outfile)"
    by (metis prod.collapse)
  from dispatch_msg [of v "resolve_sgain w v x" tmpfile outfile] show ?thesis
    unfolding dump_and_commit_paths [OF mp]
    by (auto simp: Let_def is_load_def)
next
  case False
  show ?thesis
    unfolding dump_and_commit_overflow [OF False]
    by (auto simp: is_load_def filter_empty_conv too_large_event_def dest!: make_paths_event)
qed

lemma process_file_loads:
  "filter is_load (fst (process_file w v infile files errors)) =
     (if w_fopen w infile
      then (case w_x3f_new_from_file w infile of
              None \<Rightarrow> []
            | Some x \<Rightarrow> upto_first_failure (planned_loads w v x))
      else [])"
proof (cases "w_fopen w infile")
  case False
  then show ?thesis by (simp add: process_file_open_failure is_load_def)
next
  case True
  show ?thesis
  proof (cases "w_x3f_new_from_file w infile")
    case None
    with True show ?thesis by (simp add: process_file_read_failure is_load_def)
  next
    case (Some x)
    show ?thesis
    proof (cases "snd (load_sections w v infile x)")
      case failed: True
      show ?thesis
        unfolding process_file_load_failure [OF True Some failed]
        using True Some by (simp add: is_load_def load_sections_loads)
    next
      case False
      show ?thesis
        unfolding process_file_loaded [OF True Some False]
        using True Some by (simp add: is_load_def load_sections_loads dump_and_commit_no_load)
    qed
  qed
qed

lemma main_loads:
  assumes "option_vars vm = Some v" and "vm_input vm = Some infile"
  shows "filter is_load (snd (main w vm)) =
     filter is_load (fst (process_file w v infile 0 0))"
  unfolding main_with_input [OF assms]
  by (auto simp: prologue_def switch_events_def output_events_def set_output_def epilogue_def
      Let_def is_load_def split: option.splits)

lemma planned_loads_camf_fails:
  "planned_loads w_camf_fails init_vars x3f_example =
     [X3f_load_data (Some 2) (X3F_FAILURE 1), X3f_load_data (Some 3) X3F_OK,
      X3f_load_data (Some 4) X3F_OK]"
  by (simp add: planned_loads_def w_camf_fails_def w_all_ok_def x3f_example_def init_vars_def
      extract_meta_def)

lemma dump_and_commit_result:
  "snd (dump_and_commit w v infile x errors) =
     (let r = snd (make_paths (w_target w) infile (outdir v) (extension (file_type v))
                (w_tmpfile0 w) (w_outfile0 w));
          call = snd (dispatch v (resolve_sgain w v x) (fst (snd r)) (snd (snd r)))
      in if fst r \<noteq> 0 then (errors, True)
         else if w_x3f_dump w x call = X3F_OK \<and> w_rename w (fst (snd r)) (snd (snd r)) = 0
         then (errors, False) else (errors + 1, False))"
proof (cases "fst (snd (make_paths (w_target w) infile (outdir v) (extension (file_type v))
              (w_tmpfile0 w) (w_outfile0 w))) = 0")
  case True
  then obtain tmpfile outfile where
    mp: "snd (make_paths (w_target w) infile (outdir v) (extension (file_type v))
              (w_tmpfile0 w) (w_outfile0 w)) = (0, tmpfile, outfile)"
    by (metis prod.collapse)
  show ?thesis
    unfolding dump_and_commit_paths [OF mp] by (simp add: Let_def mp)
next
  case False
  then show ?thesis
    unfolding dump_and_commit_overflow [OF False] by (simp add: Let_def)
qed

lemma dump_and_commit_renamed:
  "(\<exists>t f. Rename t f 0 \<in> set (fst (dump_and_commit w v infile x errors))) =
     (\<not> snd (snd (dump_and_commit w v infile x errors)) \<and>
      fst (snd (dump_and_commit w v infile x errors)) = errors)"
proof (cases "fst (snd (make_paths (w_target w) infile (outdir v) (extension (file_type v))
              (w_tmpfile0 w) (w_outfile0 w))) = 0")
  case True
  then obtain tmpfile outfile where
    mp: "snd (make_paths (w_target w) infile (outdir v) (extension (file_type v))
              (w_tmpfile0 w) (w_outfile0 w)) = (0, tmpfile, outfile)"
    by (metis prod.collapse)
  from dispatch_msg [of v "resolve_sgain w v x" tmpfile outfile] show ?thesis
    unfolding dump_and_commit_paths [OF mp] by (auto simp: Let_def)
next
  case False
  then show ?thesis
    unfolding dump_and_commit_overflow [OF False]
    by (auto simp: too_large_event_def dest!: make_paths_event)
qed

lemma process_file_renamed:
  "(\<exists>t f. Rename t f 0 \<in> set (fst (process_file w v infile files errors))) =
     (snd (snd (process_file w v infile files errors)) = errors)"
proof (cases "w_fopen w infile")
  case False
  then show ?thesis by (simp add: process_file_open_failure)
next
  case True
  show ?thesis
  proof (cases "w_x3f_new_from_file w infile")
    case None
    with True show ?thesis by (simp add: process_file_read_failure)
  next
    case (Some x)
    have nl: "Rename t f 0 \<notin> set (fst (load_sections w v infile x))" for t f
      using load_sections_stage [of "Rename t f 0" w v infile x]
      by (auto simp: load_stage_event_def)
    show ?thesis
    proof (cases "snd (load_sections w v infile x)")
      case failed: True
      show ?thesis
        unfolding process_file_load_failure [OF True Some failed] using nl by simp
    next
      case False
      have "(\<exists>t f. Rename t f 0 \<in> set (fst (process_file w v infile files errors))) =
          (\<exists>t f. Rename t f 0 \<in> set (fst (dump_and_commit w v infile x errors)))"
        unfolding process_file_loaded [OF True Some False] using nl by simp
      also have "\<dots> = (snd (snd (process_file w v infile files errors)) = errors)"
        unfolding dump_and_commit_renamed process_file_loaded [OF True Some False]
        by (auto simp: dump_and_commit_result Let_def)
      finally show ?thesis .
    qed
  qed
qed

lemma process_file_errors:
  "snd (snd (process_file w v infile files errors)) = errors \<or>
   snd (snd (process_file w v infile files errors)) = errors + 1"
proof (cases "w_fopen w infile")
  case False
  then show ?thesis by (simp add: process_file_open_failure)
next
  case True
  show ?thesis
  proof (cases "w_x3f_new_from_file w infile")
    case None
    with True show ?thesis by (simp add: process_file_read_failure)
  next
    case (Some x)
    show ?thesis
    proof (cases "snd (load_sections w v infile x)")
      case failed: True
      show ?thesis
        unfolding process_file_load_failure [OF True Some failed] by simp
    next
      case False
      show ?thesis
        unfolding process_file_loaded [OF True Some False]
        by (simp add: dump_and_commit_result Let_def)
    qed
  qed
qed

lemma main_status:
  assumes "option_vars vm = Some v" and "vm_input vm = Some infile"
  shows "fst (main w vm) = snd (snd (process_file w v infile 0 0))"
  unfolding main_with_input [OF assms]
  using process_file_errors [of w v infile 0 0] by (auto simp: epilogue_def)

lemma main_renamed:
  assumes "option_vars vm = Some v" and "vm_input vm = Some infile"
  shows "(\<exists>t f. Rename t f 0 \<in> set (snd (main w vm))) = (fst (main w vm) = 0)"
proof -
  have "Rename t f 0 \<in> set (snd (main w vm)) =
      (Rename t f 0 \<in> set (fst (process_file w v infile 0 0)))" for t f
    unfolding main_with_input [OF assms]
    by (auto simp: prologue_def switch_events_def output_events_def set_output_def epilogue_def
      Let_def split: option.splits)
  then show ?thesis
    using process_file_renamed [of w v infile 0 0] main_status [OF assms, of w] by simp
qed

lemma make_paths_photo:
  "make_paths Other ''photo.x3f'' None ''.dng'' [] [] =
     ([], 0, ''photo.x3f.dng.tmp'', ''photo.x3f.dng'')"
  by code_simp

lemma claimed_final_path_eq:
  "odir \<noteq> Some [] \<Longrightarrow> claimed_final_path pf inpath odir ext = final_path pf inpath odir ext"
  by (auto simp: claimed_final_path_def final_path_def split: option.splits)



lemma load_sections_init_ok:
  "load_sections w_all_ok init_vars infile x3f_example =
     ([X3f_get_prop (Some 3), X3f_get_camf (Some 2),
       X3f_load_data (Some 2) X3F_OK, X3f_load_data (Some 3) X3F_OK,
       X3f_get_raw (Some 4), X3f_load_data (Some 4) X3F_OK], False)"
  using load_sections_example [of None infile] by (simp add: init_vars_def)

lemma io_event_simps:
  "container_io (Fopen p b)" "\<not> is_make_paths (Fopen p b)"
  "container_io (X3f_new_from_file h)" "\<not> is_make_paths (X3f_new_from_file h)"
  "\<not> container_io (X3f_printf l f a)" "\<not> is_make_paths (X3f_printf l f a)"
  "\<not> container_io (X3f_delete h)" "\<not> is_make_paths (X3f_delete h)"
  "\<not> container_io Fclose" "\<not> is_make_paths Fclose"
  "\<not> container_io Fprintf_stderr_Desc" "\<not> is_make_paths Fprintf_stderr_Desc"
  "\<not> container_io (X3f_set_use_opencl n)" "\<not> is_make_paths (X3f_set_use_opencl n)"
  "\<not> container_io (Call_make_paths p od ex er)" "is_make_paths (Call_make_paths p od ex er)"
  by (simp_all add: container_io_def is_make_paths_def)

lemma load_sections_io:
  "filter (\<lambda>e. container_io e \<or> is_make_paths e) (fst (load_sections w v infile x)) =
     filter is_load (fst (load_sections w v infile x))"
proof (rule filter_cong [OF refl])
  fix e assume "e \<in> set (fst (load_sections w v infile x))"
  then have "load_stage_event e" by (rule load_sections_stage)
  then show "(container_io e \<or> is_make_paths e) = is_load e"
    by (cases e) (simp_all add: load_stage_event_def container_io_def is_make_paths_def is_load_def)
qed

lemma dump_and_commit_io:
  "filter (\<lambda>e. container_io e \<or> is_make_paths e) (fst (dump_and_commit w v infile x errors)) =
     [Call_make_paths infile (outdir v) (extension (file_type v))
        (fst (snd (make_paths (w_target w) infile (outdir v) (extension (file_type v))
           (w_tmpfile0 w) (w_outfile0 w))))]"
proof (cases "fst (snd (make_paths (w_target w) infile (outdir v) (extension (file_type v))
              (w_tmpfile0 w) (w_outfile0 w))) = 0")
  case True
  then obtain tmpfile outfile where
    mp: "snd (make_paths (w_target w) infile (outdir v) (extension (file_type v))
              (w_tmpfile0 w) (w_outfile0 w)) = (0, tmpfile, outfile)"
    by (metis prod.collapse)
  from dispatch_msg [of v "resolve_sgain w v x" tmpfile outfile] show ?thesis
    unfolding dump_and_commit_paths [OF mp]
    by (auto simp: Let_def mp container_io_def is_make_paths_def)
next
  case False
  show ?thesis
    unfolding dump_and_commit_overflow [OF False]
    by (auto simp: container_io_def is_make_paths_def filter_empty_conv too_large_event_def
        dest!: make_paths_event)
qed

lemma process_file_io:
  "filter (\<lambda>e. container_io e \<or> is_make_paths e) (fst (process_file w v infile files errors)) =
     Fopen infile (w_fopen w infile) #
     (if w_fopen w infile then
        X3f_new_from_file (w_x3f_new_from_file w infile) #
        (case w_x3f_new_from_file w infile of
           None \<Rightarrow> []
         | Some x \<Rightarrow>
             upto_first_failure (planned_loads w v x) @
             (if snd (load_sections w v infile x) then []
              else [Call_make_paths infile (outdir v) (extension (file_type v))
                      (fst (snd (make_paths (w_target w) infile (outdir v)
                         (extension (file_type v)) (w_tmpfile0 w) (w_outfile0 w))))]))
      else [])"
proof (cases "w_fopen w infile")
  case False
  then show ?thesis
    by (simp add: process_file_open_failure io_event_simps)
next
  case True
  show ?thesis
  proof (cases "w_x3f_new_from_file w infile")
    case None
    with True show ?thesis
      by (simp add: process_file_read_failure io_event_simps)
  next
    case (Some x)
    show ?thesis
    proof (cases "snd (load_sections w v infile x)")
      case failed: True
      show ?thesis
        unfolding process_file_load_failure [OF True Some failed]
        using True Some failed
        by (simp add: load_sections_io load_sections_loads io_event_simps)
    next
      case False
      show ?thesis
        unfolding process_file_loaded [OF True Some False]
        using True Some False
        by (simp add: load_sections_io load_sections_loads dump_and_commit_io io_event_simps)
    qed
  qed
qed

lemma option_events_no_io:
  "filter (\<lambda>e. container_io e \<or> is_make_paths e)
     (prologue vm @ switch_events vm @ output_events w vm @ [X3f_set_use_opencl n]) = []"
  by (auto simp: prologue_def switch_events_def output_events_def set_output_def Let_def
      container_io_def is_make_paths_def split: option.splits)

lemma planned_loads_all_ok:
  "planned_loads w_all_ok init_vars x3f_example =
     [X3f_load_data (Some 2) X3F_OK, X3f_load_data (Some 3) X3F_OK,
      X3f_load_data (Some 4) X3F_OK]"
  by (simp add: planned_loads_def w_all_ok_def x3f_example_def init_vars_def extract_meta_def)

lemma load_sections_camf_fails:
  "snd (load_sections w_camf_fails init_vars infile x3f_example)"
  unfolding load_sections_failed planned_loads_camf_fails
  by (simp add: load_failed_def)

lemma commit_event_simps:
  "commit_event (Call_make_paths p od ex er)" "commit_event (Unlink p)"
  "commit_event (X3f_dump c r)" "commit_event (Rename a b k)"
  "\<not> commit_event (X3f_printf l f as)" "\<not> commit_event (Fopen p b')"
  "\<not> commit_event (X3f_new_from_file h)" "\<not> commit_event (X3f_delete h)"
  "\<not> commit_event Fclose" "\<not> commit_event Fprintf_stderr_Desc"
  "\<not> commit_event (X3f_set_use_opencl n)"
  by (simp_all add: commit_event_def)

lemma load_sections_no_commit:
  "filter commit_event (fst (load_sections w v infile x)) = []"
  using load_sections_stage load_stage_not_commit by (auto simp: filter_empty_conv)

lemma make_paths_no_commit:
  "filter commit_event (fst (make_paths pf inpath odir ext t0 o0)) = []"
  by (auto simp: filter_empty_conv too_large_event_def commit_event_def dest!: make_paths_event)

lemma dump_and_commit_commit_events:
  "filter commit_event (fst (dump_and_commit w v infile x errors)) =
     (let r = snd (make_paths (w_target w) infile (outdir v) (extension (file_type v))
                (w_tmpfile0 w) (w_outfile0 w));
          err = fst r; tmpfile = fst (snd r); outfile = snd (snd r);
          call = snd (dispatch v (resolve_sgain w v x) tmpfile outfile);
          ret_dump = w_x3f_dump w x call
      in Call_make_paths infile (outdir v) (extension (file_type v)) err #
         (if err \<noteq> 0 then []
          else [Unlink tmpfile, X3f_dump call ret_dump] @
               (if ret_dump = X3F_OK then [Rename tmpfile outfile (w_rename w tmpfile outfile)]
                else [])))"
proof (cases "fst (snd (make_paths (w_target w) infile (outdir v) (extension (file_type v))
              (w_tmpfile0 w) (w_outfile0 w))) = 0")
  case True
  then obtain tmpfile outfile where
    mp: "snd (make_paths (w_target w) infile (outdir v) (extension (file_type v))
              (w_tmpfile0 w) (w_outfile0 w)) = (0, tmpfile, outfile)"
    by (metis prod.collapse)
  from dispatch_msg [of v "resolve_sgain w v x" tmpfile outfile] show ?thesis
    unfolding dump_and_commit_paths [OF mp]
    by (auto simp: Let_def mp commit_event_simps)
next
  case False
  then show ?thesis
    unfolding dump_and_commit_overflow [OF False]
    by (simp add: Let_def commit_event_simps make_paths_no_commit)
qed

lemma process_file_commit_filter:
  "filter commit_event (fst (process_file w v infile files errors)) =
     (if w_fopen w infile
      then (case w_x3f_new_from_file w infile of
              None \<Rightarrow> []
            | Some x \<Rightarrow>
                if snd (load_sections w v infile x) then []
                else filter commit_event (fst (dump_and_commit w v infile x errors)))
      else [])"
proof (cases "w_fopen w infile")
  case False
  then show ?thesis by (simp add: process_file_open_failure commit_event_simps)
next
  case True
  show ?thesis
  proof (cases "w_x3f_new_from_file w infile")
    case None
    with True show ?thesis by (simp add: process_file_read_failure commit_event_simps)
  next
    case (Some x)
    show ?thesis
    proof (cases "snd (load_sections w v infile x)")
      case failed: True
      show ?thesis
        unfolding process_file_load_failure [OF True Some failed]
        using True Some failed by (simp add: commit_event_simps load_sections_no_commit)
    next
      case False
      show ?thesis
        unfolding process_file_loaded [OF True Some False]
        using True Some False by (simp add: commit_event_simps load_sections_no_commit)
    qed
  qed
qed

lemma option_events_no_commit:
  "filter commit_event
     (prologue vm @ switch_events vm @ output_events w vm @ [X3f_set_use_opencl n]) = []"
  by (auto simp: prologue_def switch_events_def output_events_def set_output_def Let_def
      commit_event_def split: option.splits)

lemma main_commit_filter:
  assumes "option_vars vm = Some v" and "vm_input vm = Some infile"
  shows "filter commit_event (snd (main w vm)) =
     filter commit_event (fst (process_file w v infile 0 0))"
proof -
  define pre where "pre = prologue vm @ switch_events vm @ output_events w vm @
       [X3f_set_use_opencl (use_opencl v)]"
  have p: "filter commit_event pre = []"
    unfolding pre_def by (rule option_events_no_commit)
  have e: "filter commit_event
      (snd (epilogue (fst (snd (process_file w v infile 0 0)))
         (snd (snd (process_file w v infile 0 0))))) = []"
    by (simp add: epilogue_def commit_event_simps)
  have "snd (main w vm) =
      pre @ fst (process_file w v infile 0 0) @
      snd (epilogue (fst (snd (process_file w v infile 0 0)))
        (snd (snd (process_file w v infile 0 0))))"
    unfolding main_with_input [OF assms] pre_def by simp
  then show ?thesis by (simp add: p e)
qed

lemma main_loaded:
  assumes "option_vars vm = Some v" and "vm_input vm = Some infile"
    and "w_fopen w infile" and "w_x3f_new_from_file w infile = Some x"
    and "\<not> snd (load_sections w v infile x)"
  shows "\<exists>rest. snd (main w vm) =
     (prologue vm @ switch_events vm @ output_events w vm @
      [X3f_set_use_opencl (use_opencl v), Fopen infile True,
       X3f_printf INFO ''READ THE X3F FILE %s\<newline>'' [Arg_str (Some infile)],
       X3f_new_from_file (Some x)] @ fst (load_sections w v infile x)) @
     fst (dump_and_commit w v infile x 0) @ rest \<and>
     filter commit_event rest = []"
proof -
  have "filter commit_event
      ([X3f_delete (Some x), Fclose] @
       snd (epilogue (fst (snd (process_file w v infile 0 0)))
         (snd (snd (process_file w v infile 0 0))))) = []"
    by (simp add: epilogue_def commit_event_simps)
  moreover have "snd (main w vm) =
     (prologue vm @ switch_events vm @ output_events w vm @
      [X3f_set_use_opencl (use_opencl v), Fopen infile True,
       X3f_printf INFO ''READ THE X3F FILE %s\<newline>'' [Arg_str (Some infile)],
       X3f_new_from_file (Some x)] @ fst (load_sections w v infile x)) @
     fst (dump_and_commit w v infile x 0) @
     ([X3f_delete (Some x), Fclose] @
       snd (epilogue (fst (snd (process_file w v infile 0 0)))
         (snd (snd (process_file w v infile 0 0)))))"
    unfolding main_with_input [OF assms(1,2)]
    by (simp add: process_file_loaded [OF assms(3-5)])
  ultimately show ?thesis by blast
qed

lemma loaded_prefix_no_commit:
  "filter commit_event
     (prologue vm @ switch_events vm @ output_events w vm @
      [X3f_set_use_opencl n, Fopen infile True,
       X3f_printf INFO ''READ THE X3F FILE %s\<newline>'' [Arg_str (Some infile)],
       X3f_new_from_file (Some x)] @ fst (load_sections w v infile x)) = []"
  using option_events_no_commit [of vm w n]
  by (simp add: commit_event_simps load_sections_no_commit)

lemma dump_and_commit_prefix:
  "\<exists>rest. fst (dump_and_commit w v infile x errors) =
     (let mp = make_paths (w_target w) infile (outdir v) (extension (file_type v))
                (w_tmpfile0 w) (w_outfile0 w);
          err = fst (snd mp); tmpfile = fst (snd (snd mp)); outfile = snd (snd (snd mp));
          msg = fst (dispatch v (resolve_sgain w v x) tmpfile outfile);
          call = snd (dispatch v (resolve_sgain w v x) tmpfile outfile);
          ret_dump = w_x3f_dump w x call
      in Call_make_paths infile (outdir v) (extension (file_type v)) err # fst mp @
         (if err \<noteq> 0 then
            [X3f_printf ERR ''Too large outfile path for infile %s and outdir %s\<newline>''
               [Arg_str (Some infile), Arg_str (outdir v)]]
          else [Unlink tmpfile, msg, X3f_dump call ret_dump])) @ rest \<and>
     filter commit_event rest =
       (let mp = make_paths (w_target w) infile (outdir v) (extension (file_type v))
                (w_tmpfile0 w) (w_outfile0 w);
            tmpfile = fst (snd (snd mp)); outfile = snd (snd (snd mp))
        in if fst (snd mp) = 0 \<and>
              w_x3f_dump w x (snd (dispatch v (resolve_sgain w v x) tmpfile outfile)) = X3F_OK
           then [Rename tmpfile outfile (w_rename w tmpfile outfile)] else [])"
proof (cases "fst (snd (make_paths (w_target w) infile (outdir v) (extension (file_type v))
              (w_tmpfile0 w) (w_outfile0 w))) = 0")
  case True
  then obtain tmpfile outfile where
    mp: "snd (make_paths (w_target w) infile (outdir v) (extension (file_type v))
              (w_tmpfile0 w) (w_outfile0 w)) = (0, tmpfile, outfile)"
    by (metis prod.collapse)
  have q: "fst (make_paths (w_target w) infile (outdir v) (extension (file_type v))
              (w_tmpfile0 w) (w_outfile0 w)) = []"
    using make_paths_tmp(3) [OF mp] .
  show ?thesis
    unfolding dump_and_commit_paths [OF mp]
    by (simp add: Let_def mp q commit_event_simps)
next
  case False
  show ?thesis
    unfolding dump_and_commit_overflow [OF False]
    using False by (simp add: Let_def)
qed

lemma make_paths_err_iff:
  "(fst (snd (make_paths pf inpath odir ext t0 o0)) = 0) =
     (length (final_path pf inpath odir ext) \<le> MAXOUTPATH)"
  using make_paths_ok [of pf inpath odir ext t0 o0] make_paths_fits [of pf inpath odir ext t0 o0]
  by auto

lemma main_commit_final:
  assumes "option_vars vm = Some v" and "vm_input vm = Some infile"
  shows "filter commit_event (snd (main w vm)) =
     (if w_fopen w infile then
        (case w_x3f_new_from_file w infile of
           None \<Rightarrow> []
         | Some x \<Rightarrow>
             if snd (load_sections w v infile x) then []
             else
               (let final = final_path (w_target w) infile (outdir v) (extension (file_type v));
                    call = snd (dispatch v (resolve_sgain w v x) (final @ ''.tmp'') final);
                    ret_dump = w_x3f_dump w x call
                in Call_make_paths infile (outdir v) (extension (file_type v))
                     (fst (snd (make_paths (w_target w) infile (outdir v)
                        (extension (file_type v)) (w_tmpfile0 w) (w_outfile0 w)))) #
                   (if length final \<le> MAXOUTPATH then
                      [Unlink (final @ ''.tmp''), X3f_dump call ret_dump] @
                      (if ret_dump = X3F_OK
                       then [Rename (final @ ''.tmp'') final
                               (w_rename w (final @ ''.tmp'') final)]
                       else [])
                    else [])))
      else [])"
proof (cases "length (final_path (w_target w) infile (outdir v) (extension (file_type v)))
    \<le> MAXOUTPATH")
  case True
  have m: "make_paths (w_target w) infile (outdir v) (extension (file_type v))
      (w_tmpfile0 w) (w_outfile0 w) =
      ([], 0, final_path (w_target w) infile (outdir v) (extension (file_type v)) @ ''.tmp'',
       final_path (w_target w) infile (outdir v) (extension (file_type v)))"
    by (rule make_paths_fits [OF True])
  show ?thesis
    unfolding main_commit_filter [OF assms] process_file_commit_filter
      dump_and_commit_commit_events m
    using True by (simp add: Let_def split: option.split)
next
  case False
  then have e: "fst (snd (make_paths (w_target w) infile (outdir v) (extension (file_type v))
      (w_tmpfile0 w) (w_outfile0 w))) \<noteq> 0"
    by (simp add: make_paths_err_iff)
  show ?thesis
    unfolding main_commit_filter [OF assms] process_file_commit_filter
      dump_and_commit_commit_events
    using False e by (simp add: Let_def split: option.split)
qed

section \<open>The properties of the specification\<close>

text \<open>
  Claim C1 (commit protocol).  Once \<open>make_paths\<close> has produced \<open>tmpfile\<close> and
  \<open>outfile\<close>, the rest of the file's processing is: unlink \<open>tmpfile\<close>, the message
  of the output kind, the encoder call on \<open>tmpfile\<close>; then, when the encoder returned
  \<open>X3F_OK\<close>, the rename of \<open>tmpfile\<close> to \<open>outfile\<close>, and an error message and one
  counted error when the rename fails; when the encoder failed, only its error message
  and one counted error.  \<open>tmpfile\<close> is \<open>outfile\<close> followed by \<open>.tmp\<close>.  A rename to
  \<open>outfile\<close> that succeeded is among the events exactly when the encoder returned
  \<open>X3F_OK\<close> and the rename returned 0.  For a file that was opened, read and loaded,
  the events of its whole processing are those of the open, the read and the loads,
  then the ones above, then only the release of the handle and the close of the input
  file: nothing after the encoder call or the rename touches \<open>tmpfile\<close>.  Over a whole
  run, the calls that build the paths or touch the output files are exactly
  \<open>make_paths\<close>, the unlink of \<open>tmpfile\<close>, the encoder call and, when it returned
  \<open>X3F_OK\<close>, the rename, in this order, and none at all when the file could not be
  opened, read or loaded; some rename succeeded exactly when the exit status is 0.
\<close>

theorem commit_protocol:
  assumes "snd (make_paths (w_target w) infile (outdir v) (extension (file_type v))
             (w_tmpfile0 w) (w_outfile0 w)) = (0, tmpfile, outfile)"
  shows "(let msg = fst (dispatch v (resolve_sgain w v x) tmpfile outfile);
              call = snd (dispatch v (resolve_sgain w v x) tmpfile outfile);
              ret_dump = w_x3f_dump w x call;
              r = w_rename w tmpfile outfile
          in path_of_call call = tmpfile \<and> tmpfile = outfile @ ''.tmp'' \<and>
             dump_and_commit w v infile x errors =
               ([Call_make_paths infile (outdir v) (extension (file_type v)) 0,
                 Unlink tmpfile, msg, X3f_dump call ret_dump] @
                (if ret_dump = X3F_OK then
                   Rename tmpfile outfile r #
                   (if r \<noteq> 0 then
                      [X3f_printf ERR ''Could not rename %s to %s\<newline>''
                         [Arg_str (Some tmpfile), Arg_str (Some outfile)]]
                    else [])
                 else
                   [X3f_printf ERR ''Could not dump to %s: %s\<newline>''
                      [Arg_str (Some tmpfile), Arg_x3f_err ret_dump]]),
                if ret_dump = X3F_OK \<and> r = 0 then errors else errors + 1,
                False) \<and>
             (Rename tmpfile outfile 0 \<in> set (fst (dump_and_commit w v infile x errors))) =
               (ret_dump = X3F_OK \<and> r = 0) \<and>
             (w_fopen w infile \<and> w_x3f_new_from_file w infile = Some x \<and>
              \<not> snd (load_sections w v infile x) \<longrightarrow>
                process_file w v infile files errors =
                  ([Fopen infile True,
                    X3f_printf INFO ''READ THE X3F FILE %s\<newline>'' [Arg_str (Some infile)],
                    X3f_new_from_file (Some x)] @ fst (load_sections w v infile x) @
                   [Call_make_paths infile (outdir v) (extension (file_type v)) 0,
                    Unlink tmpfile, msg, X3f_dump call ret_dump] @
                   (if ret_dump = X3F_OK then
                      Rename tmpfile outfile r #
                      (if r \<noteq> 0 then
                         [X3f_printf ERR ''Could not rename %s to %s\<newline>''
                            [Arg_str (Some tmpfile), Arg_str (Some outfile)]]
                       else [])
                    else
                      [X3f_printf ERR ''Could not dump to %s: %s\<newline>''
                         [Arg_str (Some tmpfile), Arg_x3f_err ret_dump]]) @
                   [X3f_delete (Some x), Fclose],
                   files + 1,
                   if ret_dump = X3F_OK \<and> r = 0 then errors else errors + 1))) \<and>
         (option_vars vm = Some v \<and> vm_input vm = Some infile \<longrightarrow>
            (\<exists>t f. Rename t f 0 \<in> set (snd (main w vm))) = (fst (main w vm) = 0) \<and>
            filter commit_event (snd (main w vm)) =
              (if w_fopen w infile then
                 (case w_x3f_new_from_file w infile of
                    None \<Rightarrow> []
                  | Some x' \<Rightarrow>
                      if snd (load_sections w v infile x') then []
                      else
                        (let call' = snd (dispatch v (resolve_sgain w v x') tmpfile outfile);
                             ret' = w_x3f_dump w x' call'
                         in [Call_make_paths infile (outdir v) (extension (file_type v)) 0,
                             Unlink tmpfile, X3f_dump call' ret'] @
                            (if ret' = X3F_OK
                             then [Rename tmpfile outfile (w_rename w tmpfile outfile)]
                             else [])))
               else []))"
proof -
  define msg where "msg = fst (dispatch v (resolve_sgain w v x) tmpfile outfile)"
  define call where "call = snd (dispatch v (resolve_sgain w v x) tmpfile outfile)"
  define tail where "tail =
     (if w_x3f_dump w x call = X3F_OK then
        Rename tmpfile outfile (w_rename w tmpfile outfile) #
        (if w_rename w tmpfile outfile \<noteq> 0 then
           [X3f_printf ERR ''Could not rename %s to %s\<newline>''
              [Arg_str (Some tmpfile), Arg_str (Some outfile)]]
         else [])
      else
        [X3f_printf ERR ''Could not dump to %s: %s\<newline>''
           [Arg_str (Some tmpfile), Arg_x3f_err (w_x3f_dump w x call)]])"
  have p: "path_of_call call = tmpfile"
    by (simp add: call_def dispatch_path)
  have t: "tmpfile = outfile @ ''.tmp''"
    using make_paths_tmp(2) [OF assms] .
  have d: "dump_and_commit w v infile x errors =
       ([Call_make_paths infile (outdir v) (extension (file_type v)) 0,
         Unlink tmpfile, msg, X3f_dump call (w_x3f_dump w x call)] @ tail,
        if w_x3f_dump w x call = X3F_OK \<and> w_rename w tmpfile outfile = 0
        then errors else errors + 1,
        False)"
    unfolding dump_and_commit_paths [OF assms] msg_def call_def tail_def
    by (simp add: Let_def)
  have m: "\<exists>f a. msg = X3f_printf INFO f a"
    unfolding msg_def by (rule dispatch_msg)
  have r: "(Rename tmpfile outfile 0 \<in> set (fst (dump_and_commit w v infile x errors))) =
       (w_x3f_dump w x call = X3F_OK \<and> w_rename w tmpfile outfile = 0)"
    unfolding d tail_def using m by auto
  have f: "w_fopen w infile \<and> w_x3f_new_from_file w infile = Some x \<and>
       \<not> snd (load_sections w v infile x) \<longrightarrow>
         process_file w v infile files errors =
           ([Fopen infile True,
             X3f_printf INFO ''READ THE X3F FILE %s\<newline>'' [Arg_str (Some infile)],
             X3f_new_from_file (Some x)] @ fst (load_sections w v infile x) @
            [Call_make_paths infile (outdir v) (extension (file_type v)) 0,
             Unlink tmpfile, msg, X3f_dump call (w_x3f_dump w x call)] @ tail @
            [X3f_delete (Some x), Fclose],
            files + 1,
            if w_x3f_dump w x call = X3F_OK \<and> w_rename w tmpfile outfile = 0
            then errors else errors + 1)"
  proof (intro impI, elim conjE)
    assume a: "w_fopen w infile" "w_x3f_new_from_file w infile = Some x"
      "\<not> snd (load_sections w v infile x)"
    show "process_file w v infile files errors =
           ([Fopen infile True,
             X3f_printf INFO ''READ THE X3F FILE %s\<newline>'' [Arg_str (Some infile)],
             X3f_new_from_file (Some x)] @ fst (load_sections w v infile x) @
            [Call_make_paths infile (outdir v) (extension (file_type v)) 0,
             Unlink tmpfile, msg, X3f_dump call (w_x3f_dump w x call)] @ tail @
            [X3f_delete (Some x), Fclose],
            files + 1,
            if w_x3f_dump w x call = X3F_OK \<and> w_rename w tmpfile outfile = 0
            then errors else errors + 1)"
      unfolding process_file_loaded [OF a] d by simp
  qed
  have err: "fst (snd (make_paths (w_target w) infile (outdir v) (extension (file_type v))
             (w_tmpfile0 w) (w_outfile0 w))) = 0"
    and tmp: "fst (snd (snd (make_paths (w_target w) infile (outdir v)
             (extension (file_type v)) (w_tmpfile0 w) (w_outfile0 w)))) = tmpfile"
    and out: "snd (snd (snd (make_paths (w_target w) infile (outdir v)
             (extension (file_type v)) (w_tmpfile0 w) (w_outfile0 w)))) = outfile"
    by (simp_all add: assms)
  have g: "option_vars vm = Some v \<and> vm_input vm = Some infile \<longrightarrow>
        (\<exists>t f. Rename t f 0 \<in> set (snd (main w vm))) = (fst (main w vm) = 0) \<and>
        filter commit_event (snd (main w vm)) =
          (if w_fopen w infile then
             (case w_x3f_new_from_file w infile of
                None \<Rightarrow> []
              | Some x' \<Rightarrow>
                  if snd (load_sections w v infile x') then []
                  else
                    (let call' = snd (dispatch v (resolve_sgain w v x') tmpfile outfile);
                         ret' = w_x3f_dump w x' call'
                     in [Call_make_paths infile (outdir v) (extension (file_type v)) 0,
                         Unlink tmpfile, X3f_dump call' ret'] @
                        (if ret' = X3F_OK
                         then [Rename tmpfile outfile (w_rename w tmpfile outfile)]
                         else [])))
           else [])"
  proof (intro impI conjI, goal_cases)
    case 1
    then show ?case using main_renamed by blast
  next
    case 2
    then have o: "option_vars vm = Some v" and i: "vm_input vm = Some infile" by simp_all
    show ?case
      unfolding main_commit_filter [OF o i] process_file_commit_filter
        dump_and_commit_commit_events
      by (simp add: Let_def err tmp out split: option.split)
  qed
  from p t d r f g show ?thesis
    unfolding Let_def msg_def [symmetric] call_def [symmetric] tail_def [symmetric]
    by (intro conjI)
qed

theorem commit_protocol_witness:
  "snd (make_paths (w_target w_rename_fails) ''photo.x3f'' (outdir init_vars)
     (extension (file_type init_vars)) (w_tmpfile0 w_rename_fails) (w_outfile0 w_rename_fails)) =
     (0, ''photo.x3f.dng.tmp'', ''photo.x3f.dng'') \<and>
   dump_and_commit w_rename_fails init_vars ''photo.x3f'' x3f_example 0 =
     ([Call_make_paths ''photo.x3f'' None ''.dng'' 0,
       Unlink ''photo.x3f.dng.tmp'',
       X3f_printf INFO ''Dump RAW as DNG to %s\<newline>'' [Arg_str (Some ''photo.x3f.dng'')],
       X3f_dump (Dump_raw_data_as_dng ''photo.x3f.dng.tmp'' 1 1 1 None 0) X3F_OK,
       Rename ''photo.x3f.dng.tmp'' ''photo.x3f.dng'' (- 1),
       X3f_printf ERR ''Could not rename %s to %s\<newline>''
         [Arg_str (Some ''photo.x3f.dng.tmp''), Arg_str (Some ''photo.x3f.dng'')]],
      1, False) \<and>
   w_fopen w_rename_fails ''photo.x3f'' \<and>
   w_x3f_new_from_file w_rename_fails ''photo.x3f'' = Some x3f_example \<and>
   \<not> snd (load_sections w_rename_fails init_vars ''photo.x3f'' x3f_example) \<and>
   process_file w_rename_fails init_vars ''photo.x3f'' 0 0 =
     ([Fopen ''photo.x3f'' True,
       X3f_printf INFO ''READ THE X3F FILE %s\<newline>'' [Arg_str (Some ''photo.x3f'')],
       X3f_new_from_file (Some x3f_example),
       X3f_get_prop (Some 3), X3f_get_camf (Some 2),
       X3f_load_data (Some 2) X3F_OK, X3f_load_data (Some 3) X3F_OK,
       X3f_get_raw (Some 4), X3f_load_data (Some 4) X3F_OK,
       Call_make_paths ''photo.x3f'' None ''.dng'' 0,
       Unlink ''photo.x3f.dng.tmp'',
       X3f_printf INFO ''Dump RAW as DNG to %s\<newline>'' [Arg_str (Some ''photo.x3f.dng'')],
       X3f_dump (Dump_raw_data_as_dng ''photo.x3f.dng.tmp'' 1 1 1 None 0) X3F_OK,
       Rename ''photo.x3f.dng.tmp'' ''photo.x3f.dng'' (- 1),
       X3f_printf ERR ''Could not rename %s to %s\<newline>''
         [Arg_str (Some ''photo.x3f.dng.tmp''), Arg_str (Some ''photo.x3f.dng'')],
       X3f_delete (Some x3f_example), Fclose], 1, 1) \<and>
   option_vars vm_photo = Some init_vars \<and> vm_input vm_photo = Some ''photo.x3f'' \<and>
   Rename ''photo.x3f.dng.tmp'' ''photo.x3f.dng'' 0 \<in> set (snd (main w_all_ok vm_photo)) \<and>
   fst (main w_all_ok vm_photo) = 0 \<and>
   filter commit_event (snd (main w_dump_fails vm_photo)) =
     [Call_make_paths ''photo.x3f'' None ''.dng'' 0,
      Unlink ''photo.x3f.dng.tmp'',
      X3f_dump (Dump_raw_data_as_dng ''photo.x3f.dng.tmp'' 1 1 1 None 0) (X3F_FAILURE 1)]"
proof -
  have pa: "snd (make_paths (w_target w_rename_fails) ''photo.x3f'' (outdir init_vars)
     (extension (file_type init_vars)) (w_tmpfile0 w_rename_fails) (w_outfile0 w_rename_fails)) =
     (0, ''photo.x3f.dng.tmp'', ''photo.x3f.dng'')"
    using make_paths_photo
    by (simp add: w_rename_fails_def w_all_ok_def init_vars_def extension_def)
  have pb: "snd (make_paths (w_target w_all_ok) ''photo.x3f'' (outdir init_vars)
     (extension (file_type init_vars)) (w_tmpfile0 w_all_ok) (w_outfile0 w_all_ok)) =
     (0, ''photo.x3f.dng.tmp'', ''photo.x3f.dng'')"
    using make_paths_photo
    by (simp add: w_all_ok_def init_vars_def extension_def)
  have pc: "snd (make_paths (w_target w_dump_fails) ''photo.x3f'' (outdir init_vars)
     (extension (file_type init_vars)) (w_tmpfile0 w_dump_fails) (w_outfile0 w_dump_fails)) =
     (0, ''photo.x3f.dng.tmp'', ''photo.x3f.dng'')"
    using make_paths_photo
    by (simp add: w_dump_fails_def w_all_ok_def init_vars_def extension_def)
  have i: "vm_input vm_photo = Some ''photo.x3f''"
    by (simp add: vm_photo_def vm_defaults_def)
  have o: "w_fopen w_rename_fails ''photo.x3f''"
    and n: "w_x3f_new_from_file w_rename_fails ''photo.x3f'' = Some x3f_example"
    and o': "w_fopen w_dump_fails ''photo.x3f''"
    and n': "w_x3f_new_from_file w_dump_fails ''photo.x3f'' = Some x3f_example"
    by (simp_all add: w_rename_fails_def w_dump_fails_def w_all_ok_def)
  have l: "load_sections w_rename_fails init_vars ''photo.x3f'' x3f_example =
     ([X3f_get_prop (Some 3), X3f_get_camf (Some 2),
       X3f_load_data (Some 2) X3F_OK, X3f_load_data (Some 3) X3F_OK,
       X3f_get_raw (Some 4), X3f_load_data (Some 4) X3F_OK], False)"
    and l': "load_sections w_dump_fails init_vars ''photo.x3f'' x3f_example =
     ([X3f_get_prop (Some 3), X3f_get_camf (Some 2),
       X3f_load_data (Some 2) X3F_OK, X3f_load_data (Some 3) X3F_OK,
       X3f_get_raw (Some 4), X3f_load_data (Some 4) X3F_OK], False)"
    by (simp_all add: load_sections_def load_jpg_def load_meta_def load_raw_def
        load_unconverted_raw_def then_do_def extract_meta_def init_vars_def w_all_ok_def
        w_rename_fails_def w_dump_fails_def x3f_example_def Let_def)
  have nl: "\<not> snd (load_sections w_rename_fails init_vars ''photo.x3f'' x3f_example)"
    by (simp add: l)
  note c = commit_protocol [OF pa, where x = x3f_example and errors = 0 and files = 0
      and vm = vm_photo, unfolded Let_def]
  have d: "dump_and_commit w_rename_fails init_vars ''photo.x3f'' x3f_example 0 =
     ([Call_make_paths ''photo.x3f'' None ''.dng'' 0,
       Unlink ''photo.x3f.dng.tmp'',
       X3f_printf INFO ''Dump RAW as DNG to %s\<newline>'' [Arg_str (Some ''photo.x3f.dng'')],
       X3f_dump (Dump_raw_data_as_dng ''photo.x3f.dng.tmp'' 1 1 1 None 0) X3F_OK,
       Rename ''photo.x3f.dng.tmp'' ''photo.x3f.dng'' (- 1),
       X3f_printf ERR ''Could not rename %s to %s\<newline>''
         [Arg_str (Some ''photo.x3f.dng.tmp''), Arg_str (Some ''photo.x3f.dng'')]],
      1, False)"
    using conjunct1 [OF conjunct2 [OF conjunct2 [OF conjunct1 [OF c]]]]
    by (simp add: dispatch_def resolve_sgain_def w_rename_fails_def w_all_ok_def
        x3f_example_def init_vars_def extension_def)
  have "process_file w_rename_fails init_vars ''photo.x3f'' 0 0 =
     ([Fopen ''photo.x3f'' True,
       X3f_printf INFO ''READ THE X3F FILE %s\<newline>'' [Arg_str (Some ''photo.x3f'')],
       X3f_new_from_file (Some x3f_example)] @
      fst (load_sections w_rename_fails init_vars ''photo.x3f'' x3f_example) @
      [Call_make_paths ''photo.x3f'' None ''.dng'' 0,
       Unlink ''photo.x3f.dng.tmp'',
       X3f_printf INFO ''Dump RAW as DNG to %s\<newline>'' [Arg_str (Some ''photo.x3f.dng'')],
       X3f_dump (Dump_raw_data_as_dng ''photo.x3f.dng.tmp'' 1 1 1 None 0) X3F_OK,
       Rename ''photo.x3f.dng.tmp'' ''photo.x3f.dng'' (- 1),
       X3f_printf ERR ''Could not rename %s to %s\<newline>''
         [Arg_str (Some ''photo.x3f.dng.tmp''), Arg_str (Some ''photo.x3f.dng'')],
       X3f_delete (Some x3f_example), Fclose], 1, 1)"
    using mp [OF conjunct2 [OF conjunct2 [OF conjunct2 [OF conjunct2 [OF conjunct1 [OF c]]]]],
        OF conjI [OF o conjI [OF n nl]]]
    by (simp add: dispatch_def resolve_sgain_def w_rename_fails_def w_all_ok_def
        x3f_example_def init_vars_def extension_def)
  then have f: "process_file w_rename_fails init_vars ''photo.x3f'' 0 0 =
     ([Fopen ''photo.x3f'' True,
       X3f_printf INFO ''READ THE X3F FILE %s\<newline>'' [Arg_str (Some ''photo.x3f'')],
       X3f_new_from_file (Some x3f_example),
       X3f_get_prop (Some 3), X3f_get_camf (Some 2),
       X3f_load_data (Some 2) X3F_OK, X3f_load_data (Some 3) X3F_OK,
       X3f_get_raw (Some 4), X3f_load_data (Some 4) X3F_OK,
       Call_make_paths ''photo.x3f'' None ''.dng'' 0,
       Unlink ''photo.x3f.dng.tmp'',
       X3f_printf INFO ''Dump RAW as DNG to %s\<newline>'' [Arg_str (Some ''photo.x3f.dng'')],
       X3f_dump (Dump_raw_data_as_dng ''photo.x3f.dng.tmp'' 1 1 1 None 0) X3F_OK,
       Rename ''photo.x3f.dng.tmp'' ''photo.x3f.dng'' (- 1),
       X3f_printf ERR ''Could not rename %s to %s\<newline>''
         [Arg_str (Some ''photo.x3f.dng.tmp''), Arg_str (Some ''photo.x3f.dng'')],
       X3f_delete (Some x3f_example), Fclose], 1, 1)"
    by (simp add: l)
  have r: "Rename ''photo.x3f.dng.tmp'' ''photo.x3f.dng'' 0 \<in> set (snd (main w_all_ok vm_photo))"
    by (simp add: main_photo_ok)
  then have "\<exists>t f. Rename t f 0 \<in> set (snd (main w_all_ok vm_photo))" by blast
  with conjunct1 [OF mp [OF conjunct2 [OF commit_protocol [OF pb, of x3f_example 0 0 vm_photo]]
        conjI [OF option_vars_photo i]]]
  have s: "fst (main w_all_ok vm_photo) = 0" by blast
  have q: "\<And>x c. w_x3f_dump w_dump_fails x c = X3F_FAILURE 1"
    "w_X3F_VERSION_4_0 w_dump_fails = 0x40000"
    by (simp_all add: w_dump_fails_def w_all_ok_def)
  have e: "filter commit_event (snd (main w_dump_fails vm_photo)) =
     [Call_make_paths ''photo.x3f'' None ''.dng'' 0,
      Unlink ''photo.x3f.dng.tmp'',
      X3f_dump (Dump_raw_data_as_dng ''photo.x3f.dng.tmp'' 1 1 1 None 0) (X3F_FAILURE 1)]"
    using conjunct2 [OF mp [OF conjunct2 [OF commit_protocol [OF pc, of x3f_example 0 0 vm_photo]]
        conjI [OF option_vars_photo i]]]
    unfolding o' n' l' option.case snd_conv if_True if_False
    by (simp add: o' q Let_def dispatch_def resolve_sgain_def x3f_example_def
        init_vars_def extension_def)
  from pa d o n nl f option_vars_photo i r s e show ?thesis by (intro conjI)
qed

text \<open>
  Claim C2 (the derived flag \<open>extract_meta\<close>).  For every command line whose format
  and colour tokens are accepted, \<open>extract_meta\<close> is 1 exactly when the output kind is
  \<open>META\<close> or \<open>DNG\<close>, or decoded raw extraction is requested and crop is enabled or the
  colour encoding is neither \<open>UNPROCESSED\<close> nor \<open>QTOP\<close>; it is 0 otherwise.  In terms
  of what the user gave, it is a function of the format token, the \<open>noCrop\<close> switch and
  the colour token alone: no option assigns it.
\<close>

theorem extract_meta_derived:
  assumes "option_vars vm = Some v"
  shows "(extract_meta v = 1) =
           (file_type v = META \<or> file_type v = DNG \<or>
            (extract_raw v \<noteq> 0 \<and>
             (crop v \<noteq> 0 \<or> color_encoding v \<notin> {UNPROCESSED, QTOP}))) \<and>
         (extract_meta v = 0 \<or> extract_meta v = 1) \<and>
         (extract_meta v = 1) =
           (let f = (case vm_format vm of Some f \<Rightarrow> f | None \<Rightarrow> ''dng'')
            in f = ''meta'' \<or> f = ''dng'' \<or>
               (f \<in> {''tiff'', ''ppm-ascii'', ''ppm'', ''histogram'', ''loghist''} \<and>
                (\<not> vm_noCrop vm \<or>
                 (vm_color vm \<noteq> Some ''unprocessed'' \<and> vm_color vm \<noteq> Some ''qtop''))))"
proof -
  define f where "f = (case vm_format vm of Some f \<Rightarrow> f | None \<Rightarrow> ''dng'')"
  have p: "spec_plan_table f =
      Some (file_type v, extract_jpg v \<noteq> 0, extract_raw v \<noteq> 0, extract_unconverted_raw v \<noteq> 0)"
    unfolding f_def by (rule option_vars_plan [OF assms])
  have cr: "(crop v \<noteq> 0) = (\<not> vm_noCrop vm)"
    by (simp add: option_vars_switches(1) [OF assms])
  have col: "(color_encoding v \<noteq> UNPROCESSED \<and> color_encoding v \<noteq> QTOP) =
      (vm_color vm \<noteq> Some ''unprocessed'' \<and> vm_color vm \<noteq> Some ''qtop'')"
  proof (cases "vm_color vm")
    case None
    then show ?thesis by (simp add: option_vars_switches(3) [OF assms])
  next
    case (Some c)
    from option_vars_color_known [OF assms Some]
    show ?thesis using Some by (simp add: color_token_unprocessed color_token_qtop)
  qed
  have a: "(extract_meta v = 1) =
           (file_type v = META \<or> file_type v = DNG \<or>
            (extract_raw v \<noteq> 0 \<and>
             (crop v \<noteq> 0 \<or> (color_encoding v \<noteq> UNPROCESSED \<and> color_encoding v \<noteq> QTOP))))"
    by (simp add: extract_meta_def)
  have b: "extract_meta v = 0 \<or> extract_meta v = 1"
    by (simp add: extract_meta_def)
  have c: "(extract_meta v = 1) =
       (f = ''meta'' \<or> f = ''dng'' \<or>
               (f \<in> {''tiff'', ''ppm-ascii'', ''ppm'', ''histogram'', ''loghist''} \<and>
                (\<not> vm_noCrop vm \<or>
                 (vm_color vm \<noteq> Some ''unprocessed'' \<and> vm_color vm \<noteq> Some ''qtop''))))"
    unfolding a cr col plan_cases [OF p] by auto
  show ?thesis using a b c by (simp add: f_def Let_def)
qed

theorem extract_meta_derived_witness:
  "(\<exists>v. option_vars vm_tiff_qtop_nocrop = Some v \<and> extract_meta v \<noteq> 1) \<and>
   vm_format vm_tiff_qtop_nocrop = Some ''tiff'' \<and> vm_noCrop vm_tiff_qtop_nocrop \<and>
   vm_color vm_tiff_qtop_nocrop = Some ''qtop''"
proof -
  have 3: "vm_format vm_tiff_qtop_nocrop = Some ''tiff''" "vm_color vm_tiff_qtop_nocrop = Some ''qtop''"
    "vm_noCrop vm_tiff_qtop_nocrop"
    by (simp_all add: vm_tiff_qtop_nocrop_def vm_defaults_def)
  show ?thesis
    using extract_meta_derived [OF option_vars_tiff_qtop_nocrop] 3
    by (simp add: option_vars_tiff_qtop_nocrop)
qed


text \<open>
  Claim C3 (the format table).  When the option handling accepts the command line, the
  output kind and the three section flags are those of the fixed table at the format
  token, at \<open>dng\<close> when no format is given, and a given colour token is one of the six
  known ones.  When it rejects the command line, the format token or the colour token
  is unknown, \<open>main\<close> returns 1 and no event of the run touches a file.
\<close>

theorem plan_table:
  "(case option_vars vm of
      Some v \<Rightarrow>
        spec_plan_table (case vm_format vm of Some f \<Rightarrow> f | None \<Rightarrow> ''dng'') =
          Some (file_type v, extract_jpg v \<noteq> 0, extract_raw v \<noteq> 0,
                extract_unconverted_raw v \<noteq> 0) \<and>
        (\<forall>c. vm_color vm = Some c \<longrightarrow> spec_color_table c = Some (color_encoding v))
    | None \<Rightarrow>
        ((\<exists>f. vm_format vm = Some f \<and> spec_plan_table f = None) \<or>
         (\<exists>c. vm_color vm = Some c \<and> spec_color_table c = None)) \<and>
        fst (main w vm) = 1 \<and> (\<forall>e \<in> set (snd (main w vm)). \<not> file_event e))"
proof (cases "option_vars vm")
  case None
  then show ?thesis
    using bad_option_no_file_event [OF None, of w] option_vars_None [of vm] by simp
next
  case (Some v)
  then show ?thesis
    using option_vars_plan [OF Some] option_vars_color_known [OF Some] by simp
qed

theorem plan_table_witness:
  "option_vars vm_bad_format = None \<and> fst (main w_all_ok vm_bad_format) = 1 \<and>
   filter file_event (snd (main w_all_ok vm_bad_format)) = [] \<and>
   (\<exists>v. option_vars vm_tiff_qtop_nocrop = Some v \<and>
        spec_plan_table ''tiff'' =
          Some (file_type v, extract_jpg v \<noteq> 0, extract_raw v \<noteq> 0,
                extract_unconverted_raw v \<noteq> 0))"
proof -
  have 1: "option_vars vm_bad_format = None"
    by (simp add: option_vars_def vm_bad_format_def vm_defaults_def set_format_def)
  have 3: "vm_format vm_tiff_qtop_nocrop = Some ''tiff''"
    by (simp add: vm_tiff_qtop_nocrop_def vm_defaults_def)
  from plan_table [of vm_bad_format w_all_ok] 1
  have a: "fst (main w_all_ok vm_bad_format) = 1 \<and>
      filter file_event (snd (main w_all_ok vm_bad_format)) = []"
    by (simp add: filter_empty_conv)
  from plan_table [of vm_tiff_qtop_nocrop w_all_ok]
  show ?thesis using 1 a 3
    by (simp add: option_vars_tiff_qtop_nocrop)
qed




text \<open>
  Claim C5 (the default of the spatial gain).  When neither \<open>noSGain\<close> nor \<open>sgain\<close> is
  given, the option handling leaves \<open>apply_sgain\<close> at -1, so nothing is substituted
  before the file is loaded; the value computed just before the \<open>switch\<close> is 1 when the
  header version is below \<open>X3F_VERSION_4_0\<close> and 0 otherwise, and it is the spatial-gain
  argument of every encoder call of the run that takes one.
\<close>

theorem spatial_gain_default:
  assumes "option_vars vm = Some v" and "vm_input vm = Some infile"
    and "\<not> vm_noSGain vm" and "\<not> vm_sgain vm"
  shows "apply_sgain v = - 1 \<and>
     (\<forall>x. resolve_sgain w v x = (if header_version x < w_X3F_VERSION_4_0 w then 1 else 0)) \<and>
     (\<forall>call ret. X3f_dump call ret \<in> set (snd (main w vm)) \<longrightarrow>
        (\<exists>x. w_x3f_new_from_file w infile = Some x \<and>
             sgain_of_call call =
               (if file_type v \<in> {META, JPEG, RAW} then None
                else Some (if header_version x < w_X3F_VERSION_4_0 w then 1 else 0))))"
proof -
  have a: "apply_sgain v = - 1"
    using option_vars_switches(2) [OF assms(1)] assms(3,4) by simp
  then have r: "resolve_sgain w v x = (if header_version x < w_X3F_VERSION_4_0 w then 1 else 0)" for x
    by (simp add: resolve_sgain_def)
  have d: "\<exists>x. w_x3f_new_from_file w infile = Some x \<and>
             sgain_of_call call =
               (if file_type v \<in> {META, JPEG, RAW} then None
                else Some (if header_version x < w_X3F_VERSION_4_0 w then 1 else 0))"
    if "X3f_dump call ret \<in> set (snd (main w vm))" for call ret
  proof -
    have ce: "commit_event (X3f_dump call ret)" by (simp add: commit_event_def)
    from process_file_commit_events [OF main_commit_events [OF assms(1,2) that ce] ce]
    obtain x where x: "w_x3f_new_from_file w infile = Some x"
      and "X3f_dump call ret \<in> set (fst (dump_and_commit w v infile x 0))"
      by blast
    from dump_and_commit_dump_event [OF this(2)]
    obtain tmpfile outfile where "call = snd (dispatch v (resolve_sgain w v x) tmpfile outfile)"
      by blast
    then have "sgain_of_call call =
        (if file_type v \<in> {META, JPEG, RAW} then None else Some (resolve_sgain w v x))"
      by (simp only: dispatch_sgain)
    with x r show ?thesis by auto
  qed
  show ?thesis
    by (intro conjI allI impI) (rule a, rule r, erule d)
qed

theorem spatial_gain_default_witness:
  "option_vars vm_photo = Some init_vars \<and> vm_input vm_photo = Some ''photo.x3f'' \<and>
   \<not> vm_noSGain vm_photo \<and> \<not> vm_sgain vm_photo \<and>
   header_version x3f_example < w_X3F_VERSION_4_0 w_all_ok \<and>
   resolve_sgain w_all_ok init_vars x3f_example = 1 \<and>
   X3f_dump (Dump_raw_data_as_dng ''photo.x3f.dng.tmp'' 1 1 1 None 0) X3F_OK
     \<in> set (snd (main w_all_ok vm_photo)) \<and>
   header_version (x3f_example\<lparr>header_version := 0x40000\<rparr>) = w_X3F_VERSION_4_0 w_all_ok \<and>
   resolve_sgain w_all_ok init_vars (x3f_example\<lparr>header_version := 0x40000\<rparr>) = 0"
proof -
  have i: "vm_input vm_photo = Some ''photo.x3f''"
    and n: "\<not> vm_noSGain vm_photo" "\<not> vm_sgain vm_photo"
    by (simp_all add: vm_photo_def vm_defaults_def)
  have h: "header_version x3f_example < w_X3F_VERSION_4_0 w_all_ok"
    "header_version (x3f_example\<lparr>header_version := 0x40000\<rparr>) = w_X3F_VERSION_4_0 w_all_ok"
    by (simp_all add: x3f_example_def w_all_ok_def)
  have d: "X3f_dump (Dump_raw_data_as_dng ''photo.x3f.dng.tmp'' 1 1 1 None 0) X3F_OK
     \<in> set (snd (main w_all_ok vm_photo))"
    by (simp add: main_photo_ok)
  note r = conjunct1 [OF conjunct2 [OF spatial_gain_default
    [OF option_vars_photo i n, of w_all_ok]]]
  have "resolve_sgain w_all_ok init_vars x3f_example = 1"
    "resolve_sgain w_all_ok init_vars (x3f_example\<lparr>header_version := 0x40000\<rparr>) = 0"
    using h by (simp_all add: r)
  with option_vars_photo i n h d show ?thesis by simp
qed


text \<open>
  Claim C6 (exit status; the run without input files).  With no input file the run ends
  in the early \<open>return 1\<close> of the option handling: its last message is
  \<open>Could not find outdir\<close> with the NULL \<open>outdir\<close>, the statements after the label
  \<open>clean_up\<close> that print \<open>No files given\<close> and the \<open>Files processed\<close> report are
  never reached, and no error count is reported.  The exit status is 1.
\<close>

theorem no_input_run:
  "main w vm_defaults =
     (1, [X3f_printf INFO ''X3F TOOLS VERSION = %s\<newline>\<newline>'' [Arg_version],
          Setvbuf Stdout, Setvbuf Stderr, Cerr_desc, Cerr_endl,
          X3f_printf ERR ''Could not find outdir %s\<newline>'' [Arg_str None]])"
  by (simp add: main_def vm_defaults_def prologue_def switch_events_def set_output_def
      set_switches_def init_vars_def Let_def)


text \<open>
  Claim C7 (order of the section loads).  The loads issued for a file are the planned
  ones in their fixed order, cut after the first failed one: nothing is loaded again
  and nothing is loaded after a failure.  The load stage fails exactly when a planned
  load fails or a raw section is needed and the container has none; a missing property
  block is not planned and is no failure, a failed load of the calibration block is.
  An accepted command line never asks for both the decoded and the undecoded raw
  section.  When the load stage fails, the file's processing goes straight to the
  release of the handle and counts one error.
\<close>

theorem load_order:
  "filter is_load (fst (load_sections w v infile x)) =
     upto_first_failure (planned_loads w v x) \<and>
   snd (load_sections w v infile x) =
     ((\<exists>e \<in> set (planned_loads w v x). load_failed e) \<or>
      ((extract_raw v \<noteq> 0 \<or> extract_unconverted_raw v \<noteq> 0) \<and> get_raw x = None)) \<and>
   (option_vars vm = Some v \<longrightarrow>
      \<not> (extract_raw v \<noteq> 0 \<and> extract_unconverted_raw v \<noteq> 0)) \<and>
   (option_vars vm = Some v \<and> vm_input vm = Some infile \<longrightarrow>
      filter is_load (snd (main w vm)) =
        (if w_fopen w infile
         then (case w_x3f_new_from_file w infile of
                 None \<Rightarrow> []
               | Some x \<Rightarrow> upto_first_failure (planned_loads w v x))
         else [])) \<and>
   (w_fopen w infile \<and> w_x3f_new_from_file w infile = Some x \<and>
    snd (load_sections w v infile x) \<longrightarrow>
      process_file w v infile files errors =
        ([Fopen infile True,
          X3f_printf INFO ''READ THE X3F FILE %s\<newline>'' [Arg_str (Some infile)],
          X3f_new_from_file (Some x)] @ fst (load_sections w v infile x) @
         [X3f_delete (Some x), Fclose], files + 1, errors + 1))"
  by (intro conjI impI)
    (rule load_sections_loads, rule load_sections_failed, erule plan_not_both_raw,
     simp add: main_loads process_file_loads, simp add: process_file_load_failure)

theorem load_order_witness:
  "option_vars vm_photo = Some init_vars \<and> vm_input vm_photo = Some ''photo.x3f'' \<and>
   w_fopen w_camf_fails ''photo.x3f'' \<and>
   w_x3f_new_from_file w_camf_fails ''photo.x3f'' = Some x3f_example \<and>
   snd (load_sections w_camf_fails init_vars ''photo.x3f'' x3f_example) \<and>
   filter is_load (snd (main w_camf_fails vm_photo)) = [X3f_load_data (Some 2) (X3F_FAILURE 1)] \<and>
   process_file w_camf_fails init_vars ''photo.x3f'' 0 0 =
     ([Fopen ''photo.x3f'' True,
       X3f_printf INFO ''READ THE X3F FILE %s\<newline>'' [Arg_str (Some ''photo.x3f'')],
       X3f_new_from_file (Some x3f_example),
       X3f_get_prop (Some 3), X3f_get_camf (Some 2), X3f_load_data (Some 2) (X3F_FAILURE 1),
       X3f_printf ERR ''Could not load CAMF from %s (%s)\<newline>''
         [Arg_str (Some ''photo.x3f''), Arg_x3f_err (X3F_FAILURE 1)],
       X3f_delete (Some x3f_example), Fclose], 1, 1)"
proof -
  note t = load_order [of w_camf_fails init_vars "''photo.x3f''" x3f_example vm_photo 0 0]
  have i: "vm_input vm_photo = Some ''photo.x3f''"
    by (simp add: vm_photo_def vm_defaults_def)
  have o: "w_fopen w_camf_fails ''photo.x3f''"
    and n: "w_x3f_new_from_file w_camf_fails ''photo.x3f'' = Some x3f_example"
    by (simp_all add: w_camf_fails_def w_all_ok_def)
  have f: "snd (load_sections w_camf_fails init_vars ''photo.x3f'' x3f_example)"
    unfolding conjunct1 [OF conjunct2 [OF t]] planned_loads_camf_fails
    by (simp add: load_failed_def)
  have l: "fst (load_sections w_camf_fails init_vars ''photo.x3f'' x3f_example) =
      [X3f_get_prop (Some 3), X3f_get_camf (Some 2), X3f_load_data (Some 2) (X3F_FAILURE 1),
       X3f_printf ERR ''Could not load CAMF from %s (%s)\<newline>''
         [Arg_str (Some ''photo.x3f''), Arg_x3f_err (X3F_FAILURE 1)]]"
    by (simp add: load_sections_def load_jpg_def load_meta_def then_do_def extract_meta_def
        init_vars_def w_camf_fails_def w_all_ok_def x3f_example_def Let_def)
  have m: "filter is_load (snd (main w_camf_fails vm_photo)) =
      [X3f_load_data (Some 2) (X3F_FAILURE 1)]"
    using conjunct1 [OF conjunct2 [OF conjunct2 [OF conjunct2 [OF t]]]] option_vars_photo i o n
    by (simp add: planned_loads_camf_fails load_failed_def)
  have p: "process_file w_camf_fails init_vars ''photo.x3f'' 0 0 =
     ([Fopen ''photo.x3f'' True,
       X3f_printf INFO ''READ THE X3F FILE %s\<newline>'' [Arg_str (Some ''photo.x3f'')],
       X3f_new_from_file (Some x3f_example)] @
       fst (load_sections w_camf_fails init_vars ''photo.x3f'' x3f_example) @
       [X3f_delete (Some x3f_example), Fclose], 0 + 1, 0 + 1)"
    using conjunct2 [OF conjunct2 [OF conjunct2 [OF conjunct2 [OF t]]]] o n f by blast
  show ?thesis
    using option_vars_photo i o n f m p unfolding l by simp
qed


text \<open>
  Claim C8 (when the paths are built), as amended.  The events of a run up to the
  \<open>fopen\<close> of the input file are those of the option handling, which fixes the plan
  and touches neither the container nor the paths.  Then come \<open>fopen\<close>, when it
  succeeded \<open>x3f_new_from_file\<close>, when that succeeded the planned loads up to the first
  failure, and only when the load stage did not fail the one call of \<open>make_paths\<close>:
  the paths are built after the container was opened and loaded, and not at all when
  opening or loading failed.  When the load stage did not fail, the run is: the option
  handling, the open, the read and the loads, none of which builds a path, unlinks,
  encodes or renames; the call of \<open>make_paths\<close> with the messages of its bounded string
  operations, none when it returns 0; then at once, when it returned 0, the unlink of
  the temporary file, the message of the output kind and the encoder call, and
  otherwise the message about the too large path; in what follows of the run the only
  call that touches the paths or the output files is the rename after a successful
  encoder call.
\<close>

theorem paths_after_loads:
  assumes "option_vars vm = Some v" and "vm_input vm = Some infile"
  shows "(\<exists>rest. snd (main w vm) =
            prologue vm @ switch_events vm @ output_events w vm @
            [X3f_set_use_opencl (use_opencl v)] @ Fopen infile (w_fopen w infile) # rest) \<and>
     filter (\<lambda>e. container_io e \<or> is_make_paths e)
       (prologue vm @ switch_events vm @ output_events w vm @
        [X3f_set_use_opencl (use_opencl v)]) = [] \<and>
     filter (\<lambda>e. container_io e \<or> is_make_paths e) (snd (main w vm)) =
       Fopen infile (w_fopen w infile) #
       (if w_fopen w infile then
          X3f_new_from_file (w_x3f_new_from_file w infile) #
          (case w_x3f_new_from_file w infile of
             None \<Rightarrow> []
           | Some x \<Rightarrow>
               upto_first_failure (planned_loads w v x) @
               (if snd (load_sections w v infile x) then []
                else [Call_make_paths infile (outdir v) (extension (file_type v))
                        (fst (snd (make_paths (w_target w) infile (outdir v)
                           (extension (file_type v)) (w_tmpfile0 w) (w_outfile0 w))))]))
        else []) \<and>
     (w_fopen w infile \<and> w_x3f_new_from_file w infile = Some x \<and>
      \<not> snd (load_sections w v infile x) \<longrightarrow>
        (let mp = make_paths (w_target w) infile (outdir v) (extension (file_type v))
                    (w_tmpfile0 w) (w_outfile0 w);
             err = fst (snd mp); tmpfile = fst (snd (snd mp)); outfile = snd (snd (snd mp));
             msg = fst (dispatch v (resolve_sgain w v x) tmpfile outfile);
             call = snd (dispatch v (resolve_sgain w v x) tmpfile outfile);
             ret_dump = w_x3f_dump w x call;
             before = prologue vm @ switch_events vm @ output_events w vm @
               [X3f_set_use_opencl (use_opencl v), Fopen infile True,
                X3f_printf INFO ''READ THE X3F FILE %s\<newline>'' [Arg_str (Some infile)],
                X3f_new_from_file (Some x)] @ fst (load_sections w v infile x)
         in filter commit_event before = [] \<and>
            (fst mp = []) = (err = 0) \<and>
            (\<exists>rest. snd (main w vm) =
               before @
               Call_make_paths infile (outdir v) (extension (file_type v)) err # fst mp @
               (if err \<noteq> 0 then
                  [X3f_printf ERR ''Too large outfile path for infile %s and outdir %s\<newline>''
                     [Arg_str (Some infile), Arg_str (outdir v)]]
                else [Unlink tmpfile, msg, X3f_dump call ret_dump]) @ rest \<and>
               filter commit_event rest =
                 (if err = 0 \<and> ret_dump = X3F_OK
                  then [Rename tmpfile outfile (w_rename w tmpfile outfile)] else []))))"
proof -
  obtain body where b: "fst (process_file w v infile 0 0) = Fopen infile (w_fopen w infile) # body"
    using process_file_release [of w v infile 0 0] by auto
  have 1: "\<exists>rest. snd (main w vm) =
            prologue vm @ switch_events vm @ output_events w vm @
            [X3f_set_use_opencl (use_opencl v)] @ Fopen infile (w_fopen w infile) # rest"
    unfolding main_with_input [OF assms] b by simp
  have e: "filter (\<lambda>e. container_io e \<or> is_make_paths e)
      (snd (epilogue (fst (snd (process_file w v infile 0 0)))
         (snd (snd (process_file w v infile 0 0))))) = []"
    by (simp add: epilogue_def io_event_simps)
  have 3: "filter (\<lambda>e. container_io e \<or> is_make_paths e) (snd (main w vm)) =
      filter (\<lambda>e. container_io e \<or> is_make_paths e) (fst (process_file w v infile 0 0))"
  proof -
    define pre where "pre = prologue vm @ switch_events vm @ output_events w vm @
         [X3f_set_use_opencl (use_opencl v)]"
    have p: "filter (\<lambda>e. container_io e \<or> is_make_paths e) pre = []"
      unfolding pre_def by (rule option_events_no_io)
    have "snd (main w vm) =
        pre @ fst (process_file w v infile 0 0) @
        snd (epilogue (fst (snd (process_file w v infile 0 0)))
          (snd (snd (process_file w v infile 0 0))))"
      unfolding main_with_input [OF assms] pre_def by simp
    then show ?thesis
      by (simp add: p e)
  qed
  define before where "before = prologue vm @ switch_events vm @ output_events w vm @
       [X3f_set_use_opencl (use_opencl v), Fopen infile True,
        X3f_printf INFO ''READ THE X3F FILE %s\<newline>'' [Arg_str (Some infile)],
        X3f_new_from_file (Some x)] @ fst (load_sections w v infile x)"
  define mp where "mp = make_paths (w_target w) infile (outdir v) (extension (file_type v))
       (w_tmpfile0 w) (w_outfile0 w)"
  define head where "head =
     Call_make_paths infile (outdir v) (extension (file_type v)) (fst (snd mp)) # fst mp @
     (if fst (snd mp) \<noteq> 0 then
        [X3f_printf ERR ''Too large outfile path for infile %s and outdir %s\<newline>''
           [Arg_str (Some infile), Arg_str (outdir v)]]
      else [Unlink (fst (snd (snd mp))),
            fst (dispatch v (resolve_sgain w v x) (fst (snd (snd mp))) (snd (snd (snd mp)))),
            X3f_dump
              (snd (dispatch v (resolve_sgain w v x) (fst (snd (snd mp))) (snd (snd (snd mp)))))
              (w_x3f_dump w x
                (snd (dispatch v (resolve_sgain w v x) (fst (snd (snd mp)))
                   (snd (snd (snd mp))))))])"
  define renamed where "renamed =
     (if fst (snd mp) = 0 \<and>
         w_x3f_dump w x
           (snd (dispatch v (resolve_sgain w v x) (fst (snd (snd mp))) (snd (snd (snd mp))))) =
         X3F_OK
      then [Rename (fst (snd (snd mp))) (snd (snd (snd mp)))
              (w_rename w (fst (snd (snd mp))) (snd (snd (snd mp))))]
      else [])"
  have nb: "filter commit_event before = []"
    unfolding before_def by (rule loaded_prefix_no_commit)
  have q: "(fst mp = []) = (fst (snd mp) = 0)"
    using make_paths_debug [of "w_target w" infile "outdir v" "extension (file_type v)"
        "w_tmpfile0 w" "w_outfile0 w"]
    unfolding mp_def by auto
  have 4: "\<exists>rest. snd (main w vm) = before @ head @ rest \<and> filter commit_event rest = renamed"
    if h: "w_fopen w infile \<and> w_x3f_new_from_file w infile = Some x \<and>
      \<not> snd (load_sections w v infile x)"
  proof -
    from h have o: "w_fopen w infile" and n: "w_x3f_new_from_file w infile = Some x"
      and l: "\<not> snd (load_sections w v infile x)" by simp_all
    from main_loaded [OF assms o n l] obtain r1 where
      m: "snd (main w vm) = before @ fst (dump_and_commit w v infile x 0) @ r1"
      and c1: "filter commit_event r1 = []"
      unfolding before_def by blast
    from dump_and_commit_prefix [of w v infile x 0] obtain r2 where
      d: "fst (dump_and_commit w v infile x 0) = head @ r2"
      and c2: "filter commit_event r2 = renamed"
      unfolding head_def renamed_def mp_def Let_def by blast
    have "snd (main w vm) = before @ head @ (r2 @ r1)"
      unfolding m d by simp
    moreover have "filter commit_event (r2 @ r1) = renamed"
      by (simp add: c1 c2)
    ultimately show ?thesis by blast
  qed
  have 5: "w_fopen w infile \<and> w_x3f_new_from_file w infile = Some x \<and>
      \<not> snd (load_sections w v infile x) \<longrightarrow>
      filter commit_event before = [] \<and> (fst mp = []) = (fst (snd mp) = 0) \<and>
      (\<exists>rest. snd (main w vm) = before @ head @ rest \<and> filter commit_event rest = renamed)"
    using nb q 4 by blast
  have 6: "filter (\<lambda>e. container_io e \<or> is_make_paths e) (snd (main w vm)) =
       Fopen infile (w_fopen w infile) #
       (if w_fopen w infile then
          X3f_new_from_file (w_x3f_new_from_file w infile) #
          (case w_x3f_new_from_file w infile of
             None \<Rightarrow> []
           | Some x \<Rightarrow>
               upto_first_failure (planned_loads w v x) @
               (if snd (load_sections w v infile x) then []
                else [Call_make_paths infile (outdir v) (extension (file_type v))
                        (fst (snd (make_paths (w_target w) infile (outdir v)
                           (extension (file_type v)) (w_tmpfile0 w) (w_outfile0 w))))]))
        else [])"
    unfolding 3 process_file_io by (rule refl)
  from 1 option_events_no_io 6
    5 [unfolded before_def head_def renamed_def mp_def]
  show ?thesis
    unfolding Let_def by (intro conjI) simp_all
qed

theorem paths_after_loads_witness:
  "option_vars vm_photo = Some init_vars \<and> vm_input vm_photo = Some ''photo.x3f'' \<and>
   filter (\<lambda>e. container_io e \<or> is_make_paths e) (snd (main w_all_ok vm_photo)) =
     [Fopen ''photo.x3f'' True, X3f_new_from_file (Some x3f_example),
      X3f_load_data (Some 2) X3F_OK, X3f_load_data (Some 3) X3F_OK,
      X3f_load_data (Some 4) X3F_OK, Call_make_paths ''photo.x3f'' None ''.dng'' 0] \<and>
   filter (\<lambda>e. container_io e \<or> is_make_paths e) (snd (main w_camf_fails vm_photo)) =
     [Fopen ''photo.x3f'' True, X3f_new_from_file (Some x3f_example),
      X3f_load_data (Some 2) (X3F_FAILURE 1)] \<and>
   w_fopen w_all_ok ''photo.x3f'' \<and>
   w_x3f_new_from_file w_all_ok ''photo.x3f'' = Some x3f_example \<and>
   \<not> snd (load_sections w_all_ok init_vars ''photo.x3f'' x3f_example) \<and>
   take 17 (snd (main w_all_ok vm_photo)) =
     [X3f_printf INFO ''X3F TOOLS VERSION = %s\<newline>\<newline>'' [Arg_version],
      Setvbuf Stdout, Setvbuf Stderr, X3f_set_use_opencl 0,
      Fopen ''photo.x3f'' True,
      X3f_printf INFO ''READ THE X3F FILE %s\<newline>'' [Arg_str (Some ''photo.x3f'')],
      X3f_new_from_file (Some x3f_example),
      X3f_get_prop (Some 3), X3f_get_camf (Some 2),
      X3f_load_data (Some 2) X3F_OK, X3f_load_data (Some 3) X3F_OK,
      X3f_get_raw (Some 4), X3f_load_data (Some 4) X3F_OK,
      Call_make_paths ''photo.x3f'' None ''.dng'' 0,
      Unlink ''photo.x3f.dng.tmp'',
      X3f_printf INFO ''Dump RAW as DNG to %s\<newline>'' [Arg_str (Some ''photo.x3f.dng'')],
      X3f_dump (Dump_raw_data_as_dng ''photo.x3f.dng.tmp'' 1 1 1 None 0) X3F_OK] \<and>
   filter commit_event (drop 17 (snd (main w_all_ok vm_photo))) =
     [Rename ''photo.x3f.dng.tmp'' ''photo.x3f.dng'' 0]"
proof -
  have i: "vm_input vm_photo = Some ''photo.x3f''"
    by (simp add: vm_photo_def vm_defaults_def)
  have pm: "make_paths (w_target w_all_ok) ''photo.x3f'' None ''.dng''
      (w_tmpfile0 w_all_ok) (w_outfile0 w_all_ok) =
      ([], 0, ''photo.x3f.dng.tmp'', ''photo.x3f.dng'')"
    using make_paths_photo by (simp add: w_all_ok_def)
  have o: "w_fopen w_all_ok ''photo.x3f''" "w_fopen w_camf_fails ''photo.x3f''"
    "w_x3f_new_from_file w_all_ok ''photo.x3f'' = Some x3f_example"
    "w_x3f_new_from_file w_camf_fails ''photo.x3f'' = Some x3f_example"
    "outdir init_vars = None" "extension (file_type init_vars) = ''.dng''"
    by (simp_all add: w_camf_fails_def w_all_ok_def init_vars_def extension_def)
  have l: "\<not> snd (load_sections w_all_ok init_vars ''photo.x3f'' x3f_example)"
    by (simp add: load_sections_init_ok)
  have a: "filter (\<lambda>e. container_io e \<or> is_make_paths e) (snd (main w_all_ok vm_photo)) =
     [Fopen ''photo.x3f'' True, X3f_new_from_file (Some x3f_example),
      X3f_load_data (Some 2) X3F_OK, X3f_load_data (Some 3) X3F_OK,
      X3f_load_data (Some 4) X3F_OK, Call_make_paths ''photo.x3f'' None ''.dng'' 0]"
    unfolding conjunct1 [OF conjunct2 [OF conjunct2 [OF paths_after_loads [OF option_vars_photo i]]]]
    by (simp add: o pm planned_loads_all_ok load_sections_init_ok load_failed_def)
  have b: "filter (\<lambda>e. container_io e \<or> is_make_paths e) (snd (main w_camf_fails vm_photo)) =
     [Fopen ''photo.x3f'' True, X3f_new_from_file (Some x3f_example),
      X3f_load_data (Some 2) (X3F_FAILURE 1)]"
    unfolding conjunct1 [OF conjunct2 [OF conjunct2 [OF paths_after_loads [OF option_vars_photo i]]]]
    by (simp add: o planned_loads_camf_fails load_sections_camf_fails load_failed_def)
  have ev: "prologue vm_photo =
      [X3f_printf INFO ''X3F TOOLS VERSION = %s\<newline>\<newline>'' [Arg_version],
       Setvbuf Stdout, Setvbuf Stderr]"
    "switch_events vm_photo = []" "output_events w_all_ok vm_photo = []"
    "use_opencl init_vars = 0"
    by (simp_all add: vm_photo_def vm_defaults_def prologue_def switch_events_def
        output_events_def set_output_def init_vars_def)
  have dv: "dispatch init_vars (resolve_sgain w_all_ok init_vars x3f_example)
      ''photo.x3f.dng.tmp'' ''photo.x3f.dng'' =
      (X3f_printf INFO ''Dump RAW as DNG to %s\<newline>'' [Arg_str (Some ''photo.x3f.dng'')],
       Dump_raw_data_as_dng ''photo.x3f.dng.tmp'' 1 1 1 None 0)"
    by (simp add: dispatch_def resolve_sgain_def w_all_ok_def x3f_example_def init_vars_def)
  have wv: "\<And>x c. w_x3f_dump w_all_ok x c = X3F_OK" "\<And>p q. w_rename w_all_ok p q = 0"
    by (simp_all add: w_all_ok_def)
  from rev_mp [OF conjI [OF o(1) conjI [OF o(3) l]]
      conjunct2 [OF conjunct2 [OF conjunct2
        [OF paths_after_loads [OF option_vars_photo i, of w_all_ok x3f_example]]]]]
  have "\<exists>rest. snd (main w_all_ok vm_photo) =
     [X3f_printf INFO ''X3F TOOLS VERSION = %s\<newline>\<newline>'' [Arg_version],
      Setvbuf Stdout, Setvbuf Stderr, X3f_set_use_opencl 0,
      Fopen ''photo.x3f'' True,
      X3f_printf INFO ''READ THE X3F FILE %s\<newline>'' [Arg_str (Some ''photo.x3f'')],
      X3f_new_from_file (Some x3f_example),
      X3f_get_prop (Some 3), X3f_get_camf (Some 2),
      X3f_load_data (Some 2) X3F_OK, X3f_load_data (Some 3) X3F_OK,
      X3f_get_raw (Some 4), X3f_load_data (Some 4) X3F_OK,
      Call_make_paths ''photo.x3f'' None ''.dng'' 0,
      Unlink ''photo.x3f.dng.tmp'',
      X3f_printf INFO ''Dump RAW as DNG to %s\<newline>'' [Arg_str (Some ''photo.x3f.dng'')],
      X3f_dump (Dump_raw_data_as_dng ''photo.x3f.dng.tmp'' 1 1 1 None 0) X3F_OK] @ rest \<and>
     filter commit_event rest = [Rename ''photo.x3f.dng.tmp'' ''photo.x3f.dng'' 0]"
    by (simp add: Let_def o(5,6) pm dv wv ev load_sections_init_ok)
  then obtain rest where m: "snd (main w_all_ok vm_photo) =
     [X3f_printf INFO ''X3F TOOLS VERSION = %s\<newline>\<newline>'' [Arg_version],
      Setvbuf Stdout, Setvbuf Stderr, X3f_set_use_opencl 0,
      Fopen ''photo.x3f'' True,
      X3f_printf INFO ''READ THE X3F FILE %s\<newline>'' [Arg_str (Some ''photo.x3f'')],
      X3f_new_from_file (Some x3f_example),
      X3f_get_prop (Some 3), X3f_get_camf (Some 2),
      X3f_load_data (Some 2) X3F_OK, X3f_load_data (Some 3) X3F_OK,
      X3f_get_raw (Some 4), X3f_load_data (Some 4) X3F_OK,
      Call_make_paths ''photo.x3f'' None ''.dng'' 0,
      Unlink ''photo.x3f.dng.tmp'',
      X3f_printf INFO ''Dump RAW as DNG to %s\<newline>'' [Arg_str (Some ''photo.x3f.dng'')],
      X3f_dump (Dump_raw_data_as_dng ''photo.x3f.dng.tmp'' 1 1 1 None 0) X3F_OK] @ rest"
    and c: "filter commit_event rest = [Rename ''photo.x3f.dng.tmp'' ''photo.x3f.dng'' 0]"
    by blast
  have t: "take 17 (snd (main w_all_ok vm_photo)) =
     [X3f_printf INFO ''X3F TOOLS VERSION = %s\<newline>\<newline>'' [Arg_version],
      Setvbuf Stdout, Setvbuf Stderr, X3f_set_use_opencl 0,
      Fopen ''photo.x3f'' True,
      X3f_printf INFO ''READ THE X3F FILE %s\<newline>'' [Arg_str (Some ''photo.x3f'')],
      X3f_new_from_file (Some x3f_example),
      X3f_get_prop (Some 3), X3f_get_camf (Some 2),
      X3f_load_data (Some 2) X3F_OK, X3f_load_data (Some 3) X3F_OK,
      X3f_get_raw (Some 4), X3f_load_data (Some 4) X3F_OK,
      Call_make_paths ''photo.x3f'' None ''.dng'' 0,
      Unlink ''photo.x3f.dng.tmp'',
      X3f_printf INFO ''Dump RAW as DNG to %s\<newline>'' [Arg_str (Some ''photo.x3f.dng'')],
      X3f_dump (Dump_raw_data_as_dng ''photo.x3f.dng.tmp'' 1 1 1 None 0) X3F_OK]"
    unfolding m by simp
  have d: "filter commit_event (drop 17 (snd (main w_all_ok vm_photo))) =
     [Rename ''photo.x3f.dng.tmp'' ''photo.x3f.dng'' 0]"
    unfolding m using c by simp
  from option_vars_photo i a b o(1) o(3) l t d show ?thesis by (intro conjI)
qed

text \<open>
  Claim C8 as stated fails on a successful run with the default options: the container
  is opened and three sections are loaded before \<open>make_paths\<close> is called.
\<close>

theorem paths_first_counterexample:
  "\<not> paths_first (snd (main w_all_ok vm_photo))"
  by (simp add: main_photo_ok paths_first_def container_io_def is_make_paths_def)

text \<open>
  Claim C9 (release of the container handle).  Every run that reaches the processing of
  the input file, whatever the environment answers (open failure, read failure, load
  failure, path overflow, encoder failure, rename failure or success), ends with
  \<open>x3f_delete\<close> on the handle that \<open>x3f_new_from_file\<close> returned (NULL when none was
  created), then \<open>fclose\<close> when and only when \<open>fopen\<close> succeeded, then the report of
  the counters; nothing before releases the handle or the file, and nothing after uses
  them.
\<close>

theorem handle_released:
  assumes "option_vars vm = Some v" and "vm_input vm = Some infile"
  shows "\<exists>pre.
     snd (main w vm) =
       pre @
       X3f_delete (if w_fopen w infile then w_x3f_new_from_file w infile else None) #
       (if w_fopen w infile then [Fclose] else []) @
       [X3f_printf INFO (''Files processed: %d'' @ [CHR 0x09] @ ''errors: %d\<newline>'')
          [Arg_int 1, Arg_int (snd (snd (process_file w v infile 0 0)))]] \<and>
     filter release_event pre = []"
proof -
  obtain body where
    b: "fst (process_file w v infile 0 0) =
     Fopen infile (w_fopen w infile) # body @
     X3f_delete (if w_fopen w infile then w_x3f_new_from_file w infile else None) #
     (if w_fopen w infile then [Fclose] else [])"
    and nr: "filter release_event body = []"
    using process_file_release [of w v infile 0 0] by blast
  define pre where
    "pre = prologue vm @ switch_events vm @ output_events w vm @
       [X3f_set_use_opencl (use_opencl v)] @ Fopen infile (w_fopen w infile) # body"
  have 1: "fst (snd (process_file w v infile 0 0)) = 1"
    by (simp add: process_file_files)
  have tr: "snd (main w vm) =
       pre @
       X3f_delete (if w_fopen w infile then w_x3f_new_from_file w infile else None) #
       (if w_fopen w infile then [Fclose] else []) @
       [X3f_printf INFO (''Files processed: %d'' @ [CHR 0x09] @ ''errors: %d\<newline>'')
          [Arg_int 1, Arg_int (snd (snd (process_file w v infile 0 0)))]]"
    unfolding main_with_input [OF assms] b pre_def 1
    by (simp add: epilogue_def)
  have pre_nr: "filter release_event pre = []"
    using nr
    by (auto simp: pre_def prologue_def switch_events_def output_events_def set_output_def
        Let_def release_event_def split: option.splits)
  from tr pre_nr show ?thesis by blast
qed

theorem handle_released_witness:
  "option_vars vm_photo = Some init_vars \<and> vm_input vm_photo = Some ''photo.x3f'' \<and>
   (\<exists>pre. snd (main w_all_ok vm_photo) =
       pre @ [X3f_delete (Some x3f_example), Fclose,
         X3f_printf INFO (''Files processed: %d'' @ [CHR 0x09] @ ''errors: %d\<newline>'')
           [Arg_int 1, Arg_int 0]] \<and>
       filter release_event pre = [])"
proof -
  have i: "vm_input vm_photo = Some ''photo.x3f''"
    by (simp add: vm_photo_def vm_defaults_def)
  have w: "w_fopen w_all_ok ''photo.x3f''"
    "w_x3f_new_from_file w_all_ok ''photo.x3f'' = Some x3f_example"
    by (simp_all add: w_all_ok_def)
  from handle_released [OF option_vars_photo i, of w_all_ok]
  show ?thesis
    unfolding process_file_photo_ok using i option_vars_photo w by simp
qed


text \<open>
  Claim C10 (an output directory that does not exist or is not a directory), as
  amended.  When \<open>stat\<close> fails on the directory string or \<open>S_ISDIR\<close> is false,
  \<open>check_dir\<close> does not return 0 and the run only gains the usage text on \<open>std::cerr\<close>
  after the \<open>stat\<close> call: the directory string is still the \<open>outdir\<close> handed to
  \<open>make_paths\<close>, the file is processed, the error counter and the exit status are
  those of the file processing, which does not depend on what \<open>stat\<close> answers.  The
  unlink, the encoder call and the rename of the run are on the final path of this
  directory string and on that path followed by \<open>.tmp\<close>; the final path starts with the
  directory string when the string is not empty, and is the input path followed by the
  extension when it is empty.
\<close>

theorem invalid_outdir_only_usage:
  assumes "option_vars vm = Some v" and "vm_input vm = Some infile"
    and "vm_output vm = Some d" and "fst (w_stat w d) \<noteq> 0 \<or> \<not> snd (w_stat w d)"
  shows "check_dir w d \<noteq> 0 \<and> outdir v = Some d \<and>
     main w vm =
       (if snd (snd (process_file w v infile 0 0)) > 0 then 1 else 0,
        prologue vm @ switch_events vm @
        [Stat d (fst (w_stat w d)), Cerr_desc, Cerr_endl] @
        [X3f_set_use_opencl (use_opencl v)] @
        fst (process_file w v infile 0 0) @
        [X3f_printf INFO (''Files processed: %d'' @ [CHR 0x09] @ ''errors: %d\<newline>'')
           [Arg_int 1, Arg_int (snd (snd (process_file w v infile 0 0)))]]) \<and>
     process_file w v infile 0 0 = process_file (w\<lparr>w_stat := (\<lambda>p. (0, True))\<rparr>) v infile 0 0 \<and>
     (\<forall>i od ex er. Call_make_paths i od ex er \<in> set (snd (main w vm)) \<longrightarrow> od = Some d) \<and>
     (let ext = extension (file_type v);
          final = final_path (w_target w) infile (Some d) ext;
          err = fst (snd (make_paths (w_target w) infile (Some d) ext
                  (w_tmpfile0 w) (w_outfile0 w)))
      in final =
           (if d \<noteq> [] then
              d @ (if last d \<in> set (pathseps (w_target w)) then [] else PATHSEP (w_target w)) @
              spec_basename (w_target w) infile @ ext
            else infile @ ext) \<and>
         (err = 0) = (length final \<le> MAXOUTPATH) \<and>
         filter commit_event (snd (main w vm)) =
           (if w_fopen w infile then
              (case w_x3f_new_from_file w infile of
                 None \<Rightarrow> []
               | Some x \<Rightarrow>
                   if snd (load_sections w v infile x) then []
                   else
                     (let call = snd (dispatch v (resolve_sgain w v x) (final @ ''.tmp'') final);
                          ret_dump = w_x3f_dump w x call
                      in Call_make_paths infile (Some d) ext err #
                         (if length final \<le> MAXOUTPATH then
                            [Unlink (final @ ''.tmp''), X3f_dump call ret_dump] @
                            (if ret_dump = X3F_OK
                             then [Rename (final @ ''.tmp'') final
                                     (w_rename w (final @ ''.tmp'') final)]
                             else [])
                          else [])))
            else []))"
proof -
  have cd: "check_dir w d \<noteq> 0"
    using assms(4) by (auto simp: check_dir_def case_prod_beta Let_def)
  have od: "outdir v = Some d"
    using option_vars_outdir [OF assms(1)] assms(3) by simp
  have oe: "output_events w vm = [Stat d (fst (w_stat w d)), Cerr_desc, Cerr_endl]"
    using assms(3) cd by (simp add: output_events_def set_output_def Let_def)
  have 1: "fst (snd (process_file w v infile 0 0)) = 1"
    by (simp add: process_file_files)
  have m: "main w vm =
       (if snd (snd (process_file w v infile 0 0)) > 0 then 1 else 0,
        prologue vm @ switch_events vm @
        [Stat d (fst (w_stat w d)), Cerr_desc, Cerr_endl] @
        [X3f_set_use_opencl (use_opencl v)] @
        fst (process_file w v infile 0 0) @
        [X3f_printf INFO (''Files processed: %d'' @ [CHR 0x09] @ ''errors: %d\<newline>'')
           [Arg_int 1, Arg_int (snd (snd (process_file w v infile 0 0)))]])"
    unfolding main_with_input [OF assms(1,2)] oe 1 by (simp add: epilogue_def)
  have cm: "od' = Some d" if "Call_make_paths i od' ex er \<in> set (snd (main w vm))" for i od' ex er
  proof -
    have ce: "commit_event (Call_make_paths i od' ex er)"
      by (simp add: commit_event_def)
    have "Call_make_paths i od' ex er \<in> set (fst (process_file w v infile 0 0))"
      using main_commit_events [OF assms(1,2) that ce] .
    from process_file_commit_events [OF this ce]
    obtain x where "Call_make_paths i od' ex er \<in> set (fst (dump_and_commit w v infile x 0))"
      by blast
    then have "od' = outdir v"
      by (simp add: dump_and_commit_make_paths_event)
    with od show ?thesis by simp
  qed
  have ps: "process_file w v infile 0 0 =
      process_file (w\<lparr>w_stat := (\<lambda>p. (0, True))\<rparr>) v infile 0 0"
    by (simp add: process_file_stat)
  have fp: "final_path (w_target w) infile (Some d) (extension (file_type v)) =
      (if d \<noteq> [] then
         d @ (if last d \<in> set (pathseps (w_target w)) then [] else PATHSEP (w_target w)) @
         spec_basename (w_target w) infile @ extension (file_type v)
       else infile @ extension (file_type v))"
    by (simp add: final_path_def)
  have ei: "(fst (snd (make_paths (w_target w) infile (Some d) (extension (file_type v))
                  (w_tmpfile0 w) (w_outfile0 w))) = 0) =
      (length (final_path (w_target w) infile (Some d) (extension (file_type v))) \<le> MAXOUTPATH)"
    by (rule make_paths_err_iff)
  note cf = main_commit_final [OF assms(1,2), of w, unfolded od Let_def]
  have all: "\<forall>i od ex er. Call_make_paths i od ex er \<in> set (snd (main w vm)) \<longrightarrow> od = Some d"
    using cm by blast
  from cd od m ps all fp ei cf show ?thesis
    unfolding Let_def by (intro conjI)
qed

theorem invalid_outdir_only_usage_witness:
  "option_vars vm_photo_out = Some (init_vars\<lparr>outdir := Some ''/out''\<rparr>) \<and>
   vm_input vm_photo_out = Some ''/in/photo.x3f'' \<and>
   vm_output vm_photo_out = Some ''/out'' \<and> fst (w_stat w_no_dir ''/out'') = - 1 \<and>
   check_dir w_no_dir ''/out'' \<noteq> 0 \<and>
   fst (main w_no_dir vm_photo_out) = 0 \<and>
   Call_make_paths ''/in/photo.x3f'' (Some ''/out'') ''.dng'' 0
     \<in> set (snd (main w_no_dir vm_photo_out)) \<and>
   filter commit_event (snd (main w_no_dir vm_photo_out)) =
     [Call_make_paths ''/in/photo.x3f'' (Some ''/out'') ''.dng'' 0,
      Unlink ''/out/photo.x3f.dng.tmp'',
      X3f_dump (Dump_raw_data_as_dng ''/out/photo.x3f.dng.tmp'' 1 1 1 None 0) X3F_OK,
      Rename ''/out/photo.x3f.dng.tmp'' ''/out/photo.x3f.dng'' 0]"
proof -
  have i: "vm_input vm_photo_out = Some ''/in/photo.x3f''"
    and o: "vm_output vm_photo_out = Some ''/out''"
    by (simp_all add: vm_photo_out_def vm_defaults_def)
  have s: "fst (w_stat w_no_dir ''/out'') = - 1"
    by (simp add: w_no_dir_def)
  then have c: "fst (w_stat w_no_dir ''/out'') \<noteq> 0 \<or> \<not> snd (w_stat w_no_dir ''/out'')"
    by simp
  note t = invalid_outdir_only_usage [OF option_vars_photo_out i o c]
  have cd: "check_dir w_no_dir ''/out'' \<noteq> 0"
    using conjunct1 [OF t] .
  note m = conjunct1 [OF conjunct2 [OF conjunct2 [OF t]]]
  have r: "fst (main w_no_dir vm_photo_out) = 0 \<and>
     Call_make_paths ''/in/photo.x3f'' (Some ''/out'') ''.dng'' 0
       \<in> set (snd (main w_no_dir vm_photo_out))"
    unfolding m process_file_photo_out by simp
  have w: "w_target w_no_dir = Other" "w_tmpfile0 w_no_dir = []" "w_outfile0 w_no_dir = []"
    "w_fopen w_no_dir ''/in/photo.x3f''"
    "w_x3f_new_from_file w_no_dir ''/in/photo.x3f'' = Some x3f_example"
    "\<And>x c. w_x3f_dump w_no_dir x c = X3F_OK" "\<And>p q. w_rename w_no_dir p q = 0"
    "w_X3F_VERSION_4_0 w_no_dir = 0x40000"
    by (simp_all add: w_no_dir_def w_all_ok_def)
  have l: "load_sections w_no_dir (init_vars\<lparr>outdir := Some ''/out''\<rparr>) ''/in/photo.x3f''
      x3f_example =
     ([X3f_get_prop (Some 3), X3f_get_camf (Some 2),
       X3f_load_data (Some 2) X3F_OK, X3f_load_data (Some 3) X3F_OK,
       X3f_get_raw (Some 4), X3f_load_data (Some 4) X3F_OK], False)"
    unfolding w_no_dir_def load_sections_stat by (rule load_sections_example)
  have e: "extension (file_type init_vars) = ''.dng''"
    by (simp add: init_vars_def extension_def)
  have f: "final_path Other ''/in/photo.x3f'' (Some ''/out'') ''.dng'' = ''/out/photo.x3f.dng''"
    by (simp add: final_path_def spec_basename_def pathseps_def PATHSEP_def)
  have dv: "snd (dispatch (init_vars\<lparr>outdir := Some ''/out''\<rparr>)
      (resolve_sgain w_no_dir (init_vars\<lparr>outdir := Some ''/out''\<rparr>) x3f_example)
      ''/out/photo.x3f.dng.tmp'' ''/out/photo.x3f.dng'') =
      Dump_raw_data_as_dng ''/out/photo.x3f.dng.tmp'' 1 1 1 None 0"
    by (simp add: dispatch_def resolve_sgain_def w x3f_example_def init_vars_def)
  have k: "filter commit_event (snd (main w_no_dir vm_photo_out)) =
     [Call_make_paths ''/in/photo.x3f'' (Some ''/out'') ''.dng'' 0,
      Unlink ''/out/photo.x3f.dng.tmp'',
      X3f_dump (Dump_raw_data_as_dng ''/out/photo.x3f.dng.tmp'' 1 1 1 None 0) X3F_OK,
      Rename ''/out/photo.x3f.dng.tmp'' ''/out/photo.x3f.dng'' 0]"
    using conjunct2 [OF conjunct2 [OF conjunct2 [OF conjunct2 [OF conjunct2 [OF t]]]]]
    by (simp add: Let_def e w l f dv make_paths_photo_out MAXOUTPATH_def MAXPATH_def EXTMAX_def)
  from option_vars_photo_out i o s cd r k show ?thesis by simp
qed

text \<open>
  Claim C10 as stated fails for a directory string that is empty: \<open>stat\<close> fails on it,
  the usage text is printed and the file is processed, but \<open>make_paths\<close> does not use
  the string: the output is written and renamed beside the input file, where the claim
  puts it under the directory string.
\<close>

theorem invalid_outdir_empty_counterexample:
  "vm_input vm_empty_out = Some ''a/b.x3f'' \<and> vm_output vm_empty_out = Some [] \<and>
   fst (w_stat w_no_dir []) = - 1 \<and>
   filter commit_event (snd (main w_no_dir vm_empty_out)) =
     [Call_make_paths ''a/b.x3f'' (Some []) ''.dng'' 0,
      Unlink ''a/b.x3f.dng.tmp'',
      X3f_dump (Dump_raw_data_as_dng ''a/b.x3f.dng.tmp'' 1 1 1 None 0) X3F_OK,
      Rename ''a/b.x3f.dng.tmp'' ''a/b.x3f.dng'' 0] \<and>
   claimed_final_path Other ''a/b.x3f'' (Some []) ''.dng'' = ''/b.x3f.dng'' \<and>
   ''a/b.x3f.dng'' \<noteq> claimed_final_path Other ''a/b.x3f'' (Some []) ''.dng''"
proof -
  let ?v = "init_vars\<lparr>outdir := Some []\<rparr>"
  have i: "vm_input vm_empty_out = Some ''a/b.x3f''"
    and o: "vm_output vm_empty_out = Some []"
    by (simp_all add: vm_empty_out_def vm_defaults_def)
  have s: "fst (w_stat w_no_dir []) = - 1"
    by (simp add: w_no_dir_def)
  have ov: "option_vars vm_empty_out = Some ?v"
    by (simp add: option_vars_def vm_empty_out_def vm_defaults_def set_switches_def
        init_vars_def Let_def)
  have w: "w_target w_no_dir = Other" "w_tmpfile0 w_no_dir = []" "w_outfile0 w_no_dir = []"
    "w_fopen w_no_dir ''a/b.x3f''"
    "w_x3f_new_from_file w_no_dir ''a/b.x3f'' = Some x3f_example"
    "\<And>x c. w_x3f_dump w_no_dir x c = X3F_OK" "\<And>p q. w_rename w_no_dir p q = 0"
    "w_X3F_VERSION_4_0 w_no_dir = 0x40000"
    by (simp_all add: w_no_dir_def w_all_ok_def)
  have l: "load_sections w_no_dir ?v ''a/b.x3f'' x3f_example =
     ([X3f_get_prop (Some 3), X3f_get_camf (Some 2),
       X3f_load_data (Some 2) X3F_OK, X3f_load_data (Some 3) X3F_OK,
       X3f_get_raw (Some 4), X3f_load_data (Some 4) X3F_OK], False)"
    unfolding w_no_dir_def load_sections_stat by (rule load_sections_example)
  have e: "extension (file_type init_vars) = ''.dng''"
    by (simp add: init_vars_def extension_def)
  have f: "final_path Other ''a/b.x3f'' (Some []) ''.dng'' = ''a/b.x3f.dng''"
    by (simp add: final_path_def)
  have pm: "make_paths Other ''a/b.x3f'' (Some []) ''.dng'' [] [] =
      ([], 0, ''a/b.x3f.dng.tmp'', ''a/b.x3f.dng'')"
    by code_simp
  have dv: "snd (dispatch ?v (resolve_sgain w_no_dir ?v x3f_example)
      ''a/b.x3f.dng.tmp'' ''a/b.x3f.dng'') =
      Dump_raw_data_as_dng ''a/b.x3f.dng.tmp'' 1 1 1 None 0"
    by (simp add: dispatch_def resolve_sgain_def w x3f_example_def init_vars_def)
  have k: "filter commit_event (snd (main w_no_dir vm_empty_out)) =
     [Call_make_paths ''a/b.x3f'' (Some []) ''.dng'' 0,
      Unlink ''a/b.x3f.dng.tmp'',
      X3f_dump (Dump_raw_data_as_dng ''a/b.x3f.dng.tmp'' 1 1 1 None 0) X3F_OK,
      Rename ''a/b.x3f.dng.tmp'' ''a/b.x3f.dng'' 0]"
    unfolding main_commit_final [OF ov i]
    by (simp add: Let_def e w l f dv pm MAXOUTPATH_def MAXPATH_def EXTMAX_def)
  have c: "claimed_final_path Other ''a/b.x3f'' (Some []) ''.dng'' = ''/b.x3f.dng''"
    by code_simp
  from i o s k c show ?thesis by simp
qed

end
